(* ===== verification/Prelude.thy ===== *)
theory Prelude
  imports Main "HOL-Library.Word" "HOL-Library.List_Lexorder" "HOL-Library.Char_ord"
begin

text \<open>
  Shared vocabulary of the development: the Python exceptions the modelled code can
  raise, the result type \<open>py_error + 'a\<close> with its bind, bytes as \<open>8 word\<close>, and
  the Python built-ins the code calls on strings (\<open>str(int)\<close>, \<open>str.replace\<close>,
  \<open>str.strip\<close>, \<open>str.split\<close>, indexing, \<open>encode('ascii')\<close>,
  \<open>decode('ascii')\<close>), each with the lemmas the component proofs share.
  Python's \<open>str\<close> is a sequence of code points; every code point the sources use is
  below 256, so it is one HOL \<open>char\<close>.
\<close>

named_theorems pystr "facts on the Python string built-ins used by the components"
named_theorems frame "frame facts: fields an operation leaves unchanged"

section \<open>Errors and results\<close>

datatype py_error =
    ValueError string
  | KeyError
  | IndexError
  | TypeError
  | UnicodeEncodeError
  | UnicodeDecodeError
  | SerialException string
  | AttributeError string
  | BinasciiError string

type_synonym 'a result = "py_error + 'a"

type_synonym byte = "8 word"

definition rbind :: "'a result \<Rightarrow> ('a \<Rightarrow> 'b result) \<Rightarrow> 'b result" where
  "rbind m f = (case m of Inl e \<Rightarrow> Inl e | Inr x \<Rightarrow> f x)"

lemma rbind_Inl [simp]: "rbind (Inl e) f = Inl e"
  and rbind_Inr [simp]: "rbind (Inr x) f = f x"
  by (simp_all add: rbind_def)

lemma rbind_eq_Inr [simp]:
  "rbind m f = Inr y \<longleftrightarrow> (\<exists>x. m = Inr x \<and> f x = Inr y)"
  by (cases m) (simp_all add: rbind_def)

text \<open>An operation on a state \<open>'s\<close> that may raise, may not return, and keeps
  the state changes made before a raise (Python does not roll them back):
  \<open>None\<close> is "does not return", \<open>Some (Inl e, s)\<close> raised \<open>e\<close> in state
  \<open>s\<close>, \<open>Some (Inr x, s)\<close> returned \<open>x\<close>.\<close>

type_synonym ('s, 'a) outcome = "('a result \<times> 's) option"

definition obind :: "('s, 'a) outcome \<Rightarrow> ('a \<Rightarrow> 's \<Rightarrow> ('s, 'b) outcome) \<Rightarrow> ('s, 'b) outcome" where
  "obind m f = (case m of None \<Rightarrow> None | Some (Inl e, s) \<Rightarrow> Some (Inl e, s) | Some (Inr x, s) \<Rightarrow> f x s)"

lemma obind_None [simp]: "obind None f = None"
  and obind_Inl [simp]: "obind (Some (Inl e, s)) f = Some (Inl e, s)"
  and obind_Inr [simp]: "obind (Some (Inr x, s)) f = f x s"
  by (simp_all add: obind_def)

section \<open>Dictionaries\<close>

text \<open>A Python \<open>dict\<close> whose iteration order matters is an association list in
  insertion order; \<open>d[k]\<close> raises \<open>KeyError\<close> on a missing key.\<close>

definition dict_get :: "('k \<times> 'v) list \<Rightarrow> 'k \<Rightarrow> 'v result" where
  "dict_get d k = (case map_of d k of None \<Rightarrow> Inl KeyError | Some v \<Rightarrow> Inr v)"

lemma dict_get_Inr [simp]: "dict_get d k = Inr v \<longleftrightarrow> map_of d k = Some v"
  by (simp add: dict_get_def split: option.splits)

lemma dict_get_Inl [simp]: "dict_get d k = Inl e \<longleftrightarrow> map_of d k = None \<and> e = KeyError"
  by (auto simp: dict_get_def split: option.splits)

section \<open>Indexing\<close>

text \<open>\<open>s[i]\<close> on a Python sequence: negative indices count from the end, out of range
  raises \<open>IndexError\<close>.\<close>

definition py_index :: "'a list \<Rightarrow> int \<Rightarrow> 'a result" where
  "py_index xs i =
     (if - int (length xs) \<le> i \<and> i < int (length xs)
      then Inr (xs ! nat (i mod int (length xs))) else Inl IndexError)"

lemma py_index_nat [pystr]: "i < length xs \<Longrightarrow> py_index xs (int i) = Inr (xs ! i)"
  by (simp add: py_index_def nat_mod_distrib)

section \<open>\<open>str\<close> of a non-negative integer\<close>

definition digit_char :: "nat \<Rightarrow> char" where
  "digit_char d = char_of (48 + d)"

fun py_str_nat :: "nat \<Rightarrow> string" where
  "py_str_nat n = (if n < 10 then [digit_char n] else py_str_nat (n div 10) @ [digit_char (n mod 10)])"

declare py_str_nat.simps [simp del]

definition py_str_int :: "int \<Rightarrow> string" where
  "py_str_int i = (if i < 0 then CHR ''-'' # py_str_nat (nat (- i)) else py_str_nat (nat i))"

lemma py_str_nat_small [pystr]: "n < 10 \<Longrightarrow> py_str_nat n = [digit_char n]"
  by (simp add: py_str_nat.simps)

lemma py_str_nat_two [pystr]:
  "10 \<le> n \<Longrightarrow> n < 100 \<Longrightarrow> py_str_nat n = [digit_char (n div 10), digit_char (n mod 10)]"
  by (simp add: py_str_nat.simps [of n] py_str_nat_small)

lemma py_str_nat_nonempty: "py_str_nat n \<noteq> []"
  by (simp add: py_str_nat.simps [of n])

lemma of_char_digit_char [pystr]: "d < 10 \<Longrightarrow> of_char (digit_char d) = 48 + d"
  by (simp add: digit_char_def)

lemma digit_char_inj [pystr]: "d < 10 \<Longrightarrow> e < 10 \<Longrightarrow> digit_char d = digit_char e \<longleftrightarrow> d = e"
  by (metis of_char_digit_char add_left_cancel)

section \<open>\<open>str.replace\<close>\<close>

text \<open>\<open>s.replace(old, new)\<close>: scan left to right, replace each non-overlapping occurrence
  of a non-empty \<open>old\<close>; an empty \<open>old\<close> inserts \<open>new\<close> around every character.\<close>

function replace_nonempty :: "string \<Rightarrow> string \<Rightarrow> string \<Rightarrow> string" where
  "replace_nonempty old new [] = []"
| "replace_nonempty old new (c # cs) =
     (if old \<noteq> [] \<and> take (length old) (c # cs) = old
      then new @ replace_nonempty old new (drop (length old - 1) cs)
      else c # replace_nonempty old new cs)"
  by pat_completeness auto
termination
  by (relation "measure (\<lambda>(_, _, s). length s)") auto

definition py_replace :: "string \<Rightarrow> string \<Rightarrow> string \<Rightarrow> string" where
  "py_replace old new s =
     (if old = [] then new @ concat (map (\<lambda>c. c # new) s) else replace_nonempty old new s)"

lemma py_replace_Nil [pystr]: "old \<noteq> [] \<Longrightarrow> py_replace old new [] = []"
  by (simp add: py_replace_def)

lemma py_replace_match [pystr]:
  "old \<noteq> [] \<Longrightarrow> py_replace old new (old @ s) = new @ py_replace old new s"
  by (cases old) (simp_all add: py_replace_def)

lemma py_replace_skip [pystr]:
  "old \<noteq> [] \<Longrightarrow> c \<noteq> hd old \<Longrightarrow> py_replace old new (c # s) = c # py_replace old new s"
  by (cases old) (auto simp: py_replace_def)

lemma py_replace_skip_list [pystr]:
  "old \<noteq> [] \<Longrightarrow> hd old \<notin> set xs \<Longrightarrow> py_replace old new (xs @ s) = xs @ py_replace old new s"
  by (induction xs) (auto simp: py_replace_skip)

lemma py_replace_absent [pystr]:
  "old \<noteq> [] \<Longrightarrow> hd old \<notin> set s \<Longrightarrow> py_replace old new s = s"
  using py_replace_skip_list [of old s new "[]"] by (simp add: py_replace_Nil)

section \<open>\<open>str.strip\<close>\<close>

text \<open>The characters below 256 for which Python's \<open>str.isspace\<close> holds.\<close>

definition is_py_space :: "char \<Rightarrow> bool" where
  "is_py_space c =
     (let n = of_char c :: nat
      in (9 \<le> n \<and> n \<le> 13) \<or> (28 \<le> n \<and> n \<le> 32) \<or> n = 133 \<or> n = 160)"

definition py_strip :: "string \<Rightarrow> string" where
  "py_strip s = rev (dropWhile is_py_space (rev (dropWhile is_py_space s)))"

lemma py_strip_stripped [pystr]:
  assumes "s = [] \<or> (\<not> is_py_space (hd s) \<and> \<not> is_py_space (last s))"
  shows "py_strip s = s"
proof (cases "s = []")
  case True
  then show ?thesis by (simp add: py_strip_def)
next
  case False
  with assms have h: "\<not> is_py_space (hd s)" and l: "\<not> is_py_space (hd (rev s))"
    by (simp_all add: hd_rev)
  from False h have "dropWhile is_py_space s = s"
    by (cases s) simp_all
  moreover from False l have "dropWhile is_py_space (rev s) = rev s"
    by (cases "rev s") simp_all
  ultimately show ?thesis by (simp add: py_strip_def)
qed

lemma py_strip_ends [pystr]:
  "py_strip s = [] \<or> (\<not> is_py_space (hd (py_strip s)) \<and> \<not> is_py_space (last (py_strip s)))"
proof -
  let ?d = "dropWhile is_py_space"
  define a where "a = ?d s"
  define k where "k = length (takeWhile is_py_space (rev a))"
  have b: "?d (rev a) = drop k (rev a)"
    by (simp add: k_def dropWhile_eq_drop)
  have r: "py_strip s = take (length a - k) a"
    by (simp add: py_strip_def a_def [symmetric] b rev_drop)
  show ?thesis
  proof (cases "py_strip s = []")
    case False
    then have ne1: "?d (rev a) \<noteq> []"
      by (simp add: py_strip_def a_def)
    then have ne2: "a \<noteq> []"
      by auto
    have "last (py_strip s) = hd (?d (rev a))"
      using ne1 by (simp add: py_strip_def a_def [symmetric] last_rev)
    then have l: "\<not> is_py_space (last (py_strip s))"
      using hd_dropWhile [OF ne1] by simp
    have "hd (py_strip s) = hd a"
      using False by (simp add: r hd_take)
    then have h: "\<not> is_py_space (hd (py_strip s))"
      using hd_dropWhile ne2 by (simp add: a_def)
    from h l show ?thesis by blast
  qed simp
qed

lemma py_strip_idem [pystr]: "py_strip (py_strip s) = py_strip s"
  using py_strip_ends [of s] py_strip_stripped by blast

section \<open>ASCII codec\<close>

definition byte_of_char :: "char \<Rightarrow> byte" where
  "byte_of_char c = word_of_nat (of_char c)"

definition char_of_byte :: "byte \<Rightarrow> char" where
  "char_of_byte b = char_of (unat b)"

text \<open>\<open>s.encode('ascii')\<close> and \<open>b.decode('ascii')\<close>: code points and bytes from 128
  upwards raise.\<close>

definition encode_ascii :: "string \<Rightarrow> byte list result" where
  "encode_ascii s = (if \<forall>c \<in> set s. of_char c < (128::nat) then Inr (map byte_of_char s)
                     else Inl UnicodeEncodeError)"

definition decode_ascii :: "byte list \<Rightarrow> string result" where
  "decode_ascii bs = (if \<forall>b \<in> set bs. unat b < 128 then Inr (map char_of_byte bs)
                      else Inl UnicodeDecodeError)"

lemma unat_byte_of_char [pystr]: "unat (byte_of_char c) = of_char c"
proof -
  have "of_char c < (256::nat)" by simp
  then show ?thesis by (simp add: byte_of_char_def unat_of_nat take_bit_nat_eq_self)
qed

lemma char_of_byte_of_char [pystr]: "char_of_byte (byte_of_char c) = c"
  by (simp add: char_of_byte_def unat_byte_of_char)

lemma byte_of_char_of_byte [pystr]: "byte_of_char (char_of_byte b) = b"
proof -
  have "unat b < 256" using unsigned_less [of b] by simp
  then have "of_char (char_of (unat b) :: char) = unat b"
    by simp
  then show ?thesis by (simp add: byte_of_char_def char_of_byte_def)
qed

lemma decode_encode_ascii [pystr]:
  "encode_ascii s = Inr bs \<Longrightarrow> decode_ascii bs = Inr s"
  by (auto simp: encode_ascii_def decode_ascii_def unat_byte_of_char comp_def
      char_of_byte_of_char split: if_splits)

lemma encode_ascii_append [pystr]:
  "encode_ascii (s @ t) = rbind (encode_ascii s) (\<lambda>bs. rbind (encode_ascii t) (\<lambda>cs. Inr (bs @ cs)))"
  by (auto simp: encode_ascii_def)

subsection \<open>Dictionaries, lists and sequencing\<close>

text \<open>Python's \<open>d[k] = v\<close> on an insertion-ordered dict (an existing key keeps its
  position), and the dict built from a sequence of pairs (a dict comprehension or
  \<open>dict(...)\<close>), as association lists.\<close>

definition dict_set :: "('k \<times> 'v) list \<Rightarrow> 'k \<Rightarrow> 'v \<Rightarrow> ('k \<times> 'v) list" where
  "dict_set d k v =
     (if k \<in> set (map fst d) then map (\<lambda>(k', v'). if k' = k then (k, v) else (k', v')) d
      else d @ [(k, v)])"

definition dict_from :: "('k \<times> 'v) list \<Rightarrow> ('k \<times> 'v) list" where
  "dict_from kvs = fold (\<lambda>(k, v) d. dict_set d k v) kvs []"

text \<open>\<open>list.index(x)\<close>: the first position of \<open>x\<close>, \<open>ValueError\<close> when absent.\<close>

fun list_index :: "'a list \<Rightarrow> 'a \<Rightarrow> nat result" where
  "list_index [] x = Inl (ValueError ''x not in list'')"
| "list_index (y # ys) x = (if y = x then Inr 0 else rbind (list_index ys x) (\<lambda>i. Inr (Suc i)))"

text \<open>\<open>s.split(c)\<close> for a one-character separator.\<close>

fun py_split :: "char \<Rightarrow> string \<Rightarrow> string list" where
  "py_split c [] = [[]]"
| "py_split c (x # xs) =
     (if x = c then [] # py_split c xs
      else (case py_split c xs of [] \<Rightarrow> [[x]] | w # ws \<Rightarrow> (x # w) # ws))"

text \<open>Statement sequencing where an exception ends the block with the state reached, and a
  \<^verbatim>\<open>for\<close> loop over such statements.\<close>

definition sthen :: "'a result \<times> 's \<Rightarrow> ('a \<Rightarrow> 's \<Rightarrow> 'b result \<times> 's) \<Rightarrow> 'b result \<times> 's" where
  "sthen r f = (case r of (Inl e, s) \<Rightarrow> (Inl e, s) | (Inr x, s) \<Rightarrow> f x s)"

fun for_each :: "('a \<Rightarrow> 's \<Rightarrow> unit result \<times> 's) \<Rightarrow> 'a list \<Rightarrow> 's \<Rightarrow> unit result \<times> 's" where
  "for_each f [] s = (Inr (), s)"
| "for_each f (x # xs) s = sthen (f x s) (\<lambda>_ s'. for_each f xs s')"

lemma map_of_replace_at:
  "map_of (map (\<lambda>(k', v'). if k' = k then (k, v) else (k', v')) d) k
   = (if k \<in> set (map fst d) then Some v else None)"
  by (induction d) auto

lemma map_of_replace_other:
  "x \<noteq> k \<Longrightarrow> map_of (map (\<lambda>(k', v'). if k' = k then (k, v) else (k', v')) d) x = map_of d x"
  by (induction d) auto
lemma map_of_dict_set [simp]: "map_of (dict_set d k v) = (map_of d)(k \<mapsto> v)"
proof
  fix x
  show "map_of (dict_set d k v) x = ((map_of d)(k \<mapsto> v)) x"
  proof (cases "k \<in> set (map fst d)")
    case True
    then show ?thesis by (cases "x = k") (simp_all add: dict_set_def map_of_replace_at map_of_replace_other)
  next
    case False
    then have "map_of d k = None" by (simp add: map_of_eq_None_iff)
    then show ?thesis using False by (auto simp: dict_set_def map_add_def split: option.splits)
  qed
qed

lemma keys_dict_set [simp]:
  "map fst (dict_set d k v) = (if k \<in> set (map fst d) then map fst d else map fst d @ [k])"
  by (induction d) (auto simp: dict_set_def)

lemma fold_dict_set_distinct:
  "distinct (map fst (d @ kvs)) \<Longrightarrow> fold (\<lambda>(k, v) d. dict_set d k v) kvs d = d @ kvs"
proof (induction kvs arbitrary: d)
  case (Cons p kvs)
  obtain k v where p: "p = (k, v)" by fastforce
  have "k \<notin> set (map fst d)" using Cons.prems p by auto
  then have "dict_set d k v = d @ [(k, v)]" by (simp add: dict_set_def)
  moreover have "distinct (map fst ((d @ [(k, v)]) @ kvs))" using Cons.prems p by simp
  ultimately show ?case using Cons.IH p by simp
qed simp

lemma dict_from_distinct: "distinct (map fst kvs) \<Longrightarrow> dict_from kvs = kvs"
  using fold_dict_set_distinct [of "[]" kvs] by (simp add: dict_from_def)

lemma list_index_found:
  "x \<in> set xs \<Longrightarrow> \<exists>i. list_index xs x = Inr i \<and> i < length xs \<and> xs ! i = x"
proof (induction xs)
  case (Cons y ys)
  show ?case
  proof (cases "y = x")
    case False
    then obtain i where "list_index ys x = Inr i" "i < length ys" "ys ! i = x"
      using Cons by auto
    then show ?thesis using False by auto
  qed simp
qed simp

lemma list_index_absent: "x \<notin> set xs \<Longrightarrow> list_index xs x = Inl (ValueError ''x not in list'')"
  by (induction xs) auto

lemma list_index_distinct: "distinct xs \<Longrightarrow> i < length xs \<Longrightarrow> list_index xs (xs ! i) = Inr i"
proof (induction xs arbitrary: i)
  case (Cons y ys)
  then show ?case by (cases i) (auto simp: nth_mem)
qed simp

lemma py_split_no_sep: "c \<notin> set w \<Longrightarrow> py_split c w = [w]"
  by (induction w) auto

lemma py_split_sep_append: "c \<notin> set w \<Longrightarrow> py_split c (w @ c # r) = w # py_split c r"
proof (induction w)
  case (Cons x w)
  then show ?case by (cases "py_split c r") auto
qed simp

text \<open>Appending \<open>w + "|"\<close> for every element and cutting the last character, as the code
  builds a \<open>|\<close>-separated string, is undone by \<open>split('|')\<close>.\<close>

lemma py_split_terminated:
  assumes "ws \<noteq> []" "\<forall>w\<in>set ws. c \<notin> set w"
  shows "py_split c (butlast (concat (map (\<lambda>w. w @ [c]) ws))) = ws"
  using assms
proof (induction ws)
  case (Cons w ws)
  show ?case
  proof (cases ws)
    case Nil
    then show ?thesis using Cons.prems by (simp add: py_split_no_sep)
  next
    case (Cons w' ws')
    have ne: "concat (map (\<lambda>w. w @ [c]) ws) \<noteq> []" using Cons by simp
    have "butlast (concat (map (\<lambda>w. w @ [c]) (w # ws)))
          = w @ c # butlast (concat (map (\<lambda>w. w @ [c]) ws))"
      using ne by (simp add: butlast_append)
    then show ?thesis using Cons.IH Cons.prems Cons by (simp add: py_split_sep_append)
  qed
qed simp

lemma for_each_append:
  "for_each f (xs @ ys) s = sthen (for_each f xs s) (\<lambda>_ s'. for_each f ys s')"
  by (induction xs arbitrary: s) (auto simp: sthen_def split: prod.splits sum.splits)

lemma for_each_invariant:
  assumes "\<And>x s. P s \<Longrightarrow> P (snd (f x s))" "P s"
  shows "P (snd (for_each f xs s))"
  using assms(2)
proof (induction xs arbitrary: s)
  case (Cons x xs)
  then show ?case using assms(1) [of s x]
    by (auto simp: sthen_def split: prod.splits sum.splits)
qed simp

lemma for_each_total:
  "(\<And>x s. x \<in> set xs \<Longrightarrow> f x s = (Inr (), g x s)) \<Longrightarrow> for_each f xs s = (Inr (), fold g xs s)"
  by (induction xs arbitrary: s) (simp_all add: sthen_def)


lemma encode_ascii_7bit: "encode_ascii s = Inr bs \<Longrightarrow> \<forall>b\<in>set bs. unat b < (128::nat)"
  by (auto simp: encode_ascii_def unat_byte_of_char split: if_splits)


subsection \<open>Joining and hexadecimal formatting\<close>

text \<open>\<open>sep.join(ws)\<close>.\<close>

fun py_join :: "string \<Rightarrow> string list \<Rightarrow> string" where
  "py_join sep [] = []"
| "py_join sep [w] = w"
| "py_join sep (w # v # ws) = w @ sep @ py_join sep (v # ws)"

text \<open>\<open>"{:02x}".format(n)\<close> for \<open>n < 256\<close>: two lower-case hexadecimal digits.\<close>

definition hex_digit :: "nat \<Rightarrow> char" where
  "hex_digit d = (if d < 10 then char_of (48 + d) else char_of (87 + d))"

definition hex2 :: "nat \<Rightarrow> string" where
  "hex2 n = [hex_digit (n div 16), hex_digit (n mod 16)]"

text \<open>The value of a hexadecimal digit, as \<open>int(c, 16)\<close> reads it.\<close>

definition hex_value :: "char \<Rightarrow> nat" where
  "hex_value c = (if of_char c < (58::nat) then of_char c - 48 else of_char c - 87)"

lemma py_join_terminated:
  "ws \<noteq> [] \<Longrightarrow> py_join [c] ws = butlast (concat (map (\<lambda>w. w @ [c]) ws))"
proof (induction "[c]" ws rule: py_join.induct)
  case (3 w v ws)
  have "concat (map (\<lambda>w. w @ [c]) (v # ws)) \<noteq> []" by simp
  then show ?case using 3 by (simp add: butlast_append)
qed simp_all

lemma length_py_join:
  "ws \<noteq> [] \<Longrightarrow> length (py_join [c] ws) = sum_list (map length ws) + length ws - 1"
  by (induction "[c]" ws rule: py_join.induct) auto

lemma of_char_hex_digit: "d < 16 \<Longrightarrow> of_char (hex_digit d) = (if d < 10 then 48 + d else 87 + d)"
  by (simp add: hex_digit_def)

lemma hex_value_digit [simp]: "d < 16 \<Longrightarrow> hex_value (hex_digit d) = d"
  by (simp add: hex_value_def of_char_hex_digit)

lemma hex_digit_not_colon: "d < 16 \<Longrightarrow> hex_digit d \<noteq> CHR '':''"
proof
  assume "d < 16" "hex_digit d = CHR '':''"
  then have "of_char (hex_digit d) = (58::nat)" by simp
  then show False using \<open>d < 16\<close> by (simp add: of_char_hex_digit split: if_splits)
qed

lemma hex2_value: "n < 256 \<Longrightarrow> 16 * hex_value (hex2 n ! 0) + hex_value (hex2 n ! 1) = n"
  by (simp add: hex2_def)



subsection \<open>Printing: \<open>binascii\<close>, \<open>repr\<close> of bytes, strings and dictionaries\<close>

text \<open>\<open>binascii.hexlify(b)\<close>: each byte as two lower-case hexadecimal digits, as bytes.\<close>

definition hexlify :: "byte list \<Rightarrow> byte list" where
  "hexlify bs = map byte_of_char (concat (map (\<lambda>b. hex2 (unat b)) bs))"

text \<open>The digits \<open>binascii\<close> accepts: \<open>0-9\<close>, \<open>a-f\<close>, \<open>A-F\<close>.\<close>

definition is_hex_digit :: "char \<Rightarrow> bool" where
  "is_hex_digit c = (let n = of_char c :: nat in
     48 \<le> n \<and> n \<le> 57 \<or> 97 \<le> n \<and> n \<le> 102 \<or> 65 \<le> n \<and> n \<le> 70)"

text \<open>The value of a hexadecimal digit of either case, as \<open>binascii\<close> reads it.\<close>

definition unhex_value :: "char \<Rightarrow> nat" where
  "unhex_value c =
     (if of_char c < (58::nat) then of_char c - 48
      else if of_char c < (97::nat) then of_char c - 55 else of_char c - 87)"

fun unhex_pairs :: "string \<Rightarrow> byte list result" where
  "unhex_pairs [] = Inr []"
| "unhex_pairs [c] = Inl (BinasciiError ''Odd-length string'')"
| "unhex_pairs (c # d # s) =
     (if is_hex_digit c \<and> is_hex_digit d
      then map_sum id (Cons (word_of_nat (16 * unhex_value c + unhex_value d))) (unhex_pairs s)
      else Inl (BinasciiError ''Non-hexadecimal digit found''))"

text \<open>\<open>binascii.unhexlify(s)\<close> for a \<open>str\<close>: a non-ASCII character raises ValueError, an odd
  length raises \<open>binascii.Error\<close> before any digit is looked at, then each pair of digits is
  one byte.\<close>

definition unhexlify :: "string \<Rightarrow> byte list result" where
  "unhexlify s =
     (if \<not> list_all (\<lambda>c. of_char c < (128::nat)) s
      then Inl (ValueError ''string argument should contain only ASCII characters'')
      else if odd (length s) then Inl (BinasciiError ''Odd-length string'')
      else unhex_pairs s)"

text \<open>\<open>repr\<close> of a bytes object, as \<open>print\<close> shows it: the prefix \<open>b\<close>, the single quote
  unless the bytes hold a single and no double quote, backslash escapes for the quote, the
  backslash, tab, newline and carriage return, \<open>\x\<close> and two digits for the other bytes
  outside 32 to 126.\<close>

definition bytes_repr_byte :: "char \<Rightarrow> byte \<Rightarrow> string" where
  "bytes_repr_byte q b =
     (let n = unat b in
      if n = of_char q \<or> n = 92 then [CHR 0x5C, char_of n]
      else if n = 9 then [CHR 0x5C, CHR ''t'']
      else if n = 10 then [CHR 0x5C, CHR ''n'']
      else if n = 13 then [CHR 0x5C, CHR ''r'']
      else if n < 32 \<or> 127 \<le> n then [CHR 0x5C, CHR ''x''] @ hex2 n
      else [char_of n])"

definition repr_quote :: "string \<Rightarrow> char" where
  "repr_quote s = (if CHR 0x27 \<in> set s \<and> CHR 0x22 \<notin> set s then CHR 0x22 else CHR 0x27)"

definition bytes_repr :: "byte list \<Rightarrow> string" where
  "bytes_repr bs =
     (let q = repr_quote (map char_of_byte bs)
      in [CHR ''b'', q] @ concat (map (bytes_repr_byte q) bs) @ [q])"

text \<open>\<open>repr\<close> of a \<open>str\<close> over the code points a \<open>char\<close> holds (U+0000 to U+00FF): the
  same quoting and escapes, except that the printable Latin-1 characters stay as they are;
  U+007F to U+00A0 and the soft hyphen U+00AD are not printable.\<close>

definition str_repr_char :: "char \<Rightarrow> char \<Rightarrow> string" where
  "str_repr_char q c =
     (let n = of_char c :: nat in
      if c = q \<or> n = 92 then [CHR 0x5C, c]
      else if n = 9 then [CHR 0x5C, CHR ''t'']
      else if n = 10 then [CHR 0x5C, CHR ''n'']
      else if n = 13 then [CHR 0x5C, CHR ''r'']
      else if n < 32 \<or> (127 \<le> n \<and> n \<le> 160) \<or> n = 173 then [CHR 0x5C, CHR ''x''] @ hex2 n
      else [c])"

definition py_str_repr :: "string \<Rightarrow> string" where
  "py_str_repr s = (let q = repr_quote s in [q] @ concat (map (str_repr_char q) s) @ [q])"

text \<open>The items of a dictionary built by inserting its keys in the order \<open>ks\<close>, and its
  \<open>repr\<close> for string keys and values.\<close>

fun dict_items :: "'k list \<Rightarrow> ('k \<rightharpoonup> 'v) \<Rightarrow> ('k \<times> 'v) list" where
  "dict_items [] m = []"
| "dict_items (k # ks) m = (case m k of None \<Rightarrow> dict_items ks m | Some v \<Rightarrow> (k, v) # dict_items ks m)"

definition py_dict_repr :: "(string \<times> string) list \<Rightarrow> string" where
  "py_dict_repr items =
     ''{'' @ py_join '', '' (map (\<lambda>(k, v). py_str_repr k @ '': '' @ py_str_repr v) items) @ ''}''"

lemma dict_items_total:
  "set ks \<subseteq> dom m \<Longrightarrow> dict_items ks m = map (\<lambda>k. (k, the (m k))) ks"
  by (induction ks) auto

end
