(* ===== verification/Registry.thy ===== *)
theory Registry
  imports Prelude
begin

text \<open>
  The Command Registry of \<^verbatim>\<open>src/lib/hermesWr3223.py\<close>: the class \<^verbatim>\<open>Command\<close>
  (a record), the module-level dictionary \<^verbatim>\<open>COMMANDS\<close> (an association list in
  insertion order, each \<^verbatim>\<open>.mapping\<close> assignment applied to its entry), and
  \<^verbatim>\<open>getMappedResult\<close>. The lemmas show what the code relies on of the table
  (distinct two-character ASCII keys, a unit on every entry), how a raw value is mapped to
  its label, and that the lookup fails exactly on an unregistered code.
\<close>

record Command =
  cmd :: string
  descr :: string
  unit :: "string option"
  isWriteable :: bool
  mapping :: "(string \<times> string) list option"

definition new_Command :: "string \<Rightarrow> string \<Rightarrow> string option \<Rightarrow> bool \<Rightarrow> Command" where
  "new_Command c d u w = \<lparr>cmd = c, descr = d, unit = u, isWriteable = w, mapping = None\<rparr>"

abbreviation deg :: char where "deg \<equiv> CHR 0xB0"
abbreviation auml :: char where "auml \<equiv> CHR 0xE4"
abbreviation uuml :: char where "uuml \<equiv> CHR 0xFC"

definition COMMANDS :: "(string \<times> Command) list" where
  "COMMANDS =
  [ (''T1'', new_Command ''T1'' ''Temperatur Verdampfer'' (Some (''['' @ [deg] @ ''C]'')) False)
  , (''T2'', new_Command ''T2'' ''Temperatur Kondensator'' (Some (''['' @ [deg] @ ''C]'')) False)
  , (''T3'', new_Command ''T3'' ''Aussentemperatur'' (Some (''['' @ [deg] @ ''C]'')) False)
  , (''T4'', new_Command ''T4'' ''Temperatur Abluft (Raumtemperatur)'' (Some (''['' @ [deg] @ ''C]'')) False)
  , (''T5'', new_Command ''T5'' (''Temperatur nach W'' @ [auml] @ ''rmetauscher (Fortluft)'') (Some (''['' @ [deg] @ ''C]'')) False)
  , (''T6'', new_Command ''T6'' ''Zulufttemperatur'' (Some (''['' @ [deg] @ ''C]'')) False)
  , (''T7'', new_Command ''T7'' (''Temperatur nach Solevorerw'' @ [auml] @ ''rmung'') (Some (''['' @ [deg] @ ''C]'')) False)
  , (''T8'', new_Command ''T8'' (''Temperatur nach W'' @ [auml] @ ''rmetauscher'') (Some (''['' @ [deg] @ ''C]'')) False)
  , (''UZ'', new_Command ''UZ'' ''Spannung Ventilator Zuluft'' (Some ''[0.1 V]'') False)
  , (''UA'', new_Command ''UA'' ''Spannung Ventilator Abluft'' (Some ''[0.1 V]'') False)
  , (''NZ'', new_Command ''NZ'' ''Drehzahl Zuluft'' (Some ''[U/min]'') False)
  , (''NA'', new_Command ''NA'' ''Drehzahl Abluft'' (Some ''[U/min]'') False)
  , (''LS'', (new_Command ''LS'' ''Luftstufe'' (Some '''') False)\<lparr>mapping := Some
       [(''0.'', ''Aus''),
        (''1.'', ''Stufe 1''),
        (''2.'', ''Stufe 2''),
        (''3.'', ''Stufe 3'')]\<rparr>)
  , (''L1'', new_Command ''L1'' ''Luftstufe 1'' (Some ''[%]'') True)
  , (''L2'', new_Command ''L2'' ''Luftstufe 2'' (Some ''[%]'') True)
  , (''L3'', new_Command ''L3'' ''Luftstufe 3'' (Some ''[%]'') True)
  , (''LD'', new_Command ''LD'' ''Luftdifferenz Zuluft'' (Some ''[%]'') True)
  , (''Ld'', new_Command ''Ld'' ''Luftdifferenz Abluft'' (Some ''[%]'') True)
  , (''ES'', new_Command ''ES'' ''EWT Sommer'' (Some (''['' @ [deg] @ ''C]'')) True)
  , (''EW'', new_Command ''EW'' ''EWT Winter'' (Some (''['' @ [deg] @ ''C]'')) True)
  , (''KM'', new_Command ''KM'' ''Maximale Kondensationstemperatur'' (Some (''['' @ [deg] @ ''C]'')) True)
  , (''PA'', new_Command ''PA'' ''Ausgleichszeit'' (Some ''[Sek.]'') False)
  , (''ZH'', new_Command ''ZH'' ''Zusatzheizung frei'' (Some '''') True)
  , (''ZE'', new_Command ''ZE'' ''Zusatzheizung Ein'' (Some '''') True)
  , (''WP'', new_Command ''WP'' (''W'' @ [auml] @ ''rmepumpe freigegeben'') (Some '''') False)
  , (''MD'', (new_Command ''MD'' ''Mode'' (Some '''') False)\<lparr>mapping := Some
       [(''0.'', ''Aus''),
        (''1.'', ''Sommer''),
        (''2.'', ''Abluft''),
        (''3.'', ''Winter: WP aus''),
        (''-125.'', ''Winter: WP an''),
        (''4.'', ''Handbetrieb'')]\<rparr>)
  , (''AE'', new_Command ''AE'' ''Abtau ein'' (Some (''['' @ [deg] @ ''C]'')) True)
  , (''AA'', new_Command ''AA'' ''Abtau aus'' (Some (''['' @ [deg] @ ''C]'')) True)
  , (''Az'', new_Command ''Az'' ''Luftstufe Abtau'' (Some '''') True)
  , (''AP'', new_Command ''AP'' ''Abtaupause'' (Some ''min'') True)
  , (''AN'', new_Command ''AN'' ''Abtaunachlauf'' (Some ''min'') True)
  , (''ER'', (new_Command ''ER'' ''Fehlermeldung'' (Some '''') False)\<lparr>mapping := Some
       [(''0.'', ''Keine Meldung''),
        (''4.'', ''Hochdruck''),
        (''11.'', ''Kurzschluss an T1''),
        (''12.'', ''Kurzschluss an T2''),
        (''13.'', ''Kurzschluss an T3''),
        (''15.'', ''Kurzschluss an T5''),
        (''21.'', ''Offene Leitung an T1''),
        (''22.'', ''Offene Leitung an T2''),
        (''23.'', ''Offene Leitung an T3''),
        (''25.'', ''Offenen Leitung an T5'')]\<rparr>)
  , (''ST'', (new_Command ''ST'' ''Status'' (Some '''') False)\<lparr>mapping := Some
       [(''217.'', (''W'' @ [auml] @ ''rmepumpe aktiv?'')),
        (''249.'', (''W'' @ [auml] @ ''rmepumpe inaktiv?''))]\<rparr>)
  , (''Tf'', (new_Command ''Tf'' ''EVU Sperre'' (Some '''') False)\<lparr>mapping := Some
       [(''-47.'', ''Aktiv''),
        (''-48.'', ''Inaktiv'')]\<rparr>)
  , (''RL'', (new_Command ''RL'' ''Relais'' (Some '''') False)\<lparr>mapping := Some
       [(''-47.'', ''Zustand?''),
        (''64.'', ''EVU?''),
        (''320.'', (''Freigabe(WP/K'' @ [uuml] @ ''hl):Ja   | WP:Aus | K'' @ [uuml] @ ''hl:Aus | Freigabe(ZH):Nein | Bypass:Nein'')),
        (''321.'', (''Freigabe(WP/K'' @ [uuml] @ ''hl):Nein | WP:Aus | K'' @ [uuml] @ ''hl:Aus | Freigabe(ZH):Nein | Bypass:Nein'')),
        (''322.'', (''Freigabe(WP/K'' @ [uuml] @ ''hl):Ja   | WP:Aus | K'' @ [uuml] @ ''hl:Aus | Freigabe(ZH):Ja   | Bypass:Nein'')),
        (''328.'', (''Freigabe(WP/K'' @ [uuml] @ ''hl):Nein | WP:Aus | K'' @ [uuml] @ ''hl:Aus | Freigabe(ZH):Nein | Bypass:Ja'')),
        (''833.'', (''Freigabe(WP/K'' @ [uuml] @ ''hl):Ja   | WP:An  | K'' @ [uuml] @ ''hl:Aus | Freigabe(ZH):Nein | Bypass:Nein'')),
        (''835.'', (''Freigabe(WP/K'' @ [uuml] @ ''hl):Ja   | WP:An  | K'' @ [uuml] @ ''hl:Aus | Freigabe(ZH):Ja   | Bypass:Nein'')),
        (''2377.'', (''Freigabe(WP/K'' @ [uuml] @ ''hl):Ja   | WP:Aus | K'' @ [uuml] @ ''hl:An  | Freigabe(ZH):Nein | Bypass:Ja''))]\<rparr>)
  , (''II'', new_Command ''II'' ''Identifikation lesen'' (Some ''[Text]'') False)
  ]"

definition getMappedResult :: "string \<Rightarrow> string \<Rightarrow> string option result" where
  "getMappedResult c r =
     rbind (dict_get COMMANDS c)
       (\<lambda>entry. Inr (case mapping entry of
                        None \<Rightarrow> None
                      | Some m \<Rightarrow> (if r \<in> set (map fst m) then map_of m r else None)))"

subsection \<open>Well-formedness of the table\<close>

definition entry_wf :: "string \<times> Command \<Rightarrow> bool" where
  "entry_wf e =
     (case e of (k, c) \<Rightarrow>
        length k = 2 \<and> list_all (\<lambda>ch. of_char ch < (128::nat)) k \<and> cmd c = k \<and> unit c \<noteq> None
        \<and> (case mapping c of None \<Rightarrow> True | Some m \<Rightarrow> distinct (map fst m)))"


lemma registry_keys_distinct: "distinct (map fst COMMANDS)"
  by (simp add: COMMANDS_def new_Command_def)

lemma registry_entries_wf: "list_all entry_wf COMMANDS"
  by (simp add: COMMANDS_def new_Command_def entry_wf_def)

lemma registered_key_wf:
  assumes "k \<in> set (map fst COMMANDS)"
  shows "length k = 2" and "list_all (\<lambda>ch. of_char ch < (128::nat)) k"
proof -
  from assms obtain c where kc: "(k, c) \<in> set COMMANDS" by auto
  with registry_entries_wf have "entry_wf (k, c)"
    by (simp add: list_all_iff)
  then show "length k = 2" and "list_all (\<lambda>ch. of_char ch < (128::nat)) k"
    by (simp_all add: entry_wf_def)
qed

lemma getMappedResult_lookup:
  "getMappedResult c r =
     (case map_of COMMANDS c of
        None \<Rightarrow> Inl KeyError
      | Some entry \<Rightarrow> Inr (case mapping entry of None \<Rightarrow> None | Some m \<Rightarrow> map_of m r))"
  by (auto simp: getMappedResult_def dict_get_def map_of_eq_None_iff [symmetric]
      split: option.splits)

text \<open>C15: looking up a label for an unregistered code raises
  KeyError, and only then does the lookup fail.\<close>

theorem getMappedResult_unknown:
  "(\<exists>e. getMappedResult c r = Inl e) \<longleftrightarrow> c \<notin> set (map fst COMMANDS)"
  by (simp add: getMappedResult_lookup map_of_eq_None_iff [symmetric] split: option.splits)

theorem getMappedResult_unknown_witness:
  "(\<exists>e. getMappedResult ''XX'' ''0.'' = Inl e) \<and> \<not> (\<exists>e. getMappedResult ''MD'' ''0.'' = Inl e)"
  by (simp add: getMappedResult_unknown COMMANDS_def new_Command_def)

end
