(* ===== verification/Codec.thy ===== *)
theory Codec
  imports Registry
begin

text \<open>
  The Frame Codec of \<^verbatim>\<open>src/lib/hermesWr3223.py\<close>: the control characters and
  \<^verbatim>\<open>CONTROLCHARS\<close>, the address string \<^verbatim>\<open>_createAdressString\<close>, the request
  \<^verbatim>\<open>_createReadRequest\<close> (a method that reads only the precomputed address string, so
  here a function of that string), \<^verbatim>\<open>_makeHumanReadable\<close> and
  \<^verbatim>\<open>_getValueFromResponse\<close>. The lemmas give the address string of every address and
  its inverse, the request of every command with its two errors, and the value extracted from a
  well-formed frame.
\<close>

definition STX :: char where "STX = CHR 0x02"
definition ETX :: char where "ETX = CHR 0x03"
definition EOT :: char where "EOT = CHR 0x04"
definition ENQ :: char where "ENQ = CHR 0x05"
definition ACK :: char where "ACK = CHR 0x06"
definition NAK :: char where "NAK = CHR 0x15"

definition CONTROLCHARS :: "(char \<times> string) list" where
  "CONTROLCHARS =
     [(STX, ''<STX>''), (ETX, ''<ETX>''), (EOT, ''<EOT>''),
      (ENQ, ''<ENQ>''), (ACK, ''<ACK>''), (NAK, ''<NAK>'')]"

lemmas ctrl_defs = STX_def ETX_def EOT_def ENQ_def ACK_def NAK_def

definition createAdressString :: "int \<Rightarrow> string result" where
  "createAdressString adress =
     (if adress < 0 \<or> adress > 99 then Inl (ValueError ''The specified adress is out ouf range'')
      else
        (let adressString = py_str_int adress;
             adressString' = (if length adressString = 1 then ''0'' @ adressString else adressString)
         in rbind (py_index adressString' 0) (\<lambda>adressCharHigh.
            rbind (py_index adressString' 1) (\<lambda>adressCharLow.
              Inr [adressCharHigh, adressCharHigh, adressCharLow, adressCharLow]))))"

definition createReadRequest :: "string \<Rightarrow> string \<Rightarrow> string result" where
  "createReadRequest adressMessageString command =
     (if length command \<noteq> 2 then Inl (ValueError ''The given Command is invalid - must have 2 chars!'')
      else if command \<notin> set (map fst COMMANDS) then Inl (ValueError ''The given Command is unknown'')
      else Inr ([EOT] @ adressMessageString @ command @ [ENQ]))"

definition makeHumanReadable :: "string \<Rightarrow> string" where
  "makeHumanReadable message =
     concat (map (\<lambda>char. case map_of CONTROLCHARS char of Some name \<Rightarrow> name | None \<Rightarrow> [char])
                 message)"

text \<open>\<^verbatim>\<open>CONTROLCHARS[STX]\<close> and \<^verbatim>\<open>CONTROLCHARS[ETX]\<close> are the literals below
  (\<open>controlchars_STX_ETX\<close>).\<close>

definition getValueFromResponse :: "string \<Rightarrow> string" where
  "getValueFromResponse response =
     (let value = py_replace ''<STX>'' '''' response;
          value = py_replace ''<ETX>'' '''' value;
          value = drop 2 value
      in py_strip value)"

text \<open>The inverse of the address encoding, on the controller's side of the line: two
  doubled decimal digits.\<close>

definition is_digit :: "char \<Rightarrow> bool" where
  "is_digit c = (48 \<le> (of_char c :: nat) \<and> (of_char c :: nat) \<le> 57)"

definition digit_val :: "char \<Rightarrow> nat" where
  "digit_val c = of_char c - 48"

fun parseAdressString :: "string \<Rightarrow> int option" where
  "parseAdressString [h, h', l, l'] =
     (if h = h' \<and> l = l' \<and> is_digit h \<and> is_digit l
      then Some (int (10 * digit_val h + digit_val l)) else None)"
| "parseAdressString _ = None"

definition is_control :: "char \<Rightarrow> bool" where
  "is_control c = (c \<in> set (map fst CONTROLCHARS))"

text \<open>Characters of a frame's echo and payload that the value extraction passes through
  unchanged: no control character, and no \<open><\<close> that could start a marker.\<close>

definition frame_plain :: "string \<Rightarrow> bool" where
  "frame_plain s = list_all (\<lambda>c. \<not> is_control c \<and> c \<noteq> CHR ''<'') s"

subsection \<open>Shared facts\<close>

lemma controlchars_STX_ETX:
  "map_of CONTROLCHARS STX = Some ''<STX>''" "map_of CONTROLCHARS ETX = Some ''<ETX>''"
  by (simp_all add: CONTROLCHARS_def ctrl_defs)

lemma makeHumanReadable_Nil [simp]: "makeHumanReadable [] = []"
  by (simp add: makeHumanReadable_def)

lemma makeHumanReadable_append [simp]:
  "makeHumanReadable (xs @ ys) = makeHumanReadable xs @ makeHumanReadable ys"
  by (simp add: makeHumanReadable_def)

lemma makeHumanReadable_plain:
  "\<not> is_control c \<Longrightarrow> makeHumanReadable (c # s) = c # makeHumanReadable s"
proof -
  assume "\<not> is_control c"
  then have "map_of CONTROLCHARS c = None"
    by (simp add: is_control_def map_of_eq_None_iff)
  then show ?thesis by (simp add: makeHumanReadable_def)
qed

lemma makeHumanReadable_STX [simp]: "makeHumanReadable (STX # s) = ''<STX>'' @ makeHumanReadable s"
  and makeHumanReadable_ETX [simp]: "makeHumanReadable (ETX # s) = ''<ETX>'' @ makeHumanReadable s"
  by (simp_all add: makeHumanReadable_def controlchars_STX_ETX)

lemma digit_char_0: "digit_char 0 = CHR ''0''"
  by code_simp

lemma digit_char_is_digit [pystr]: "d < 10 \<Longrightarrow> is_digit (digit_char d)"
  by (simp add: is_digit_def of_char_digit_char)

lemma digit_val_digit_char [pystr]: "d < 10 \<Longrightarrow> digit_val (digit_char d) = d"
  by (simp add: digit_val_def of_char_digit_char)

lemma is_digit_val_lt [pystr]: "is_digit c \<Longrightarrow> digit_val c < 10"
  unfolding is_digit_def digit_val_def by arith

lemma is_digit_digit_char [pystr]: "is_digit c \<Longrightarrow> digit_char (digit_val c) = c"
proof -
  assume d: "is_digit c"
  then have "of_char (digit_char (digit_val c)) = 48 + digit_val c"
    by (simp add: of_char_digit_char is_digit_val_lt)
  also have "\<dots> = (of_char c :: nat)"
    using d unfolding is_digit_def digit_val_def by arith
  finally show ?thesis by simp
qed

lemma makeHumanReadable_frame_plain: "frame_plain s \<Longrightarrow> makeHumanReadable s = s"
  by (induction s) (simp_all add: frame_plain_def makeHumanReadable_plain)

lemma py_replace_STX_ETX: "py_replace ''<STX>'' '''' ''<ETX>'' = ''<ETX>''"
  by code_simp

lemma adress_digits:
  assumes "0 \<le> a" "a \<le> 99"
  shows "nat a div 10 < 10" "nat a mod 10 < 10" "int (10 * (nat a div 10) + nat a mod 10) = a"
  using assms by simp_all

subsection \<open>Address string\<close>

lemma adress_string_digits:
  assumes "0 \<le> a" "a \<le> 99"
  shows "createAdressString a =
           Inr [digit_char (nat a div 10), digit_char (nat a div 10),
                digit_char (nat a mod 10), digit_char (nat a mod 10)]"
proof (cases "a < 10")
  case True
  then have s: "py_str_int a = [digit_char (nat a)]"
    using assms by (simp add: py_str_int_def py_str_nat_small)
  have "nat a div 10 = 0" "nat a mod 10 = nat a" using True assms by simp_all
  with s assms show ?thesis
    by (simp add: createAdressString_def py_index_def digit_char_0)
next
  case False
  then have s: "py_str_int a = [digit_char (nat a div 10), digit_char (nat a mod 10)]"
    using assms by (simp add: py_str_int_def py_str_nat_two)
  with assms show ?thesis
    by (simp add: createAdressString_def py_index_def)
qed

text \<open>C7: every address in [0, 99] is sent as its two decimal
  digits, each doubled (2 gives 0022, 45 gives 4455, 0 gives 0000).\<close>

theorem createAdressString_ok:
  assumes "0 \<le> a" "a \<le> 99"
  shows "createAdressString a =
           Inr [digit_char (nat a div 10), digit_char (nat a div 10),
                digit_char (nat a mod 10), digit_char (nat a mod 10)]"
  using assms by (rule adress_string_digits)

theorem createAdressString_ok_witness:
  "createAdressString 45 = Inr ''4455'' \<and> createAdressString 2 = Inr ''0022''
   \<and> createAdressString 0 = Inr ''0000''"
proof -
  have a: "createAdressString 45 = Inr [digit_char (nat 45 div 10), digit_char (nat 45 div 10),
             digit_char (nat 45 mod 10), digit_char (nat 45 mod 10)]"
    by (rule createAdressString_ok) simp_all
  have b: "createAdressString 2 = Inr [digit_char (nat 2 div 10), digit_char (nat 2 div 10),
             digit_char (nat 2 mod 10), digit_char (nat 2 mod 10)]"
    by (rule createAdressString_ok) simp_all
  have c: "createAdressString 0 = Inr [digit_char (nat 0 div 10), digit_char (nat 0 div 10),
             digit_char (nat 0 mod 10), digit_char (nat 0 mod 10)]"
    by (rule createAdressString_ok) simp_all
  show ?thesis unfolding a b c by code_simp
qed

text \<open>C8: an address outside [0, 99] raises ValueError.\<close>

theorem createAdressString_range_error:
  assumes "a < 0 \<or> 99 < a"
  shows "createAdressString a = Inl (ValueError ''The specified adress is out ouf range'')"
  using assms by (auto simp: createAdressString_def)

theorem createAdressString_range_error_witness:
  "createAdressString (-1) = Inl (ValueError ''The specified adress is out ouf range'')
   \<and> createAdressString 100 = Inl (ValueError ''The specified adress is out ouf range'')"
  using createAdressString_range_error [of "-1"] createAdressString_range_error [of 100] by simp

lemma createAdressString_Inr_range: "createAdressString a = Inr s \<Longrightarrow> 0 \<le> a \<and> a \<le> 99"
  by (auto simp: createAdressString_def split: if_splits)

text \<open>C9: the address string determines the address: the
  controller's parse of every string the encoder produces gives the address back.\<close>

theorem parse_createAdressString:
  assumes "createAdressString a = Inr s"
  shows "parseAdressString s = Some a"
proof -
  from assms have r: "0 \<le> a" "a \<le> 99" using createAdressString_Inr_range by blast+
  from assms adress_string_digits [OF r] have
    "s = [digit_char (nat a div 10), digit_char (nat a div 10),
          digit_char (nat a mod 10), digit_char (nat a mod 10)]" by simp
  with adress_digits [OF r] show ?thesis
    by (simp add: digit_char_is_digit digit_val_digit_char)
qed

theorem parse_createAdressString_witness: "parseAdressString ''4455'' = Some 45"
proof -
  have "createAdressString 45 = Inr ''4455''" by code_simp
  then show ?thesis by (rule parse_createAdressString)
qed

text \<open>C10: every doubled-digit string is the address string of
  the address it denotes, so the encoding is onto the strings the controller accepts.\<close>

theorem createAdressString_parse:
  assumes "parseAdressString s = Some a"
  shows "createAdressString a = Inr s"
proof -
  obtain h l where s: "s = [h, h, l, l]" and d: "is_digit h" "is_digit l"
    and a: "a = int (10 * digit_val h + digit_val l)"
    using assms by (cases s rule: parseAdressString.cases) (auto split: if_splits)
  have lt: "digit_val h < 10" "digit_val l < 10" using d by (simp_all add: is_digit_val_lt)
  then have r: "0 \<le> a" "a \<le> 99" using a by simp_all
  have n: "nat a = 10 * digit_val h + digit_val l" using a by simp
  have "nat a div 10 = digit_val h" "nat a mod 10 = digit_val l" using n lt by simp_all
  with adress_string_digits [OF r] s d show ?thesis
    by (simp add: is_digit_digit_char)
qed

theorem createAdressString_parse_witness: "createAdressString 2 = Inr ''0022''"
proof -
  have "parseAdressString ''0022'' = Some 2" by code_simp
  then show ?thesis by (rule createAdressString_parse)
qed

subsection \<open>Read request\<close>

lemma createReadRequest_ok:
  assumes "command \<in> set (map fst COMMANDS)"
  shows "createReadRequest ams command = Inr ([EOT] @ ams @ command @ [ENQ])"
  using assms registered_key_wf(1) [OF assms] by (simp add: createReadRequest_def)

text \<open>C11: the request fails exactly on a code that is not two
  characters long or is not registered, with the matching ValueError.\<close>

theorem createReadRequest_error:
  "createReadRequest ams command = Inl e \<longleftrightarrow>
     (length command \<noteq> 2 \<and> e = ValueError ''The given Command is invalid - must have 2 chars!'')
     \<or> (length command = 2 \<and> command \<notin> set (map fst COMMANDS)
        \<and> e = ValueError ''The given Command is unknown'')"
  by (auto simp: createReadRequest_def)

theorem createReadRequest_error_witness:
  "createReadRequest ''0011'' ''T10'' = Inl (ValueError ''The given Command is invalid - must have 2 chars!'')
   \<and> createReadRequest ''0011'' ''XX'' = Inl (ValueError ''The given Command is unknown'')"
  by (simp add: createReadRequest_error COMMANDS_def new_Command_def)

subsection \<open>Value extraction\<close>

lemma replace_markers:
  assumes "CHR ''<'' \<notin> set p"
  shows "py_replace ''<STX>'' '''' (''<STX>'' @ p @ ''<ETX>'') = p @ ''<ETX>''"
    and "py_replace ''<ETX>'' '''' (p @ ''<ETX>'') = p"
proof -
  have "py_replace ''<STX>'' '''' (''<STX>'' @ p @ ''<ETX>'') = p @ py_replace ''<STX>'' '''' ''<ETX>''"
    using py_replace_match [of "''<STX>''" "''''" "p @ ''<ETX>''"]
      py_replace_skip_list [of "''<STX>''" p "''''" "''<ETX>''"] assms
    by (simp del: append_Cons)
  then show "py_replace ''<STX>'' '''' (''<STX>'' @ p @ ''<ETX>'') = p @ ''<ETX>''"
    by (simp only: py_replace_STX_ETX)
  have "py_replace ''<ETX>'' '''' (p @ ''<ETX>'') = p @ py_replace ''<ETX>'' '''' (''<ETX>'' @ [])"
    using assms by (subst py_replace_skip_list) simp_all
  also have "\<dots> = p" by (subst py_replace_match) (simp_all add: py_replace_Nil)
  finally show "py_replace ''<ETX>'' '''' (p @ ''<ETX>'') = p" .
qed

text \<open>A mnemonic other than the marker being removed is passed over whole: it starts with
  \<open><\<close> but differs from the marker, and has no other \<open><\<close>.\<close>

lemma py_replace_other_name:
  assumes "old \<noteq> []" "length n = length old" "n \<noteq> old" "n = x # t" "hd old \<notin> set t"
  shows "py_replace old new (n @ s) = n @ py_replace old new s"
proof -
  have l: "length old = Suc (length t)" using assms(2,4) by simp
  have "take (length old) ((x # t) @ s) = x # t" unfolding l by simp
  then have "take (length old) (x # t @ s) \<noteq> old" using assms(3,4) by simp
  then have ne: "(take (length old) (x # t @ s) = old) = False" by simp
  have "replace_nonempty old new (x # t @ s) = x # replace_nonempty old new (t @ s)"
    by (simp only: replace_nonempty.simps(2) ne simp_thms if_False)
  then have "py_replace old new (x # t @ s) = x # py_replace old new (t @ s)"
    using assms(1) by (simp add: py_replace_def)
  then show ?thesis using py_replace_skip_list [OF assms(1,5)] assms(4) by simp
qed

lemma value_of_frame:
  assumes "frame_plain (e1 # e2 # v)"
  shows "getValueFromResponse (makeHumanReadable ([STX] @ (e1 # e2 # v) @ [ETX])) = py_strip v"
proof -
  let ?p = "e1 # e2 # v"
  have nolt: "CHR ''<'' \<notin> set ?p"
    using assms by (auto simp: frame_plain_def list_all_iff)
  have "makeHumanReadable ([STX] @ ?p @ [ETX]) =
          makeHumanReadable [STX] @ makeHumanReadable ?p @ makeHumanReadable [ETX]"
    by (simp only: makeHumanReadable_append)
  then have hr: "makeHumanReadable ([STX] @ ?p @ [ETX]) = ''<STX>'' @ ?p @ ''<ETX>''"
    using assms makeHumanReadable_STX [of "[]"] makeHumanReadable_ETX [of "[]"]
    by (simp only: makeHumanReadable_frame_plain makeHumanReadable_Nil append_Nil2)
  show ?thesis
    unfolding getValueFromResponse_def Let_def hr replace_markers [OF nolt] by simp
qed

text \<open>C6: the value read from a frame STX, two echo
  characters, payload, ETX is the payload with surrounding whitespace removed.\<close>

theorem getValueFromResponse_frame:
  assumes "frame_plain (e1 # e2 # v)"
  shows "getValueFromResponse (makeHumanReadable ([STX] @ (e1 # e2 # v) @ [ETX])) = py_strip v"
  using assms by (rule value_of_frame)

theorem getValueFromResponse_frame_witness:
  "getValueFromResponse (makeHumanReadable ([STX] @ ''T1 23.5'' @ [ETX])) = ''23.5''"
proof -
  have f: "frame_plain (CHR ''T'' # CHR ''1'' # '' 23.5'')"
    by (simp add: frame_plain_def is_control_def CONTROLCHARS_def ctrl_defs)
  have "getValueFromResponse (makeHumanReadable ([STX] @ ''T1 23.5'' @ [ETX])) = py_strip '' 23.5''"
    using getValueFromResponse_frame [OF f] by simp
  then show ?thesis by code_simp
qed

text \<open>C18: the human-readable form of any message
  contains no control character.\<close>

theorem makeHumanReadable_no_control: "\<not> list_ex is_control (makeHumanReadable s)"
proof (induction s)
  case (Cons c s)
  show ?case
  proof (cases "is_control c")
    case True
    then have "c \<in> {STX, ETX, EOT, ENQ, ACK, NAK}"
      by (auto simp: is_control_def CONTROLCHARS_def)
    then have "\<not> list_ex is_control (makeHumanReadable [c])"
      by (auto simp: makeHumanReadable_def CONTROLCHARS_def is_control_def ctrl_defs)
    with Cons.IH show ?thesis
      using makeHumanReadable_append [of "[c]" s] by simp
  next
    case False
    with Cons.IH show ?thesis by (simp add: makeHumanReadable_plain)
  qed
qed simp

text \<open>C22: the two characters dropped are the first two of the whole response once the
  STX and ETX markers are removed, not the two after STX: whatever the echo and the payload,
  a control byte received before STX (an ACK, a NAK, an EOT or an ENQ) loses the first two
  characters of its mnemonic, the rest of the mnemonic and the two echo characters stay in the
  value.\<close>

theorem getValueFromResponse_leading_byte:
  assumes "c \<in> {EOT, ENQ, ACK, NAK}" "frame_plain (e1 # e2 # v)"
  shows "getValueFromResponse (makeHumanReadable ([c, STX] @ (e1 # e2 # v) @ [ETX]))
         = py_strip (drop 2 (the (map_of CONTROLCHARS c)) @ e1 # e2 # v)"
proof -
  let ?p = "e1 # e2 # v"
  let ?n = "the (map_of CONTROLCHARS c)"
  have n: "makeHumanReadable [c] = ?n" "?n \<in> {''<EOT>'', ''<ENQ>'', ''<ACK>'', ''<NAK>''}"
    using assms(1) by (auto simp: makeHumanReadable_def CONTROLCHARS_def ctrl_defs)
  have nolt: "CHR ''<'' \<notin> set ?p"
    using assms(2) by (auto simp: frame_plain_def list_all_iff)
  have "makeHumanReadable ([c] @ [STX] @ ?p @ [ETX]) = ?n @ ''<STX>'' @ ?p @ ''<ETX>''"
    using assms(2) n(1) makeHumanReadable_STX [of "[]"] makeHumanReadable_ETX [of "[]"]
    by (simp only: makeHumanReadable_append makeHumanReadable_frame_plain makeHumanReadable_Nil append_Nil2)
  then have hr: "makeHumanReadable ([c, STX] @ ?p @ [ETX]) = ?n @ ''<STX>'' @ ?p @ ''<ETX>''"
    by simp
  have skip: "py_replace m '''' (?n @ s) = ?n @ py_replace m '''' s"
    if "m \<in> {''<STX>'', ''<ETX>''}" for m s
    using n(2) that by (auto intro: py_replace_other_name)
  have "py_replace ''<ETX>'' '''' (py_replace ''<STX>'' '''' (?n @ ''<STX>'' @ ?p @ ''<ETX>'')) = ?n @ ?p"
    using skip [of "''<STX>''"] skip [of "''<ETX>''"] replace_markers [OF nolt] by simp
  moreover have "drop 2 (?n @ ?p) = drop 2 ?n @ ?p" using n(2) by auto
  ultimately show ?thesis unfolding getValueFromResponse_def Let_def hr by simp
qed

theorem getValueFromResponse_leading_byte_witness:
  "getValueFromResponse (makeHumanReadable ([ACK, STX] @ ''T1 23.5'' @ [ETX])) = ''CK>T1 23.5''"
proof -
  have f: "frame_plain (CHR ''T'' # CHR ''1'' # '' 23.5'')"
    by (simp add: frame_plain_def is_control_def CONTROLCHARS_def ctrl_defs)
  have "getValueFromResponse (makeHumanReadable ([ACK, STX] @ ''T1 23.5'' @ [ETX]))
        = py_strip (drop 2 (the (map_of CONTROLCHARS ACK)) @ ''T1 23.5'')"
    using getValueFromResponse_leading_byte [of ACK, OF _ f] by simp
  then show ?thesis by code_simp
qed

text \<open>The default address of the class constructor.\<close>

lemma adress_1: "createAdressString 1 = Inr ''0011''"
  by code_simp

end
