(* ===== verification/Serial.thy ===== *)
theory Serial
  imports Prelude
begin

text \<open>
  The part of pyserial's \<^verbatim>\<open>serial.Serial\<close> that the sources use, as the environment of
  the transport: a port object (its configuration and whether it is open) and the line it is
  attached to (the bytes written to the controller so far, the bytes the controller has still to
  deliver, and whether the device node exists). A read of one byte with a timeout returns one
  byte, or nothing when the line stays silent for the timeout; \<open>None\<close> in the pending input
  is such a silence, and an exhausted input is silence for ever. This is library behaviour, not
  code of the repository.
\<close>

datatype parity = PARITY_NONE | PARITY_EVEN | PARITY_ODD

record serial_port =
  port :: "string option"
  baudrate :: nat
  bytesize :: nat
  parity :: parity
  stopbits :: nat
  timeout :: "nat option"
  xonxoff :: bool
  rtscts :: bool
  is_open :: bool

record line =
  available :: bool
  tx :: "byte list"
  rx :: "byte option list"

definition Serial_new :: serial_port where
  "Serial_new = \<lparr>port = None, baudrate = 9600, bytesize = 8, parity = PARITY_NONE, stopbits = 1,
                 timeout = None, xonxoff = False, rtscts = False, is_open = False\<rparr>"

definition port_not_open :: py_error where
  "port_not_open = SerialException ''Attempting to use a port that is not open''"

definition ser_open :: "serial_port \<Rightarrow> line \<Rightarrow> serial_port result" where
  "ser_open s l =
     (if port s = None then Inl (SerialException ''Port must be configured before it can be used.'')
      else if is_open s then Inl (SerialException ''Port is already open.'')
      else if \<not> available l then Inl (SerialException ''could not open port'')
      else Inr (s\<lparr>is_open := True\<rparr>))"

definition ser_close :: "serial_port \<Rightarrow> serial_port" where
  "ser_close s = s\<lparr>is_open := False\<rparr>"

definition ser_write :: "serial_port \<Rightarrow> byte list \<Rightarrow> line \<Rightarrow> nat result \<times> line" where
  "ser_write s data l =
     (if \<not> is_open s then (Inl port_not_open, l)
      else (Inr (length data), l\<lparr>tx := tx l @ data\<rparr>))"

definition ser_read1 :: "serial_port \<Rightarrow> line \<Rightarrow> byte list result \<times> line" where
  "ser_read1 s l =
     (if \<not> is_open s then (Inl port_not_open, l)
      else case rx l of
             [] \<Rightarrow> (Inr [], l)
           | None # r \<Rightarrow> (Inr [], l\<lparr>rx := r\<rparr>)
           | Some b # r \<Rightarrow> (Inr [b], l\<lparr>rx := r\<rparr>))"

text \<open>\<^verbatim>\<open>self._serial.read(1).decode('ascii')\<close>, the step the receive loop repeats.\<close>

definition read_char :: "serial_port \<Rightarrow> line \<Rightarrow> string result \<times> line" where
  "read_char s l = (case ser_read1 s l of (Inl e, l') \<Rightarrow> (Inl e, l') | (Inr bs, l') \<Rightarrow> (decode_ascii bs, l'))"

definition enc_rx :: "string \<Rightarrow> byte option list" where
  "enc_rx cs = map (\<lambda>c. Some (byte_of_char c)) cs"

definition ascii :: "string \<Rightarrow> bool" where
  "ascii cs = list_all (\<lambda>c. of_char c < (128::nat)) cs"

lemma read_char_closed [simp]: "\<not> is_open s \<Longrightarrow> read_char s l = (Inl port_not_open, l)"
  by (simp add: read_char_def ser_read1_def)

lemma read_char_ascii [simp]:
  "is_open s \<Longrightarrow> rx l = Some (byte_of_char c) # r \<Longrightarrow> of_char c < (128::nat) \<Longrightarrow>
   read_char s l = (Inr [c], l\<lparr>rx := r\<rparr>)"
  by (simp add: read_char_def ser_read1_def decode_ascii_def unat_byte_of_char char_of_byte_of_char)

lemma read_char_silent [simp]:
  "is_open s \<Longrightarrow> rx l = [] \<Longrightarrow> read_char s l = (Inr [], l)"
  by (simp add: read_char_def ser_read1_def decode_ascii_def)

lemma read_char_timeout [simp]:
  "is_open s \<Longrightarrow> rx l = None # r \<Longrightarrow> read_char s l = (Inr [], l\<lparr>rx := r\<rparr>)"
  by (simp add: read_char_def ser_read1_def decode_ascii_def)

lemma read_char_frame [frame]: "read_char s l = (r, l') \<Longrightarrow> tx l' = tx l \<and> available l' = available l"
  by (auto simp: read_char_def ser_read1_def split: list.splits option.splits sum.splits if_splits)

lemma enc_rx_append [simp]: "enc_rx (xs @ ys) = enc_rx xs @ enc_rx ys"
  and enc_rx_Cons [simp]: "enc_rx (c # cs) = Some (byte_of_char c) # enc_rx cs"
  and enc_rx_Nil [simp]: "enc_rx [] = []"
  by (simp_all add: enc_rx_def)

lemma ascii_simps [simp]:
  "ascii [] = True" "ascii (c # cs) = (of_char c < (128::nat) \<and> ascii cs)"
  "ascii (xs @ ys) = (ascii xs \<and> ascii ys)"
  by (simp_all add: ascii_def)

end
