(* ===== verification/Transport.thy ===== *)
theory Transport
  imports Codec Serial
begin

text \<open>
  The Transport Session of \<^verbatim>\<open>src/lib/hermesWr3223.py\<close>, class \<^verbatim>\<open>HermesWr3223\<close>:
  the constructor, \<^verbatim>\<open>isConnected\<close>, \<^verbatim>\<open>connect\<close>, \<^verbatim>\<open>disconnect\<close>,
  \<^verbatim>\<open>read\<close>, \<^verbatim>\<open>_receiveResponse\<close> and \<^verbatim>\<open>readMultiple\<close>. The object is a record;
  the serial line is the explicit state that reads and writes thread through. The blocking loop
  of \<^verbatim>\<open>_receiveResponse\<close> gets a fuel bound: each pass spends one unit, and \<open>None\<close> is
  "has not returned". The lemmas give the response of a well-formed frame with the fuel that is
  enough, show that the loop never returns on a line that stays silent, and that
  \<^verbatim>\<open>readMultiple\<close> either fails as a whole or answers every command.
\<close>

record HermesWr3223 =
  serial :: serial_port
  adress :: int
  adressMessageString :: string

definition HermesWr3223_init :: "string \<Rightarrow> int \<Rightarrow> HermesWr3223 result" where
  "HermesWr3223_init serialPort adr =
     (let s = Serial_new\<lparr>port := Some serialPort, baudrate := 9600, bytesize := 7,
                         parity := PARITY_EVEN, stopbits := 1, timeout := Some 5,
                         xonxoff := False, rtscts := True\<rparr>
      in rbind (createAdressString adr)
           (\<lambda>ams. Inr \<lparr>serial = s, adress = adr, adressMessageString = ams\<rparr>))"

definition isConnected :: "HermesWr3223 \<Rightarrow> bool" where
  "isConnected h = is_open (serial h)"

definition connect :: "HermesWr3223 \<Rightarrow> line \<Rightarrow> unit result \<times> HermesWr3223" where
  "connect h l = (case ser_open (serial h) l of
                    Inl e \<Rightarrow> (Inl e, h)
                  | Inr s \<Rightarrow> (Inr (), h\<lparr>serial := s\<rparr>))"

definition disconnect :: "HermesWr3223 \<Rightarrow> HermesWr3223" where
  "disconnect h = h\<lparr>serial := ser_close (serial h)\<rparr>"

text \<open>The \<^verbatim>\<open>while char != ETX\<close> loop: \<open>char\<close> is the last string read,
  \<open>response\<close> what has been accumulated.\<close>

fun receive_loop ::
  "nat \<Rightarrow> serial_port \<Rightarrow> string \<Rightarrow> string \<Rightarrow> line \<Rightarrow> (line, string) outcome" where
  "receive_loop 0 s char response l = None"
| "receive_loop (Suc n) s char response l =
     (if char = [ETX] then Some (Inr response, l)
      else case read_char s l of
             (Inl e, l') \<Rightarrow> Some (Inl e, l')
           | (Inr char', l') \<Rightarrow> receive_loop n s char' (response @ char') l')"

definition receiveResponse :: "nat \<Rightarrow> serial_port \<Rightarrow> line \<Rightarrow> (line, string \<times> string) outcome" where
  "receiveResponse fuel s l =
     obind (Some (read_char s l)) (\<lambda>char l1.
     obind (receive_loop fuel s char char l1) (\<lambda>response l2.
     obind (Some (read_char s l2)) (\<lambda>checksum l3.
     Some (Inr (response, checksum), l3))))"

definition read :: "nat \<Rightarrow> HermesWr3223 \<Rightarrow> string \<Rightarrow> line \<Rightarrow> (line, string) outcome" where
  "read fuel h command l =
     obind (Some (createReadRequest (adressMessageString h) command, l)) (\<lambda>request l.
     obind (Some (encode_ascii request, l)) (\<lambda>bytes l.
     obind (Some (ser_write (serial h) bytes l)) (\<lambda>_ l.
     obind (receiveResponse fuel (serial h) l) (\<lambda>(response, checksum) l.
     Some (Inr (getValueFromResponse (makeHumanReadable response)), l)))))"

fun readMultiple_loop ::
  "nat \<Rightarrow> HermesWr3223 \<Rightarrow> string list \<Rightarrow> (string \<rightharpoonup> string) \<Rightarrow> line
   \<Rightarrow> (line, string \<rightharpoonup> string) outcome" where
  "readMultiple_loop fuel h [] result l = Some (Inr result, l)"
| "readMultiple_loop fuel h (command # commands) result l =
     obind (read fuel h command l) (\<lambda>v l'. readMultiple_loop fuel h commands (result(command \<mapsto> v)) l')"

definition readMultiple :: "nat \<Rightarrow> HermesWr3223 \<Rightarrow> string list \<Rightarrow> line \<Rightarrow> (line, string \<rightharpoonup> string) outcome" where
  "readMultiple fuel h commands l = readMultiple_loop fuel h commands Map.empty l"

text \<open>The pending input holds no ETX byte and no byte that fails to decode.\<close>

definition no_etx :: "byte option list \<Rightarrow> bool" where
  "no_etx bs = list_all (\<lambda>x. case x of None \<Rightarrow> True
                                     | Some b \<Rightarrow> b \<noteq> byte_of_char ETX \<and> unat b < 128) bs"

text \<open>The session invariant: the port keeps the configuration the constructor gave it, and
  the stored address string is the encoding of the stored address.\<close>

definition port_config_ok :: "serial_port \<Rightarrow> bool" where
  "port_config_ok s =
     (port s \<noteq> None \<and> baudrate s = 9600 \<and> bytesize s = 7 \<and> parity s = PARITY_EVEN
      \<and> stopbits s = 1 \<and> timeout s = Some 5 \<and> \<not> xonxoff s \<and> rtscts s)"

definition hermes_inv :: "HermesWr3223 \<Rightarrow> bool" where
  "hermes_inv h =
     (port_config_ok (serial h) \<and> createAdressString (adress h) = Inr (adressMessageString h))"

text \<open>The session the callers of the class open: the constructor at the default address 1
  on a named port, after \<^verbatim>\<open>connect\<close>.\<close>

definition connected_session :: "string \<Rightarrow> HermesWr3223" where
  "connected_session serialPort =
     \<lparr>serial = Serial_new\<lparr>port := Some serialPort, baudrate := 9600, bytesize := 7,
                         parity := PARITY_EVEN, stopbits := 1, timeout := Some 5,
                         xonxoff := False, rtscts := True, is_open := True\<rparr>,
      adress = 1, adressMessageString = ''0011''\<rparr>"

text \<open>Concrete sessions and lines for the witnesses: the constructor's session on
  \<^verbatim>\<open>/dev/ttyUSB0\<close> at address 1, connected and not, and a line carrying the answers
  T1 23.5 and T2 -3.0.\<close>

definition example_session :: HermesWr3223 where
  "example_session =
     \<lparr>serial = Serial_new\<lparr>port := Some ''/dev/ttyUSB0'', baudrate := 9600, bytesize := 7,
                         parity := PARITY_EVEN, stopbits := 1, timeout := Some 5,
                         xonxoff := False, rtscts := True, is_open := True\<rparr>,
      adress = 1, adressMessageString = ''0011''\<rparr>"

definition example_closed :: HermesWr3223 where
  "example_closed = disconnect example_session"

definition example_line :: line where
  "example_line =
     \<lparr>available = True, tx = [],
      rx = enc_rx ([STX] @ ''T1 23.5'' @ [ETX, CHR ''x''] @ [STX] @ ''T2 -3.0 '' @ [ETX, CHR ''y''])\<rparr>"

subsection \<open>Receiving a frame\<close>

lemma of_char_ETX [simp]: "of_char ETX = (3::nat)"
  by (simp add: ETX_def)

lemma receive_loop_ETX [simp]: "receive_loop (Suc n) s [ETX] response l = Some (Inr response, l)"
  by simp

lemma receive_loop_frame:
  assumes "is_open s" "ascii xs" "ETX \<notin> set xs" "char \<noteq> [ETX]" "length xs + 1 < fuel"
    and "rx l = enc_rx (xs @ [ETX]) @ rest"
  shows "receive_loop fuel s char response l = Some (Inr (response @ xs @ [ETX]), l\<lparr>rx := rest\<rparr>)"
  using assms
proof (induction xs arbitrary: fuel char response l)
  case Nil
  then have n: "fuel = Suc (Suc (fuel - 2))" by simp
  from Nil.prems have rd: "read_char s l = (Inr [ETX], l\<lparr>rx := rest\<rparr>)"
    using read_char_ascii [of s l ETX rest] by simp
  have "receive_loop (Suc (Suc (fuel - 2))) s char response l
        = receive_loop (Suc (fuel - 2)) s [ETX] (response @ [ETX]) (l\<lparr>rx := rest\<rparr>)"
    using Nil.prems(4) rd by simp
  then show ?case using n by simp
next
  case (Cons x xs)
  then have n: "fuel = Suc (fuel - 1)" and fuel': "length xs + 1 < fuel - 1" by simp_all
  let ?l1 = "l\<lparr>rx := enc_rx (xs @ [ETX]) @ rest\<rparr>"
  from Cons.prems have rd: "read_char s l = (Inr [x], ?l1)"
    using read_char_ascii [of s l x "enc_rx (xs @ [ETX]) @ rest"] by simp
  from Cons.prems have "[x] \<noteq> [ETX]" by auto
  with Cons.prems fuel' have
    ih: "receive_loop (fuel - 1) s [x] (response @ [x]) ?l1
         = Some (Inr ((response @ [x]) @ xs @ [ETX]), ?l1\<lparr>rx := rest\<rparr>)"
    by (intro Cons.IH) simp_all
  have "receive_loop (Suc (fuel - 1)) s char response l = receive_loop (fuel - 1) s [x] (response @ [x]) ?l1"
    using Cons.prems(4) rd by simp
  with ih n show ?case by simp
qed

text \<open>A response body of \<open>k\<close> characters needs fuel above \<open>k\<close>: one pass of the loop
  per character after the first, and one to see the ETX.\<close>

lemma receive_body:
  assumes "is_open s" "ascii body" "ETX \<notin> set body" "length body < fuel"
    and "rx l = enc_rx (body @ [ETX]) @ rest"
  shows "receiveResponse fuel s l
         = obind (Some (read_char s (l\<lparr>rx := rest\<rparr>))) (\<lambda>checksum l3. Some (Inr (body @ [ETX], checksum), l3))"
proof -
  let ?l2 = "l\<lparr>rx := rest\<rparr>"
  show ?thesis
  proof (cases body)
    case Nil
    then have n: "fuel = Suc (fuel - 1)" using assms(4) by simp
    from assms Nil have rd: "read_char s l = (Inr [ETX], ?l2)"
      using read_char_ascii [of s l ETX rest] by simp
    have "receive_loop (Suc (fuel - 1)) s [ETX] [ETX] ?l2 = Some (Inr [ETX], ?l2)" by simp
    with rd n Nil show ?thesis by (simp add: receiveResponse_def obind_def)
  next
    case (Cons b xs)
    let ?l1 = "l\<lparr>rx := enc_rx (xs @ [ETX]) @ rest\<rparr>"
    from assms Cons have rd: "read_char s l = (Inr [b], ?l1)"
      using read_char_ascii [of s l b "enc_rx (xs @ [ETX]) @ rest"] by simp
    from assms Cons have "receive_loop fuel s [b] [b] ?l1 = Some (Inr ([b] @ xs @ [ETX]), ?l2)"
      using receive_loop_frame [where s = s and xs = xs and char = "[b]" and response = "[b]"
          and l = ?l1 and rest = rest and fuel = fuel]
      by auto
    with rd Cons show ?thesis by (simp add: receiveResponse_def obind_def)
  qed
qed

lemma receive_frame:
  assumes "is_open s" "ascii body" "ETX \<notin> set body" "of_char cs < (128::nat)" "length body < fuel"
    and "rx l = enc_rx (body @ [ETX, cs]) @ rest"
  shows "receiveResponse fuel s l = Some (Inr (body @ [ETX], [cs]), l\<lparr>rx := rest\<rparr>)"
proof -
  have "rx l = enc_rx (body @ [ETX]) @ (enc_rx [cs] @ rest)" using assms(6) by simp
  note r = receive_body [OF assms(1-3,5) this]
  have "read_char s (l\<lparr>rx := enc_rx [cs] @ rest\<rparr>) = (Inr [cs], l\<lparr>rx := rest\<rparr>)"
    using assms(1,4) read_char_ascii [of s "l\<lparr>rx := enc_rx [cs] @ rest\<rparr>" cs rest] by simp
  then show ?thesis using r by (simp add: obind_def)
qed

lemma read_char_no_etx:
  assumes "is_open s" "no_etx (rx l)"
  shows "\<exists>c l'. read_char s l = (Inr c, l') \<and> c \<noteq> [ETX] \<and> no_etx (rx l')"
proof (cases "rx l")
  case Nil
  with assms show ?thesis by simp
next
  case (Cons x r)
  from assms Cons have nr: "no_etx r" by (simp add: no_etx_def)
  show ?thesis
  proof (cases x)
    case None
    with assms Cons nr show ?thesis by simp
  next
    case (Some b)
    with assms Cons have b: "b \<noteq> byte_of_char ETX" "unat b < 128" by (simp_all add: no_etx_def)
    then have "char_of_byte b \<noteq> ETX" using byte_of_char_of_byte by metis
    moreover have "read_char s l = (Inr [char_of_byte b], l\<lparr>rx := r\<rparr>)"
      using assms Cons Some b by (simp add: read_char_def ser_read1_def decode_ascii_def)
    ultimately show ?thesis using nr by auto
  qed
qed

lemma receive_loop_silent:
  assumes "is_open s" "no_etx (rx l)" "char \<noteq> [ETX]"
  shows "receive_loop fuel s char response l = None"
  using assms
proof (induction fuel arbitrary: char response l)
  case (Suc n)
  from read_char_no_etx [OF Suc.prems(1,2)] obtain c l' where
    rd: "read_char s l = (Inr c, l')" and c: "c \<noteq> [ETX]" and l': "no_etx (rx l')"
    by blast
  have "receive_loop n s c (response @ c) l' = None"
    using Suc.IH [OF Suc.prems(1) l' c] .
  with rd Suc.prems(3) show ?case by simp
qed simp

lemma receive_silent:
  assumes "is_open s" "no_etx (rx l)"
  shows "receiveResponse fuel s l = None"
proof -
  from read_char_no_etx [OF assms] obtain c l' where
    rd: "read_char s l = (Inr c, l')" and c: "c \<noteq> [ETX]" and l': "no_etx (rx l')"
    by blast
  have "receive_loop fuel s c c l' = None"
    using receive_loop_silent [OF assms(1) l' c] .
  with rd show ?thesis by (simp add: receiveResponse_def)
qed

subsection \<open>Requests of a session\<close>

lemma ascii_adress_string:
  assumes "createAdressString a = Inr ams"
  shows "ascii ams" "length ams = 4"
proof -
  from assms have r: "0 \<le> a" "a \<le> 99" using createAdressString_Inr_range by blast+
  have s: "ams = [digit_char (nat a div 10), digit_char (nat a div 10),
                 digit_char (nat a mod 10), digit_char (nat a mod 10)]"
    using assms adress_string_digits [OF r] by simp
  have "of_char (digit_char (nat a div 10)) < (128::nat)" "of_char (digit_char (nat a mod 10)) < (128::nat)"
    using adress_digits(1,2) [OF r] by (simp_all add: of_char_digit_char)
  then show "ascii ams" "length ams = 4" by (simp_all add: s)
qed

lemma request_bytes:
  assumes "hermes_inv h" "command \<in> set (map fst COMMANDS)"
  shows "rbind (createReadRequest (adressMessageString h) command) encode_ascii =
         Inr (map byte_of_char ([EOT] @ adressMessageString h @ command @ [ENQ]))"
proof -
  from assms have "ascii (adressMessageString h)"
    using ascii_adress_string(1) [of "adress h" "adressMessageString h"] by (simp add: hermes_inv_def)
  moreover have "ascii command"
    using registered_key_wf(2) [OF assms(2)] by (simp add: ascii_def)
  ultimately have "ascii ([EOT] @ adressMessageString h @ command @ [ENQ])"
    by (simp add: EOT_def ENQ_def)
  then show ?thesis
    using createReadRequest_ok [OF assms(2)] by (simp add: encode_ascii_def ascii_def list_all_iff)
qed

lemma read_unfold:
  assumes "hermes_inv h" "command \<in> set (map fst COMMANDS)"
  shows "read fuel h command l =
           obind (Some (ser_write (serial h) (map byte_of_char ([EOT] @ adressMessageString h @ command @ [ENQ])) l))
             (\<lambda>_ l. obind (receiveResponse fuel (serial h) l) (\<lambda>(response, checksum) l.
                Some (Inr (getValueFromResponse (makeHumanReadable response)), l)))"
  using request_bytes [OF assms] createReadRequest_ok [OF assms(2)]
  by (simp add: read_def)

lemma readMultiple_loop_dom:
  "readMultiple_loop fuel h commands acc l = Some (Inr m, l') \<Longrightarrow> dom m = dom acc \<union> set commands"
proof (induction commands arbitrary: acc l)
  case (Cons c cs)
  then obtain v l1 where "read fuel h c l = Some (Inr v, l1)"
    and "readMultiple_loop fuel h cs (acc(c \<mapsto> v)) l1 = Some (Inr m, l')"
    by (auto simp: obind_def split: option.splits sum.splits prod.splits)
  with Cons.IH show ?case by auto
qed simp

subsection \<open>Claims on the session\<close>

text \<open>C3: on an open port whose line brings no ETX
  (silence after the timeout included), the receive loop never returns, whatever the fuel: the
  timeout does not end it.\<close>

theorem receiveResponse_never_returns:
  assumes "is_open s" "no_etx (rx l)"
  shows "receiveResponse fuel s l = None"
  using assms by (rule receive_silent)

theorem receiveResponse_never_returns_witness:
  "receiveResponse 100 (serial example_session) \<lparr>available = True, tx = [], rx = enc_rx ''T1 23''\<rparr> = None"
proof (rule receiveResponse_never_returns)
  show "is_open (serial example_session)" by (simp add: example_session_def)
  show "no_etx (rx \<lparr>available = True, tx = [], rx = enc_rx ''T1 23''\<rparr>)" by code_simp
qed

text \<open>C12: on a session that is not connected, reading a registered
  command raises SerialException (port not open) and leaves the line unchanged.\<close>

theorem read_not_connected:
  assumes "hermes_inv h" "\<not> isConnected h" "command \<in> set (map fst COMMANDS)"
  shows "read fuel h command l = Some (Inl port_not_open, l)"
  using assms by (simp add: read_unfold ser_write_def isConnected_def)

theorem read_not_connected_witness:
  "read 10 example_closed ''T1'' example_line = Some (Inl port_not_open, example_line)"
proof (rule read_not_connected)
  show "hermes_inv example_closed" by code_simp
  show "\<not> isConnected example_closed"
    by (simp add: example_closed_def example_session_def disconnect_def ser_close_def isConnected_def)
  show "''T1'' \<in> set (map fst COMMANDS)" by (simp add: COMMANDS_def new_Command_def)
qed

text \<open>C4: a batch read that returns answers every
  command it was given, and no other: there is no partial result.\<close>

theorem readMultiple_all_or_nothing:
  assumes "readMultiple fuel h commands l = Some (Inr m, l')"
  shows "dom m = set commands"
  using readMultiple_loop_dom [of fuel h commands Map.empty l m l'] assms
  by (simp add: readMultiple_def)

theorem readMultiple_all_or_nothing_witness:
  "\<exists>m l'. readMultiple 20 example_session [''T1'', ''T2''] example_line = Some (Inr m, l')
          \<and> dom m = {''T1'', ''T2''}"
proof -
  have "map_option (map_prod (map_sum id (\<lambda>m. (m ''T1'', m ''T2''))) id)
          (readMultiple 20 example_session [''T1'', ''T2''] example_line)
        = Some (Inr (Some ''23.5'', Some ''-3.0''),
                example_line\<lparr>tx := [4, 48, 48, 49, 49, 84, 49, 5, 4, 48, 48, 49, 49, 84, 50, 5], rx := []\<rparr>)"
    by code_simp
  then obtain m l' where r: "readMultiple 20 example_session [''T1'', ''T2''] example_line = Some (Inr m, l')"
    by (cases "readMultiple 20 example_session [''T1'', ''T2''] example_line")
       (auto simp: map_sum_def split: sum.splits)
  then have "dom m = set [''T1'', ''T2'']" by (rule readMultiple_all_or_nothing)
  with r show ?thesis by auto
qed

lemma readMultiple_loop_append:
  "readMultiple_loop fuel h (xs @ ys) acc l
   = obind (readMultiple_loop fuel h xs acc l) (\<lambda>m l'. readMultiple_loop fuel h ys m l')"
proof (induction xs arbitrary: acc l)
  case Nil
  show ?case by (simp add: obind_def)
next
  case (Cons c cs)
  then show ?case
    by (auto simp: obind_def split: option.splits prod.splits sum.splits)
qed

lemma read_request_error:
  "createReadRequest (adressMessageString h) command = Inl e \<Longrightarrow> read fuel h command l = Some (Inl e, l)"
  by (simp add: read_def obind_def)

lemma connect_default:
  assumes "available l"
  shows "\<exists>h. HermesWr3223_init serialPort 1 = Inr h \<and> connect h l = (Inr (), connected_session serialPort)"
  using assms
  by (simp add: HermesWr3223_init_def adress_1 connect_def ser_open_def Serial_new_def connected_session_def)

lemma connected_session_inv:
  "hermes_inv (connected_session serialPort) \<and> isConnected (connected_session serialPort)"
  by (simp add: connected_session_def hermes_inv_def port_config_ok_def isConnected_def adress_1)

lemma read_char_tx: "read_char s l = (r, l') \<Longrightarrow> tx l' = tx l"
  by (auto simp: read_char_def ser_read1_def split: prod.splits sum.splits list.splits option.splits if_splits)

lemma receive_loop_tx: "receive_loop fuel s c response l = Some (r, l') \<Longrightarrow> tx l' = tx l"
proof (induction fuel s c response l rule: receive_loop.induct)
  case (2 n s char response l)
  show ?case
  proof (cases "char = [ETX]")
    case False
    obtain x l1 where rc: "read_char s l = (x, l1)" by fastforce
    then have "tx l1 = tx l" by (rule read_char_tx)
    then show ?thesis using 2 False rc by (auto split: sum.splits)
  qed (use 2 in simp)
qed simp

lemma receiveResponse_tx: "receiveResponse fuel s l = Some (r, l') \<Longrightarrow> tx l' = tx l"
  by (auto simp: receiveResponse_def obind_def dest!: receive_loop_tx read_char_tx
      split: option.splits prod.splits sum.splits)

lemma read_writes_7bit:
  "read fuel h command l = Some (r, l') \<Longrightarrow>
   \<exists>new. tx l' = tx l @ new \<and> (\<forall>b\<in>set new. unat b < (128::nat))"
  by (auto simp: read_def obind_def ser_write_def dest!: receiveResponse_tx encode_ascii_7bit
      split: sum.splits option.splits prod.splits if_splits)

text \<open>C30: a batch read, whether it returns a result or raises, only appends
  to the bytes on the line, and every byte it appends is below 128, so it fits in the
  7 data bits the port is configured with.\<close>

theorem readMultiple_writes_7bit:
  assumes "readMultiple fuel h commands l = Some (r, l')"
  shows "\<exists>new. tx l' = tx l @ new \<and> (\<forall>b\<in>set new. unat b < (128::nat))"
proof -
  have "readMultiple_loop fuel h cs acc l0 = Some (r, l') \<Longrightarrow>
        \<exists>new. tx l' = tx l0 @ new \<and> (\<forall>b\<in>set new. unat b < (128::nat))" for cs acc l0
  proof (induction cs arbitrary: acc l0)
    case (Cons c cs)
    then obtain x l1 where rd: "read fuel h c l0 = Some (x, l1)"
      by (cases "read fuel h c l0") (auto simp: obind_def)
    then obtain n1 where n1: "tx l1 = tx l0 @ n1" "\<forall>b\<in>set n1. unat b < (128::nat)"
      using read_writes_7bit by blast
    show ?case
    proof (cases x)
      case (Inl e)
      then show ?thesis using Cons.prems rd n1 by (auto simp: obind_def)
    next
      case (Inr v)
      then have "readMultiple_loop fuel h cs (acc(c \<mapsto> v)) l1 = Some (r, l')"
        using Cons.prems rd by (simp add: obind_def)
      then obtain n2 where "tx l' = tx l1 @ n2" "\<forall>b\<in>set n2. unat b < (128::nat)"
        using Cons.IH by blast
      then show ?thesis using n1 by (intro exI [of _ "n1 @ n2"]) auto
    qed
  qed (auto intro: exI [of _ "[]"])
  then show ?thesis using assms by (simp add: readMultiple_def)
qed

theorem readMultiple_writes_7bit_witness:
  "\<exists>r l' new. readMultiple 20 example_session [''T1''] example_line = Some (r, l')
              \<and> tx l' = tx example_line @ new \<and> (\<forall>b\<in>set new. unat b < (128::nat))"
proof -
  have "map_option (map_prod (map_sum id (\<lambda>m. m ''T1'')) id)
          (readMultiple 20 example_session [''T1''] example_line) =
        Some (Inr (Some ''23.5''), example_line\<lparr>tx := [4, 48, 48, 49, 49, 84, 49, 5],
                                   rx := enc_rx ([STX] @ ''T2 -3.0 '' @ [ETX, CHR ''y''])\<rparr>)"
    by code_simp
  then obtain r l' where "readMultiple 20 example_session [''T1''] example_line = Some (r, l')"
    by (cases "readMultiple 20 example_session [''T1''] example_line") auto
  then show ?thesis using readMultiple_writes_7bit by blast
qed

end
