(* ===== verification/Presenter.thy ===== *)
theory Presenter
  imports Registry
begin

text \<open>
  The Result Presenter of \<^verbatim>\<open>src/lib/hermesWr3223.py\<close>:
  \<^verbatim>\<open>getMessageByCommandResult\<close>, which combines a command's registry entry, the raw value
  and its mapped label into the display string \<^verbatim>\<open>"{cmd}: {descr}: {value} ({label}) {unit}"\<close>.
  The lemmas show that it never fails on a registered command, give its text, and show the
  KeyError on an unknown one.
\<close>

definition getMessageByCommandResult :: "string \<Rightarrow> string \<Rightarrow> string result" where
  "getMessageByCommandResult c r =
     rbind (getMappedResult c r) (\<lambda>mappedResult.
     rbind (dict_get COMMANDS c) (\<lambda>entry.
       let msg = c @ '': '' @ descr entry @ '': '' @ r;
           msg = (case mappedResult of None \<Rightarrow> msg | Some m \<Rightarrow> msg @ '' ('' @ m @ '')'')
       in case unit entry of
            None \<Rightarrow> Inl TypeError
          | Some u \<Rightarrow> Inr (msg @ '' '' @ u)))"

definition label_part :: "string option \<Rightarrow> string" where
  "label_part lab = (case lab of None \<Rightarrow> [] | Some m \<Rightarrow> '' ('' @ m @ '')'')"

lemma registered_entry:
  assumes "map_of COMMANDS c = Some entry"
  shows "\<exists>u. unit entry = Some u"
proof -
  from assms have "(c, entry) \<in> set COMMANDS" by (rule map_of_SomeD)
  with registry_entries_wf have "entry_wf (c, entry)" by (simp add: list_all_iff)
  then show ?thesis by (auto simp: entry_wf_def)
qed

lemma getMappedResult_registered:
  "map_of COMMANDS c = Some entry \<Longrightarrow>
   getMappedResult c r = Inr (case mapping entry of None \<Rightarrow> None | Some m \<Rightarrow> map_of m r)"
  by (auto simp: getMappedResult_def dict_get_def map_of_eq_None_iff [symmetric] split: option.splits)

lemma message_of_registered:
  assumes "map_of COMMANDS c = Some entry" "unit entry = Some u"
  shows "getMessageByCommandResult c r =
           Inr (c @ '': '' @ descr entry @ '': '' @ r
                @ label_part (case mapping entry of None \<Rightarrow> None | Some m \<Rightarrow> map_of m r) @ '' '' @ u)"
  using assms getMappedResult_registered [OF assms(1), of r]
  by (simp add: getMessageByCommandResult_def dict_get_def label_part_def Let_def
      split: option.splits)

text \<open>C16: for a registered command the message is the
  code, the description, the raw value, the label in brackets when the value has one, and the
  unit, separated as the code writes them; it never raises.\<close>

theorem getMessageByCommandResult_format:
  assumes "map_of COMMANDS c = Some entry"
  shows "\<exists>u. unit entry = Some u \<and>
           getMessageByCommandResult c r =
             Inr (c @ '': '' @ descr entry @ '': '' @ r
                  @ label_part (case mapping entry of None \<Rightarrow> None | Some m \<Rightarrow> map_of m r) @ '' '' @ u)"
  using registered_entry [OF assms] message_of_registered [OF assms] by blast

theorem getMessageByCommandResult_format_witness:
  "getMessageByCommandResult ''MD'' ''3.'' = Inr ''MD: Mode: 3. (Winter: WP aus) ''"
proof -
  obtain entry where e: "map_of COMMANDS ''MD'' = Some entry"
    by (simp add: COMMANDS_def new_Command_def)
  from getMessageByCommandResult_format [OF e, of "''3.''"] obtain u where
    u: "unit entry = Some u" and
    m: "getMessageByCommandResult ''MD'' ''3.'' =
          Inr (''MD'' @ '': '' @ descr entry @ '': '' @ ''3.''
               @ label_part (case mapping entry of None \<Rightarrow> None | Some m \<Rightarrow> map_of m ''3.'') @ '' '' @ u)"
    by blast
  from e u m show ?thesis
    by (auto simp: COMMANDS_def new_Command_def label_part_def)
qed

text \<open>C17: an unregistered code raises KeyError.\<close>

theorem getMessageByCommandResult_unknown:
  assumes "c \<notin> set (map fst COMMANDS)"
  shows "getMessageByCommandResult c r = Inl KeyError"
proof -
  from assms have "map_of COMMANDS c = None" by (simp add: map_of_eq_None_iff)
  then show ?thesis by (simp add: getMessageByCommandResult_def getMappedResult_def dict_get_def)
qed

theorem getMessageByCommandResult_unknown_witness:
  "getMessageByCommandResult ''XX'' ''1.'' = Inl KeyError"
  by (rule getMessageByCommandResult_unknown) (simp add: COMMANDS_def new_Command_def)

end
