(* ===== verification/Legacy.thy ===== *)
theory Legacy
  imports Transport
begin

text \<open>
  The earlier module \<^verbatim>\<open>src/lib/hermesWr3223.backup.py\<close>: module-level functions instead
  of the class, a registry of five codes mapped to descriptions, the address checked inside the
  request builder after the command, a fixed address 1, and a query over all registered codes.
  The lemmas show that its request builder and its query agree with the current module's
  \<^verbatim>\<open>_createReadRequest\<close> and \<^verbatim>\<open>readMultiple\<close> on the codes it knows.
\<close>

definition legacy_CONTROLCHARS :: "(char \<times> string) list" where
  "legacy_CONTROLCHARS =
     [(STX, ''<STX>''), (ETX, ''<ETX>''), (EOT, ''<EOT>''),
      (ENQ, ''<ENQ>''), (ACK, ''<ACK>''), (NAK, ''<NAK>'')]"

definition legacy_COMMANDS :: "(string \<times> string) list" where
  "legacy_COMMANDS =
     [(''T1'', ''Temperatur Verdampfer''), (''T2'', ''Temperatur Kondensator''),
      (''T3'', ''Temperatur Luft aussen''), (''T4'', ''Temperatur Abluft (Raumtemperatur)''),
      (''T5'', ''Temperatur nach W'' @ [auml] @ ''rmetauscher'')]"

definition legacy_makeHumanReadable :: "string \<Rightarrow> string" where
  "legacy_makeHumanReadable message =
     concat (map (\<lambda>char. if char \<in> set (map fst legacy_CONTROLCHARS)
                         then (case map_of legacy_CONTROLCHARS char of Some n \<Rightarrow> n | None \<Rightarrow> [])
                         else [char]) message)"

definition legacy_createAdressStringForRequest :: "int \<Rightarrow> string result" where
  "legacy_createAdressStringForRequest adr =
     (if adr < 0 \<or> adr > 99 then Inl (ValueError ''The specified adress is out ouf range'')
      else
        (let adressString = py_str_int adr;
             adressString' = (if length adressString = 1 then ''0'' @ adressString else adressString)
         in rbind (py_index adressString' 0) (\<lambda>adressCharHigh.
            rbind (py_index adressString' 1) (\<lambda>adressCharLow.
              Inr [adressCharHigh, adressCharHigh, adressCharLow, adressCharLow]))))"

definition legacy_createReadRequest :: "int \<Rightarrow> string \<Rightarrow> string result" where
  "legacy_createReadRequest adr command =
     (if length command \<noteq> 2 then Inl (ValueError ''The given Command is invalid - must have 2 chars!'')
      else if command \<notin> set (map fst legacy_COMMANDS) then Inl (ValueError ''The given Command is unknown'')
      else rbind (legacy_createAdressStringForRequest adr)
             (\<lambda>adressMessageString. Inr ([EOT] @ adressMessageString @ command @ [ENQ])))"

text \<open>\<^verbatim>\<open>serial.Serial('/dev/ttyUSB0', ...)\<close> with a port opens it at once.\<close>

definition legacy_createConnection :: "line \<Rightarrow> serial_port result" where
  "legacy_createConnection l =
     ser_open (Serial_new\<lparr>port := Some ''/dev/ttyUSB0'', baudrate := 9600, bytesize := 7,
                          parity := PARITY_EVEN, stopbits := 1, timeout := Some 5,
                          xonxoff := False, rtscts := True\<rparr>) l"

definition legacy_receiveResponse :: "nat \<Rightarrow> serial_port \<Rightarrow> line \<Rightarrow> (line, string \<times> string) outcome" where
  "legacy_receiveResponse fuel connection l =
     obind (Some (read_char connection l)) (\<lambda>char l1.
     obind (receive_loop fuel connection char char l1) (\<lambda>response l2.
     obind (Some (read_char connection l2)) (\<lambda>checksum l3.
     Some (Inr (response, checksum), l3))))"

definition legacy_readFromDevice :: "nat \<Rightarrow> serial_port \<Rightarrow> string \<Rightarrow> line \<Rightarrow> (line, string) outcome" where
  "legacy_readFromDevice fuel connection command l =
     (let adr = 1 in
      obind (Some (legacy_createReadRequest adr command, l)) (\<lambda>request l.
      obind (Some (encode_ascii request, l)) (\<lambda>bytes l.
      obind (Some (ser_write connection bytes l)) (\<lambda>_ l.
      obind (legacy_receiveResponse fuel connection l) (\<lambda>(response, checksum) l.
      Some (Inr (legacy_makeHumanReadable response), l))))))"

definition legacy_getValueFromResponse :: "string \<Rightarrow> string" where
  "legacy_getValueFromResponse response =
     (let value = py_replace ''<STX>'' '''' response;
          value = py_replace ''<ETX>'' '''' value;
          value = drop 2 value
      in py_strip value)"

fun legacy_query_loop ::
  "nat \<Rightarrow> serial_port \<Rightarrow> string list \<Rightarrow> (string \<rightharpoonup> string) \<Rightarrow> line \<Rightarrow> (line, string \<rightharpoonup> string) outcome" where
  "legacy_query_loop fuel connection [] result l = Some (Inr result, l)"
| "legacy_query_loop fuel connection (command # commands) result l =
     obind (legacy_readFromDevice fuel connection command l) (\<lambda>response l'.
       legacy_query_loop fuel connection commands
         (result(command \<mapsto> legacy_getValueFromResponse response)) l')"

definition legacy_query :: "nat \<Rightarrow> serial_port \<Rightarrow> line \<Rightarrow> (line, string \<rightharpoonup> string) outcome" where
  "legacy_query fuel connection l = legacy_query_loop fuel connection (map fst legacy_COMMANDS) Map.empty l"

text \<open>The session of the current module that the legacy functions act as: address 1 on the
  given port.\<close>

definition legacy_session :: "serial_port \<Rightarrow> HermesWr3223" where
  "legacy_session s = \<lparr>serial = s, adress = 1, adressMessageString = ''0011''\<rparr>"

subsection \<open>Agreement with the current module\<close>

lemma legacy_CONTROLCHARS_eq: "legacy_CONTROLCHARS = CONTROLCHARS"
  by (simp add: legacy_CONTROLCHARS_def CONTROLCHARS_def)

lemma legacy_makeHumanReadable_eq: "legacy_makeHumanReadable = makeHumanReadable"
proof
  fix msg
  have "\<And>c. (if c \<in> set (map fst CONTROLCHARS)
              then (case map_of CONTROLCHARS c of Some n \<Rightarrow> n | None \<Rightarrow> []) else [c])
            = (case map_of CONTROLCHARS c of Some n \<Rightarrow> n | None \<Rightarrow> [c])"
    by (auto simp: map_of_eq_None_iff [symmetric] split: option.splits)
  then show "legacy_makeHumanReadable msg = makeHumanReadable msg"
    unfolding legacy_makeHumanReadable_def makeHumanReadable_def legacy_CONTROLCHARS_eq
    by simp
qed

lemma legacy_getValueFromResponse_eq: "legacy_getValueFromResponse = getValueFromResponse"
  by (simp add: fun_eq_iff legacy_getValueFromResponse_def getValueFromResponse_def)

lemma legacy_adress_eq: "legacy_createAdressStringForRequest = createAdressString"
  by (simp add: fun_eq_iff legacy_createAdressStringForRequest_def createAdressString_def)

lemma legacy_keys_registered: "set (map fst legacy_COMMANDS) \<subseteq> set (map fst COMMANDS)"
  by (simp add: legacy_COMMANDS_def COMMANDS_def new_Command_def)

lemma legacy_keys_length: "c \<in> set (map fst legacy_COMMANDS) \<Longrightarrow> length c = 2"
  by (auto simp: legacy_COMMANDS_def)

lemma legacy_request_eq:
  "c \<in> set (map fst legacy_COMMANDS) \<Longrightarrow>
   legacy_createReadRequest a c = rbind (createAdressString a) (\<lambda>ams. createReadRequest ams c)"
  using legacy_keys_registered legacy_keys_length [of c]
  by (cases "createAdressString a")
     (auto simp: legacy_createReadRequest_def createReadRequest_def legacy_adress_eq)

lemma legacy_read_step:
  assumes "c \<in> set (map fst legacy_COMMANDS)"
  shows "obind (legacy_readFromDevice fuel s c l) (\<lambda>r. k (legacy_getValueFromResponse r))
         = obind (read fuel (legacy_session s) c l) k"
proof -
  have req: "legacy_createReadRequest 1 c = createReadRequest ''0011'' c"
    using legacy_request_eq [OF assms, of 1] by (simp add: adress_1)
  show ?thesis
    by (simp add: legacy_readFromDevice_def read_def req legacy_session_def obind_def
        legacy_receiveResponse_def receiveResponse_def legacy_makeHumanReadable_eq
        legacy_getValueFromResponse_eq
        split: option.splits sum.splits prod.splits)
qed

lemma legacy_query_loop_eq:
  "set commands \<subseteq> set (map fst legacy_COMMANDS) \<Longrightarrow>
   legacy_query_loop fuel s commands acc l = readMultiple_loop fuel (legacy_session s) commands acc l"
proof (induction commands arbitrary: acc l)
  case (Cons c cs)
  then have c: "c \<in> set (map fst legacy_COMMANDS)" and cs: "set cs \<subseteq> set (map fst legacy_COMMANDS)"
    by simp_all
  show ?case
    unfolding legacy_query_loop.simps readMultiple_loop.simps Cons.IH [OF cs]
    by (rule legacy_read_step [OF c])
qed simp

subsection \<open>Claims on the legacy module\<close>

text \<open>C20: on the five codes it knows, the legacy request
  builder is the current one applied to the address string of its address, address errors
  included.\<close>

theorem legacy_createReadRequest_equiv:
  assumes "c \<in> set (map fst legacy_COMMANDS)"
  shows "legacy_createReadRequest a c = rbind (createAdressString a) (\<lambda>ams. createReadRequest ams c)"
  using assms by (rule legacy_request_eq)

theorem legacy_createReadRequest_equiv_witness:
  "legacy_createReadRequest 2 ''T3'' = Inr ([EOT] @ ''0022'' @ ''T3'' @ [ENQ])"
proof -
  have "legacy_createReadRequest 2 ''T3'' = rbind (createAdressString 2) (\<lambda>ams. createReadRequest ams ''T3'')"
    by (rule legacy_createReadRequest_equiv) (simp add: legacy_COMMANDS_def)
  then show ?thesis by code_simp
qed

text \<open>C19: the legacy query over its registry is the current
  readMultiple over the same codes, in the same order, on a session at address 1 with the same
  port: same result, same bytes written, same bytes consumed, same errors and the same
  non-termination.\<close>

theorem legacy_query_equiv:
  "legacy_query fuel s l = readMultiple fuel (legacy_session s) (map fst legacy_COMMANDS) l"
  unfolding legacy_query_def readMultiple_def by (rule legacy_query_loop_eq) simp

text \<open>C21: a connection the legacy module opens is open
  and has the configuration of the class: 9600 baud, 7 data bits, even parity, one stop bit,
  hardware flow control, 5 s timeout.\<close>

theorem legacy_createConnection_config:
  assumes "legacy_createConnection l = Inr s"
  shows "port_config_ok s \<and> is_open s"
  using assms
  by (auto simp: legacy_createConnection_def ser_open_def Serial_new_def port_config_ok_def
      split: if_splits)

theorem legacy_createConnection_config_witness:
  "\<exists>s. legacy_createConnection \<lparr>available = True, tx = [], rx = []\<rparr> = Inr s \<and> port_config_ok s \<and> is_open s"
proof -
  obtain s where s: "legacy_createConnection \<lparr>available = True, tx = [], rx = []\<rparr> = Inr s"
    by (simp add: legacy_createConnection_def ser_open_def Serial_new_def)
  then show ?thesis using legacy_createConnection_config [OF s] by blast
qed

end
