(* ===== verification/Plugin.thy ===== *)
theory Plugin
  imports Presenter Transport
begin

text \<open>
  The Domoticz plugin of \<^verbatim>\<open>src/plugin.py\<close>: the class \<^verbatim>\<open>BasePlugin\<close> (its command
  groups, the two device maps built by the constructor, \<^verbatim>\<open>createDevice\<close>,
  \<^verbatim>\<open>createDevices\<close>, \<^verbatim>\<open>createSwitchOptionsFromResultMapping\<close>,
  \<^verbatim>\<open>getDomoticzSwitchLevel\<close>, \<^verbatim>\<open>updateDevices\<close>, \<^verbatim>\<open>onStart\<close>,
  \<^verbatim>\<open>onHeartbeat\<close>) and the helper \<^verbatim>\<open>UpdateDevice\<close>. The host's device table
  \<^verbatim>\<open>Devices\<close> is an insertion-ordered dictionary from unit numbers to device records; of
  the host API the model keeps what the plugin relies on: \<^verbatim>\<open>Device(...).Create()\<close> adds a
  device under a free unit (\<open>device_create\<close>) and \<^verbatim>\<open>Update\<close> sets its two values.
  Logging, debugging and the heartbeat interval are not state of the model.
  The lemmas show that the device maps are inverse bijections onto the registry's codes,
  that a start on an empty table creates one device per code, that a selector level names
  the label of the raw value, that a heartbeat never adds or removes devices, and that every
  exception of a heartbeat surfaces as \<^verbatim>\<open>AttributeError\<close>.
\<close>

record Device =
  Name :: string
  TypeName :: string
  Options :: "(string \<times> string) list"
  nValue :: int
  sValue :: string

type_synonym devices = "(nat \<times> Device) list"

text \<open>\<^verbatim>\<open>Domoticz.Device(Name=..., Unit=..., TypeName=..., Options=...).Create()\<close>:
  a new device has \<open>nValue = 0\<close> and an empty \<open>sValue\<close>; a unit in use is left alone.\<close>

definition device_create :: "nat \<Rightarrow> string \<Rightarrow> string \<Rightarrow> (string \<times> string) list \<Rightarrow> devices \<Rightarrow> devices" where
  "device_create u n t opts devs =
     (if u \<in> set (map fst devs) then devs
      else dict_set devs u \<lparr>Name = n, TypeName = t, Options = opts, nValue = 0, sValue = ''''\<rparr>)"

subsection \<open>The class constants and the constructor\<close>

definition usedSelectorSwitchCommands :: "string list" where
  "usedSelectorSwitchCommands = [''MD'', ''LS'', ''Tf'']"

definition usedTemperatureCommands :: "string list" where
  "usedTemperatureCommands = [''T1'', ''T2'', ''T3'', ''T4'', ''T5'', ''T6'', ''T7'', ''T8'']"

definition usedPercentageCommands :: "string list" where
  "usedPercentageCommands = [''L1'', ''L2'', ''L3'', ''LD'', ''Ld'']"

definition usedCustomCommands :: "string list" where
  "usedCustomCommands = [''NZ'', ''NA'', ''UZ'', ''UA'']"

definition usedSpecificCommands :: "string list" where
  "usedSpecificCommands =
     usedSelectorSwitchCommands @ usedTemperatureCommands @ usedPercentageCommands @ usedCustomCommands"

text \<open>\<^verbatim>\<open>tuple(sorted(set(COMMANDS.keys()) - set(usedSpecificCommands)))\<close>: Python orders
  strings by code point, as \<open>List_Lexorder\<close> orders \<open>char list\<close>.\<close>

definition usedTextCommands :: "string list" where
  "usedTextCommands = sorted_list_of_set (set (map fst COMMANDS) - set usedSpecificCommands)"

definition usedCommands :: "string list" where
  "usedCommands = usedSpecificCommands @ usedTextCommands"

record BasePlugin =
  mapDeviceToUsedCmd :: "(nat \<times> string) list"
  mapUsedCmdToDevice :: "(string \<times> nat) list"

definition BasePlugin_init :: BasePlugin where
  "BasePlugin_init =
     (let mapDeviceToUsedCmd = dict_from (zip [1..<length usedCommands + 1] usedCommands)
      in \<lparr>mapDeviceToUsedCmd = mapDeviceToUsedCmd,
          mapUsedCmdToDevice = dict_from (map (\<lambda>(k, v). (v, k)) mapDeviceToUsedCmd)\<rparr>)"

subsection \<open>Device creation\<close>

definition createDevice ::
  "BasePlugin \<Rightarrow> string \<Rightarrow> string \<Rightarrow> (string \<times> string) list \<Rightarrow> devices \<Rightarrow> unit result \<times> devices" where
  "createDevice p c deviceType options devs =
     (if c \<notin> set usedCommands then
        (Inl (ValueError (''cmd='' @ c @ '' is not a valid command! See BasePlugin.usedCommands!'')), devs)
      else if c \<notin> set (map fst COMMANDS) then
        (Inl (ValueError (''cmd='' @ c @ '' is not a valid command! See hermesWr3223.COMMANDS!'')), devs)
      else (case dict_get (mapUsedCmdToDevice p) c of
              Inl e \<Rightarrow> (Inl e, devs)
            | Inr deviceIdx \<Rightarrow>
                (case dict_get COMMANDS c of
                   Inl e \<Rightarrow> (Inl e, devs)
                 | Inr entry \<Rightarrow>
                     (Inr (), device_create deviceIdx (c @ '': '' @ descr entry) deviceType options devs))))"

text \<open>The selector options: the labels in the order of the sorted raw values, each followed
  by \<open>|\<close>, the last \<open>|\<close> cut off (\<^verbatim>\<open>[:-1]\<close>); \<open>the\<close> reads \<^verbatim>\<open>resultMapping[result]\<close> for
  a key of the mapping itself.\<close>

definition createSwitchOptionsFromResultMapping ::
  "(string \<times> string) list option \<Rightarrow> (string \<times> string) list" where
  "createSwitchOptionsFromResultMapping resultMapping =
     (case resultMapping of
        None \<Rightarrow> []
      | Some m \<Rightarrow>
          (let ks = sort (map fst m);
               levelNames = butlast (concat (map (\<lambda>r. the (map_of m r) @ ''|'') ks));
               levelActions = butlast (concat (map (\<lambda>r. ''|'') ks))
           in [(''LevelNames'', levelNames), (''LevelActions'', levelActions),
               (''LevelOffHidden'', ''false''), (''SelectorStyle'', ''1'')]))"

definition createDevices :: "BasePlugin \<Rightarrow> devices \<Rightarrow> unit result \<times> devices" where
  "createDevices p devs =
     sthen (for_each (\<lambda>c. createDevice p c ''Temperature'' []) usedTemperatureCommands devs) (\<lambda>_ d.
     sthen (for_each (\<lambda>c. createDevice p c ''Percentage'' []) usedPercentageCommands d) (\<lambda>_ d.
     sthen (for_each (\<lambda>c. createDevice p c ''Text'' []) usedTextCommands d) (\<lambda>_ d.
     sthen (for_each (\<lambda>c d. case dict_get COMMANDS c of
                              Inl e \<Rightarrow> (Inl e, d)
                            | Inr entry \<Rightarrow>
                                (case unit entry of
                                   None \<Rightarrow> (Inl TypeError, d)
                                 | Some u \<Rightarrow> createDevice p c ''Custom'' [(''Custom'', ''1;'' @ u)] d))
             usedCustomCommands d) (\<lambda>_ d.
     for_each (\<lambda>c d. case dict_get COMMANDS c of
                       Inl e \<Rightarrow> (Inl e, d)
                     | Inr entry \<Rightarrow>
                         createDevice p c ''Selector Switch''
                           (createSwitchOptionsFromResultMapping (mapping entry)) d)
       usedSelectorSwitchCommands d))))"

text \<open>\<^verbatim>\<open>getDomoticzSwitchLevel\<close>: without a mapping the error message is formatted with two
  arguments for three placeholders, which raises \<^verbatim>\<open>TypeError\<close>; a raw value that is not a
  key is returned unchanged by the \<^verbatim>\<open>except ValueError\<close> branch.\<close>

definition getDomoticzSwitchLevel :: "string \<Rightarrow> string \<Rightarrow> string result" where
  "getDomoticzSwitchLevel c r =
     rbind (dict_get COMMANDS c) (\<lambda>entry.
       case mapping entry of
         None \<Rightarrow> Inl TypeError
       | Some m \<Rightarrow>
           (case rbind (list_index (sort (map fst m)) r) (\<lambda>index. Inr (py_str_nat (10 * index))) of
              Inl (ValueError err) \<Rightarrow> Inr r
            | Inl e \<Rightarrow> Inl e
            | Inr switchLevel \<Rightarrow> Inr switchLevel))"

subsection \<open>Device update and the heartbeat\<close>

definition UpdateDevice :: "nat \<Rightarrow> int \<Rightarrow> string \<Rightarrow> devices \<Rightarrow> devices" where
  "UpdateDevice u n s devs =
     (case map_of devs u of
        None \<Rightarrow> devs
      | Some d \<Rightarrow> if nValue d \<noteq> n \<or> sValue d \<noteq> s then dict_set devs u (d\<lparr>nValue := n, sValue := s\<rparr>)
                  else devs)"

text \<open>One pass of the \<^verbatim>\<open>for cmd in self.usedCommands\<close> loop of \<^verbatim>\<open>updateDevices\<close>.\<close>

definition update_cmd ::
  "BasePlugin \<Rightarrow> (string \<rightharpoonup> string) \<Rightarrow> string \<Rightarrow> devices \<Rightarrow> unit result \<times> devices" where
  "update_cmd p results c devs =
     (case results c of
        None \<Rightarrow> (Inr (), devs)
      | Some result \<Rightarrow>
          (case getMessageByCommandResult c result of
             Inl e \<Rightarrow> (Inl e, devs)
           | Inr resultLogMessage \<Rightarrow>
               (case (if c \<in> set usedSelectorSwitchCommands then getDomoticzSwitchLevel c result
                      else Inr result) of
                  Inl e \<Rightarrow> (Inl e, devs)
                | Inr resultToSet \<Rightarrow>
                    (let resultToSet = (if c \<in> set usedTextCommands then resultLogMessage else resultToSet)
                     in case dict_get (mapUsedCmdToDevice p) c of
                          Inl e \<Rightarrow> (Inl e, devs)
                        | Inr deviceIdx \<Rightarrow> (Inr (), UpdateDevice deviceIdx 0 resultToSet devs)))))"

text \<open>\<^verbatim>\<open>updateDevices\<close>, with the host's \<^verbatim>\<open>Parameters\<close> dictionary as
  \<open>params\<close>: the handler \<^verbatim>\<open>except serial.Serialexception\<close> names an attribute the
  module \<^verbatim>\<open>serial\<close> does not have, so evaluating it when any exception of the
  \<^verbatim>\<open>try\<close> block reaches it (a missing \<^verbatim>\<open>SerialPort\<close> parameter included) raises
  \<^verbatim>\<open>AttributeError\<close> in place of that exception.\<close>

definition serial_handler :: "unit result \<Rightarrow> unit result" where
  "serial_handler r = (case r of Inl e \<Rightarrow> Inl (AttributeError ''Serialexception'') | Inr u \<Rightarrow> Inr u)"

definition updateDevices ::
  "nat \<Rightarrow> BasePlugin \<Rightarrow> (string \<times> string) list \<Rightarrow> devices \<Rightarrow> line \<Rightarrow> (devices \<times> line, unit) outcome" where
  "updateDevices fuel p params devs l =
     map_option (map_prod serial_handler id)
       (case dict_get params ''SerialPort'' of
          Inl e \<Rightarrow> Some (Inl e, (devs, l))
        | Inr serialPort \<Rightarrow>
       (case HermesWr3223_init serialPort 1 of
          Inl e \<Rightarrow> Some (Inl e, (devs, l))
        | Inr wgt \<Rightarrow>
            (case connect wgt l of
               (Inl e, _) \<Rightarrow> Some (Inl e, (devs, l))
             | (Inr _, wgt) \<Rightarrow>
                 (case readMultiple fuel wgt usedCommands l of
                    None \<Rightarrow> None
                  | Some (Inl e, l') \<Rightarrow> Some (Inl e, (devs, l'))
                  | Some (Inr results, l') \<Rightarrow>
                      (case for_each (update_cmd p results) usedCommands devs of
                         (r, devs') \<Rightarrow> Some (r, (devs', l')))))))"

text \<open>The device part of \<^verbatim>\<open>onStart\<close>: \<^verbatim>\<open>if (len(Devices) == 0): self.createDevices()\<close>.\<close>

definition onStart_devices :: "BasePlugin \<Rightarrow> devices \<Rightarrow> unit result \<times> devices" where
  "onStart_devices p devs = (if length devs = 0 then createDevices p devs else (Inr (), devs))"

subsection \<open>What the host sees\<close>

text \<open>The part of a device a heartbeat must not touch: unit, name, type and options.\<close>

definition dev_frame :: "devices \<Rightarrow> (nat \<times> string \<times> string \<times> (string \<times> string) list) list" where
  "dev_frame devs = map (\<lambda>(u, d). (u, Name d, TypeName d, Options d)) devs"

text \<open>The device type each command group is created with.\<close>

definition device_type :: "string \<Rightarrow> string" where
  "device_type c =
     (if c \<in> set usedTemperatureCommands then ''Temperature''
      else if c \<in> set usedPercentageCommands then ''Percentage''
      else if c \<in> set usedTextCommands then ''Text''
      else if c \<in> set usedCustomCommands then ''Custom''
      else ''Selector Switch'')"

text \<open>The device each command gets at the first start: its unit, its name, its type and
  its options, in the order \<^verbatim>\<open>createDevices\<close> creates them.\<close>

definition device_unit :: "string \<Rightarrow> nat" where
  "device_unit c = (case map_of (mapUsedCmdToDevice BasePlugin_init) c of None \<Rightarrow> 0 | Some u \<Rightarrow> u)"

definition device_name :: "string \<Rightarrow> string" where
  "device_name c = (case map_of COMMANDS c of None \<Rightarrow> [] | Some e \<Rightarrow> c @ '': '' @ descr e)"

definition device_options :: "string \<Rightarrow> (string \<times> string) list" where
  "device_options c =
     (case map_of COMMANDS c of
        None \<Rightarrow> []
      | Some e \<Rightarrow>
          (if c \<in> set usedCustomCommands then
             (case unit e of None \<Rightarrow> [] | Some u \<Rightarrow> [(''Custom'', ''1;'' @ u)])
           else if c \<in> set usedSelectorSwitchCommands then createSwitchOptionsFromResultMapping (mapping e)
           else []))"

definition creation_order :: "string list" where
  "creation_order = usedTemperatureCommands @ usedPercentageCommands @ usedTextCommands
                    @ usedCustomCommands @ usedSelectorSwitchCommands"

definition device_spec :: "string \<Rightarrow> nat \<times> string \<times> string \<times> (string \<times> string) list" where
  "device_spec c = (device_unit c, device_name c, device_type c, device_options c)"

definition create_spec :: "string \<Rightarrow> devices \<Rightarrow> devices" where
  "create_spec c = device_create (device_unit c) (device_name c) (device_type c) (device_options c)"

text \<open>A device is well formed when its unit is the device number of a registered command and
  it carries that command's name and type; a table is well formed when, besides, its units
  are distinct.\<close>

definition device_ok :: "BasePlugin \<Rightarrow> nat \<times> string \<times> string \<times> (string \<times> string) list \<Rightarrow> bool" where
  "device_ok p f =
     (case f of (u, n, t, _) \<Rightarrow>
        (case map_of (mapDeviceToUsedCmd p) u of
           None \<Rightarrow> False
         | Some c \<Rightarrow> (case map_of COMMANDS c of
                        None \<Rightarrow> False
                      | Some e \<Rightarrow> n = c @ '': '' @ descr e \<and> t = device_type c)))"

definition devices_wf :: "BasePlugin \<Rightarrow> devices \<Rightarrow> bool" where
  "devices_wf p devs = (distinct (map fst devs) \<and> list_all (device_ok p) (dev_frame devs))"

text \<open>The host's reading of a selector switch: level \<open>10 * i\<close> shows the \<open>i\<close>-th entry of
  \<^verbatim>\<open>LevelNames\<close> split at \<open>|\<close>.\<close>

definition selector_level_name :: "(string \<times> string) list \<Rightarrow> nat \<Rightarrow> string option" where
  "selector_level_name options i =
     (case map_of options ''LevelNames'' of
        None \<Rightarrow> None
      | Some names \<Rightarrow> (let ns = py_split (CHR ''|'') names in if i < length ns then Some (ns ! i) else None))"

text \<open>What a device shows after a heartbeat read \<open>v\<close> for its command: the presenter's
  message for a text device, the selector level for a selector switch, the value itself
  otherwise (the assignments to \<^verbatim>\<open>resultToSet\<close> in \<^verbatim>\<open>updateDevices\<close>).\<close>

definition display_value :: "string \<Rightarrow> string \<Rightarrow> string" where
  "display_value c v =
     (if c \<in> set usedTextCommands then (case getMessageByCommandResult c v of Inl _ \<Rightarrow> v | Inr m \<Rightarrow> m)
      else if c \<in> set usedSelectorSwitchCommands then
        (case getDomoticzSwitchLevel c v of Inl _ \<Rightarrow> v | Inr s \<Rightarrow> s)
      else v)"

subsection \<open>The device maps and the first start\<close>

lemma usedCommands_distinct: "distinct usedCommands"
  by code_simp

lemma usedCommands_registry: "set usedCommands = set (map fst COMMANDS)"
  by code_simp

lemma mapDeviceToUsedCmd_init:
  "mapDeviceToUsedCmd BasePlugin_init = zip [1..<length usedCommands + 1] usedCommands"
  by (simp add: BasePlugin_init_def Let_def dict_from_distinct)

lemma mapUsedCmdToDevice_init:
  "mapUsedCmdToDevice BasePlugin_init = zip usedCommands [1..<length usedCommands + 1]"
proof -
  have "map (\<lambda>(k, v). (v, k)) (zip [1..<length usedCommands + 1] usedCommands)
        = zip usedCommands [1..<length usedCommands + 1]"
    by (subst zip_commute) (simp add: split_def comp_def)
  moreover have "distinct (map fst (zip usedCommands [1..<length usedCommands + 1]))"
    using usedCommands_distinct by simp
  ultimately show ?thesis
    using mapDeviceToUsedCmd_init by (simp add: BasePlugin_init_def Let_def dict_from_distinct)
qed


lemma usedTextCommands_eq:
  "usedTextCommands = [''AA'', ''AE'', ''AN'', ''AP'', ''Az'', ''ER'', ''ES'', ''EW'', ''II'', ''KM'', ''PA'', ''RL'', ''ST'', ''WP'', ''ZE'', ''ZH'']"
  by code_simp

lemma usedCommands_units: "map device_unit usedCommands = [1..<length usedCommands + 1]"
proof (rule nth_equalityI)
  fix i assume "i < length (map device_unit usedCommands)"
  then have i: "i < length usedCommands" by simp
  have "map_of (zip usedCommands [1..<length usedCommands + 1]) (usedCommands ! i) = Some (Suc i)"
    using map_of_zip_nth [of usedCommands "[1..<length usedCommands + 1]" i] i usedCommands_distinct
    by (simp del: upt_Suc)
  then show "map device_unit usedCommands ! i = [1..<length usedCommands + 1] ! i"
    using i by (simp add: device_unit_def mapUsedCmdToDevice_init del: upt_Suc)
qed (simp del: upt_Suc)

lemma device_unit_inverse:
  "c \<in> set usedCommands \<Longrightarrow> map_of (mapDeviceToUsedCmd BasePlugin_init) (device_unit c) = Some c"
proof -
  assume "c \<in> set usedCommands"
  then obtain i where i: "i < length usedCommands" "usedCommands ! i = c"
    by (auto simp: in_set_conv_nth)
  have "device_unit c = Suc i"
    using usedCommands_units i nth_map [of i usedCommands device_unit] by (simp del: upt_Suc)
  moreover have "map_of (zip [1..<length usedCommands + 1] usedCommands) (Suc i) = Some c"
    using map_of_zip_nth [of "[1..<length usedCommands + 1]" usedCommands i] i
    by (simp del: upt_Suc)
  ultimately show ?thesis by (simp add: mapDeviceToUsedCmd_init del: upt_Suc)
qed

lemma unit_of_used:
  "c \<in> set usedCommands \<Longrightarrow> map_of (mapUsedCmdToDevice BasePlugin_init) c = Some (device_unit c)"
  by (cases "map_of (mapUsedCmdToDevice BasePlugin_init) c")
    (simp_all add: device_unit_def mapUsedCmdToDevice_init map_of_zip_is_None del: upt_Suc)

lemma createDevice_used:
  assumes "c \<in> set usedCommands"
  shows "createDevice BasePlugin_init c t opts devs
         = (Inr (), device_create (device_unit c) (device_name c) t opts devs)"
proof -
  have "map_of COMMANDS c \<noteq> None"
    using assms usedCommands_registry by (simp add: map_of_eq_None_iff)
  then obtain e where e: "map_of COMMANDS c = Some e" by blast
  have "c \<in> set (map fst COMMANDS)" using assms usedCommands_registry by simp
  then show ?thesis using assms e unit_of_used [OF assms]
    by (simp add: createDevice_def device_name_def dict_get_def)
qed

lemma device_create_fresh:
  "u \<notin> set (map fst devs) \<Longrightarrow>
   device_create u n t opts devs = devs @ [(u, \<lparr>Name = n, TypeName = t, Options = opts, nValue = 0, sValue = ''''\<rparr>)]"
  by (simp add: device_create_def dict_set_def)




lemma used_groups:
  "set usedTemperatureCommands \<subseteq> set usedCommands" "set usedPercentageCommands \<subseteq> set usedCommands"
  "set usedTextCommands \<subseteq> set usedCommands" "set usedCustomCommands \<subseteq> set usedCommands"
  "set usedSelectorSwitchCommands \<subseteq> set usedCommands"
  by (auto simp: usedCommands_def usedSpecificCommands_def)

lemma creation_order_set: "set creation_order = set usedCommands"
  by (auto simp: creation_order_def usedCommands_def usedSpecificCommands_def)

lemma creation_order_distinct: "distinct creation_order"
  by (simp add: creation_order_def usedTextCommands_eq usedTemperatureCommands_def
      usedPercentageCommands_def usedCustomCommands_def usedSelectorSwitchCommands_def)



lemma used_entry: "c \<in> set usedCommands \<Longrightarrow> \<exists>e. map_of COMMANDS c = Some e"
  using usedCommands_registry by (cases "map_of COMMANDS c") (auto simp: map_of_eq_None_iff)

lemma device_options_plain:
  "c \<notin> set usedCustomCommands \<Longrightarrow> c \<notin> set usedSelectorSwitchCommands \<Longrightarrow> device_options c = []"
  by (simp add: device_options_def split: option.split)

lemma create_step:
  assumes "c \<in> set usedCommands" "device_type c = t" "device_options c = opts"
  shows "createDevice BasePlugin_init c t opts s = (Inr (), create_spec c s)"
  using assms by (simp add: createDevice_used create_spec_def)

lemma creation_groups:
  "distinct (usedTemperatureCommands @ usedPercentageCommands @ usedTextCommands
             @ usedCustomCommands @ usedSelectorSwitchCommands)"
  using creation_order_distinct by (simp add: creation_order_def)

lemma createDevices_init:
  "createDevices BasePlugin_init devs = (Inr (), fold create_spec creation_order devs)"
proof -
  note d = creation_groups
  have grp_tmp: "for_each (\<lambda>c. createDevice BasePlugin_init c ''Temperature'' []) usedTemperatureCommands s
             = (Inr (), fold create_spec usedTemperatureCommands s)" for s
  proof (rule for_each_total)
    fix c s assume c: "c \<in> set usedTemperatureCommands"
    then have "c \<notin> set usedCustomCommands" "c \<notin> set usedSelectorSwitchCommands" using d by auto
    then show "createDevice BasePlugin_init c ''Temperature'' [] s = (Inr (), create_spec c s)"
      using c used_groups by (intro create_step) (auto simp: device_type_def device_options_plain)
  qed
  have grp_pct: "for_each (\<lambda>c. createDevice BasePlugin_init c ''Percentage'' []) usedPercentageCommands s
             = (Inr (), fold create_spec usedPercentageCommands s)" for s
  proof (rule for_each_total)
    fix c s assume c: "c \<in> set usedPercentageCommands"
    then have "c \<notin> set usedTemperatureCommands" "c \<notin> set usedCustomCommands"
      "c \<notin> set usedSelectorSwitchCommands" using d by auto
    then show "createDevice BasePlugin_init c ''Percentage'' [] s = (Inr (), create_spec c s)"
      using c used_groups by (intro create_step) (auto simp: device_type_def device_options_plain)
  qed
  have grp_txt: "for_each (\<lambda>c. createDevice BasePlugin_init c ''Text'' []) usedTextCommands s
             = (Inr (), fold create_spec usedTextCommands s)" for s
  proof (rule for_each_total)
    fix c s assume c: "c \<in> set usedTextCommands"
    then have "c \<notin> set usedTemperatureCommands" "c \<notin> set usedPercentageCommands"
      "c \<notin> set usedCustomCommands" "c \<notin> set usedSelectorSwitchCommands" using d by auto
    then show "createDevice BasePlugin_init c ''Text'' [] s = (Inr (), create_spec c s)"
      using c used_groups by (intro create_step) (auto simp: device_type_def device_options_plain)
  qed
  have grp_cus: "for_each (\<lambda>c d. case dict_get COMMANDS c of
                              Inl e \<Rightarrow> (Inl e, d)
                            | Inr entry \<Rightarrow>
                                (case unit entry of
                                   None \<Rightarrow> (Inl TypeError, d)
                                 | Some u \<Rightarrow> createDevice BasePlugin_init c ''Custom'' [(''Custom'', ''1;'' @ u)] d))
               usedCustomCommands s
             = (Inr (), fold create_spec usedCustomCommands s)" for s
  proof (rule for_each_total)
    fix c s assume c: "c \<in> set usedCustomCommands"
    then have used: "c \<in> set usedCommands" using used_groups by auto
    then obtain e where e: "map_of COMMANDS c = Some e" using used_entry by blast
    then obtain u where u: "unit e = Some u" using registered_entry by blast
    have "c \<notin> set usedTemperatureCommands" "c \<notin> set usedPercentageCommands"
      "c \<notin> set usedTextCommands" using c d by auto
    then have "createDevice BasePlugin_init c ''Custom'' [(''Custom'', ''1;'' @ u)] s = (Inr (), create_spec c s)"
      using c used e u by (intro create_step) (auto simp: device_type_def device_options_def)
    then show "(case dict_get COMMANDS c of
                 Inl e \<Rightarrow> (Inl e, s)
               | Inr entry \<Rightarrow>
                   (case unit entry of
                      None \<Rightarrow> (Inl TypeError, s)
                    | Some u \<Rightarrow> createDevice BasePlugin_init c ''Custom'' [(''Custom'', ''1;'' @ u)] s))
               = (Inr (), create_spec c s)"
      using e u by (simp add: dict_get_def)
  qed
  have grp_sel: "for_each (\<lambda>c d. case dict_get COMMANDS c of
                       Inl e \<Rightarrow> (Inl e, d)
                     | Inr entry \<Rightarrow>
                         createDevice BasePlugin_init c ''Selector Switch''
                           (createSwitchOptionsFromResultMapping (mapping entry)) d)
               usedSelectorSwitchCommands s
             = (Inr (), fold create_spec usedSelectorSwitchCommands s)" for s
  proof (rule for_each_total)
    fix c s assume c: "c \<in> set usedSelectorSwitchCommands"
    then have used: "c \<in> set usedCommands" using used_groups by auto
    then obtain e where e: "map_of COMMANDS c = Some e" using used_entry by blast
    have "c \<notin> set usedTemperatureCommands" "c \<notin> set usedPercentageCommands"
      "c \<notin> set usedTextCommands" "c \<notin> set usedCustomCommands" using c d by auto
    then have "createDevice BasePlugin_init c ''Selector Switch''
                 (createSwitchOptionsFromResultMapping (mapping e)) s = (Inr (), create_spec c s)"
      using c used e by (intro create_step) (auto simp: device_type_def device_options_def)
    then show "(case dict_get COMMANDS c of
                 Inl e \<Rightarrow> (Inl e, s)
               | Inr entry \<Rightarrow>
                   createDevice BasePlugin_init c ''Selector Switch''
                     (createSwitchOptionsFromResultMapping (mapping entry)) s)
               = (Inr (), create_spec c s)"
      using e by (simp add: dict_get_def)
  qed
  show ?thesis
    by (simp add: createDevices_def grp_tmp grp_pct grp_txt grp_cus grp_sel sthen_def creation_order_def)
qed



lemma fold_create_spec:
  assumes "distinct (map device_unit cs)" "set (map device_unit cs) \<inter> set (map fst devs) = {}"
  shows "fold create_spec cs devs
         = devs @ map (\<lambda>c. (device_unit c, \<lparr>Name = device_name c, TypeName = device_type c,
                                          Options = device_options c, nValue = 0, sValue = ''''\<rparr>)) cs"
  using assms
proof (induction cs arbitrary: devs)
  case (Cons c cs)
  have step: "create_spec c devs
              = devs @ [(device_unit c, \<lparr>Name = device_name c, TypeName = device_type c,
                                          Options = device_options c, nValue = 0, sValue = ''''\<rparr>)]"
    using Cons.prems by (simp add: create_spec_def device_create_fresh)
  have "set (map device_unit cs) \<inter> set (map fst (create_spec c devs)) = {}"
    using Cons.prems by (auto simp: step)
  then show ?case using Cons.IH [of "create_spec c devs"] Cons.prems by (simp add: step)
qed simp

lemma creation_units_distinct: "distinct (map device_unit creation_order)"
proof -
  have "distinct (map device_unit usedCommands)" by (simp add: usedCommands_units del: upt_Suc)
  then have "inj_on device_unit (set usedCommands)" by (simp add: distinct_map)
  then show ?thesis using creation_order_distinct creation_order_set by (simp add: distinct_map)
qed

lemma creation_units_set: "set (map device_unit creation_order) = {1..length usedCommands}"
proof -
  have "set (map device_unit creation_order) = set (map device_unit usedCommands)"
    using creation_order_set by simp
  also have "\<dots> = {1..length usedCommands}" by (auto simp: usedCommands_units simp del: upt_Suc)
  finally show ?thesis .
qed

lemma onStart_devices_empty:
  "onStart_devices BasePlugin_init []
   = (Inr (), map (\<lambda>c. (device_unit c, \<lparr>Name = device_name c, TypeName = device_type c,
                                         Options = device_options c, nValue = 0, sValue = ''''\<rparr>))
                 creation_order)"
  using fold_create_spec [OF creation_units_distinct, of "[]"]
  by (simp add: onStart_devices_def createDevices_init)

text \<open>C23: the plugin's command tuples cover the registry exactly once,
  and the constructor numbers them from 1: \<^verbatim>\<open>mapDeviceToUsedCmd\<close> sends the unit of each
  used command back to that command.\<close>

theorem plugin_device_maps:
  "distinct usedCommands \<and> set usedCommands = set (map fst COMMANDS)
   \<and> map device_unit usedCommands = [1..<length usedCommands + 1]
   \<and> (\<forall>c\<in>set usedCommands. map_of (mapDeviceToUsedCmd BasePlugin_init) (device_unit c) = Some c)"
  using usedCommands_distinct usedCommands_registry usedCommands_units device_unit_inverse by blast

theorem plugin_device_maps_witness:
  "map_of (mapDeviceToUsedCmd BasePlugin_init) (device_unit ''T1'') = Some ''T1''"
proof -
  have "''T1'' \<in> set usedCommands"
    by (simp add: usedCommands_def usedSpecificCommands_def usedTemperatureCommands_def)
  then show ?thesis using plugin_device_maps by blast
qed

lemma start_units:
  "sort (map fst (snd (onStart_devices BasePlugin_init []))) = [1..<length usedCommands + 1]"
proof -
  have keys: "map fst (snd (onStart_devices BasePlugin_init [])) = map device_unit creation_order"
    by (simp add: onStart_devices_empty comp_def)
  show ?thesis
  proof (rule sorted_distinct_set_unique)
    show "distinct (sort (map fst (snd (onStart_devices BasePlugin_init []))))"
      using creation_units_distinct by (simp add: keys)
    show "set (sort (map fst (snd (onStart_devices BasePlugin_init []))))
          = set [1..<length usedCommands + 1]"
      using creation_units_set by (auto simp: keys simp del: upt_Suc)
  qed (simp_all del: upt_Suc)
qed

text \<open>C24: on an empty device table the device part of \<^verbatim>\<open>onStart\<close> (\<^verbatim>\<open>createDevices\<close>) succeeds and creates one device per registry code, in the order of \<^verbatim>\<open>createDevices\<close>, each with the unit of the constructor's map, its name, type and options, the units being exactly 1 to 36, and every new device starts with the values 0 and the empty string.\<close>

theorem onStart_devices_creates_all:
  "map_prod id dev_frame (onStart_devices BasePlugin_init []) = (Inr (), map device_spec creation_order)
   \<and> sort (map fst (snd (onStart_devices BasePlugin_init []))) = [1..<length usedCommands + 1]
   \<and> list_all (\<lambda>(u, d). nValue d = 0 \<and> sValue d = []) (snd (onStart_devices BasePlugin_init []))"
proof (intro conjI)
  show "map_prod id dev_frame (onStart_devices BasePlugin_init []) = (Inr (), map device_spec creation_order)"
    by (simp add: onStart_devices_empty dev_frame_def device_spec_def)
  show "sort (map fst (snd (onStart_devices BasePlugin_init []))) = [1..<length usedCommands + 1]"
    by (rule start_units)
  show "list_all (\<lambda>(u, d). nValue d = 0 \<and> sValue d = []) (snd (onStart_devices BasePlugin_init []))"
    by (simp add: onStart_devices_empty list_all_iff)
qed

lemma start_wf: "devices_wf BasePlugin_init (snd (onStart_devices BasePlugin_init []))"
proof -
  have "device_ok BasePlugin_init (device_spec c)" if "c \<in> set creation_order" for c
  proof -
    have used: "c \<in> set usedCommands" using that creation_order_set by simp
    then obtain e where "map_of COMMANDS c = Some e" using used_entry by blast
    then show ?thesis using device_unit_inverse [OF used]
      by (simp add: device_ok_def device_spec_def device_name_def)
  qed
  moreover have "map fst (snd (onStart_devices BasePlugin_init [])) = map device_unit creation_order"
    by (simp add: onStart_devices_empty comp_def)
  ultimately show ?thesis using creation_units_distinct
    by (simp add: devices_wf_def onStart_devices_empty dev_frame_def device_spec_def list_all_iff comp_def)
qed



subsection \<open>Selector levels\<close>

lemma switch_level_of_key:
  assumes "map_of m r = Some label" "\<forall>(k, v)\<in>set m. CHR ''|'' \<notin> set v"
  shows "\<exists>i. rbind (list_index (sort (map fst m)) r) (\<lambda>index. Inr (py_str_nat (10 * index)))
               = Inr (py_str_nat (10 * i))
             \<and> selector_level_name (createSwitchOptionsFromResultMapping (Some m)) i = Some label"
proof -
  let ?ks = "sort (map fst m)"
  let ?ws = "map (\<lambda>k. the (map_of m k)) ?ks"
  have "(r, label) \<in> set m" using assms(1) by (rule map_of_SomeD)
  then have r: "r \<in> set ?ks" by force
  then obtain i where i: "list_index ?ks r = Inr i" "i < length ?ks" "?ks ! i = r"
    using list_index_found [OF r] by blast
  have "\<forall>w\<in>set ?ws. CHR ''|'' \<notin> set w"
  proof
    fix w assume "w \<in> set ?ws"
    then have "w \<in> (\<lambda>k. the (map_of m k)) ` set ?ks" by (simp only: set_map)
    then obtain k where k: "k \<in> set ?ks" and w: "w = the (map_of m k)" by blast
    then have "k \<in> fst ` set m" by simp
    then obtain v where v: "map_of m k = Some v" by (cases "map_of m k") (simp_all add: map_of_eq_None_iff)
    then have "(k, v) \<in> set m" by (rule map_of_SomeD)
    then have "CHR ''|'' \<notin> set v" using assms(2) by fastforce
    then show "CHR ''|'' \<notin> set w" by (simp add: w v)
  qed
  moreover have "?ws \<noteq> []" using r by (cases ?ks) auto
  ultimately have split: "py_split (CHR ''|'') (butlast (concat (map (\<lambda>w. w @ [CHR ''|'']) ?ws))) = ?ws"
    by (intro py_split_terminated) auto
  have "?ws ! i = label" using i assms(1) by simp
  then show ?thesis using i split
    by (intro exI [of _ i]) (simp add: createSwitchOptionsFromResultMapping_def selector_level_name_def Let_def comp_def)
qed


lemma selector_labels_plain:
  "list_all (\<lambda>c. case map_of COMMANDS c of None \<Rightarrow> False
                 | Some e \<Rightarrow> (case mapping e of None \<Rightarrow> False
                              | Some m \<Rightarrow> list_all (\<lambda>(k, v). CHR ''|'' \<notin> set v) m))
     usedSelectorSwitchCommands"
  by (simp add: usedSelectorSwitchCommands_def COMMANDS_def new_Command_def)

lemma selector_mapping:
  assumes "c \<in> set usedSelectorSwitchCommands" "map_of COMMANDS c = Some e"
  shows "\<exists>m. mapping e = Some m \<and> (\<forall>(k, v)\<in>set m. CHR ''|'' \<notin> set v)"
proof -
  have "case map_of COMMANDS c of None \<Rightarrow> False
          | Some e \<Rightarrow> (case mapping e of None \<Rightarrow> False
                       | Some m \<Rightarrow> list_all (\<lambda>(k, v). CHR ''|'' \<notin> set v) m)"
    using selector_labels_plain assms(1) unfolding list_all_iff by (rule bspec)
  then show ?thesis using assms(2) by (cases "mapping e") (simp_all add: list_all_iff)
qed

lemma switch_level_unmapped:
  assumes "map_of COMMANDS c = Some e" "mapping e = Some m" "map_of m r = None"
  shows "getDomoticzSwitchLevel c r = Inr r"
proof -
  have "r \<notin> set (sort (map fst m))" using assms(3) by (simp add: map_of_eq_None_iff)
  then have "list_index (sort (map fst m)) r = Inl (ValueError ''x not in list'')" by (rule list_index_absent)
  then show ?thesis using assms(1,2) by (simp add: getDomoticzSwitchLevel_def dict_get_def)
qed


lemma switch_level_mapped:
  assumes "map_of COMMANDS c = Some e" "mapping e = Some m" "\<forall>(k, v)\<in>set m. CHR ''|'' \<notin> set v"
    and "map_of m r = Some label"
  shows "\<exists>i. getDomoticzSwitchLevel c r = Inr (py_str_nat (10 * i))
             \<and> selector_level_name (createSwitchOptionsFromResultMapping (Some m)) i = Some label"
proof -
  obtain i where
    "rbind (list_index (sort (map fst m)) r) (\<lambda>index. Inr (py_str_nat (10 * index))) = Inr (py_str_nat (10 * i))"
    "selector_level_name (createSwitchOptionsFromResultMapping (Some m)) i = Some label"
    using switch_level_of_key [OF assms(4,3)] by blast
  then show ?thesis using assms(1,2) by (auto simp: getDomoticzSwitchLevel_def dict_get_def)
qed

lemma switch_level_total:
  assumes "c \<in> set usedSelectorSwitchCommands"
  shows "\<exists>s. getDomoticzSwitchLevel c r = Inr s"
proof -
  have "c \<in> set usedCommands" using assms used_groups by auto
  then obtain e where e: "map_of COMMANDS c = Some e" using used_entry by blast
  obtain m where m: "mapping e = Some m" "\<forall>(k, v)\<in>set m. CHR ''|'' \<notin> set v"
    using selector_mapping [OF assms e] by blast
  show ?thesis
  proof (cases "map_of m r")
    case None
    then show ?thesis using switch_level_unmapped [OF e m(1)] by blast
  next
    case (Some label)
    then show ?thesis using switch_level_mapped [OF e m] by blast
  qed
qed

text \<open>C25: for a selector command and a raw value its mapping knows, \<^verbatim>\<open>getDomoticzSwitchLevel\<close> returns the level 10 i whose name in the \<^verbatim>\<open>LevelNames\<close> option built by \<^verbatim>\<open>createSwitchOptionsFromResultMapping\<close> is the label of that raw value: the two functions sort the raw values the same way.\<close>

theorem selector_level_names_label:
  assumes "c \<in> set usedSelectorSwitchCommands" "map_of COMMANDS c = Some e"
    and "getMappedResult c r = Inr (Some label)"
  shows "\<exists>i. getDomoticzSwitchLevel c r = Inr (py_str_nat (10 * i))
             \<and> selector_level_name (createSwitchOptionsFromResultMapping (mapping e)) i = Some label"
proof -
  obtain m where m: "mapping e = Some m" "\<forall>(k, v)\<in>set m. CHR ''|'' \<notin> set v"
    using selector_mapping [OF assms(1,2)] by blast
  have "map_of m r = Some label" using assms(3) getMappedResult_registered [OF assms(2)] m(1) by simp
  then show ?thesis using switch_level_mapped [OF assms(2) m] m(1) by simp
qed

theorem selector_level_names_label_witness:
  "\<exists>e i. map_of COMMANDS ''MD'' = Some e \<and> getDomoticzSwitchLevel ''MD'' ''4.'' = Inr (py_str_nat (10 * i))
         \<and> selector_level_name (createSwitchOptionsFromResultMapping (mapping e)) i = Some ''Handbetrieb''"
proof -
  have "map_of COMMANDS ''MD'' \<noteq> None" by (simp add: COMMANDS_def)
  then obtain e where e: "map_of COMMANDS ''MD'' = Some e" by blast
  have sel: "''MD'' \<in> set usedSelectorSwitchCommands" by (simp add: usedSelectorSwitchCommands_def)
  have "getMappedResult ''MD'' ''4.'' = Inr (Some ''Handbetrieb'')" by code_simp
  then show ?thesis using selector_level_names_label [OF sel e] e by blast
qed

text \<open>C26: for a selector command and a raw value its mapping does not know, \<^verbatim>\<open>getDomoticzSwitchLevel\<close> does not raise but returns the raw value itself, which the selector device then receives as its value.\<close>

theorem selector_level_unmapped:
  assumes "c \<in> set usedSelectorSwitchCommands" "getMappedResult c r = Inr None"
  shows "getDomoticzSwitchLevel c r = Inr r"
proof -
  have "c \<in> set usedCommands" using assms(1) used_groups by auto
  then obtain e where e: "map_of COMMANDS c = Some e" using used_entry by blast
  obtain m where m: "mapping e = Some m" using selector_mapping [OF assms(1) e] by blast
  have "map_of m r = None" using assms(2) getMappedResult_registered [OF e] m by simp
  then show ?thesis using switch_level_unmapped [OF e m] by simp
qed


theorem selector_level_unmapped_witness: "getDomoticzSwitchLevel ''MD'' ''7.'' = Inr ''7.''"
proof -
  have sel: "''MD'' \<in> set usedSelectorSwitchCommands" by (simp add: usedSelectorSwitchCommands_def)
  have "getMappedResult ''MD'' ''7.'' = Inr None" by code_simp
  then show ?thesis using selector_level_unmapped [OF sel] by blast
qed

subsection \<open>Heartbeats\<close>

lemma dev_frame_keys: "map fst (dev_frame devs) = map fst devs"
  by (simp add: dev_frame_def split_def)

lemma UpdateDevice_frame:
  assumes "distinct (map fst devs)"
  shows "dev_frame (UpdateDevice u n s devs) = dev_frame devs"
proof (cases "map_of devs u")
  case (Some d)
  have same: "v = d" if "(u, v) \<in> set devs" for v
    using map_of_is_SomeI [OF assms that] Some by simp
  have "u \<in> set (map fst devs)" using Some by (auto dest: map_of_SomeD intro: rev_image_eqI)
  then have "dev_frame (dict_set devs u (d\<lparr>nValue := n, sValue := s\<rparr>)) = dev_frame devs"
    unfolding dev_frame_def dict_set_def by (auto intro!: map_cong dest: same)
  then show ?thesis using Some by (simp add: UpdateDevice_def)
qed (simp add: UpdateDevice_def)

lemma update_cmd_frame:
  "distinct (map fst devs) \<Longrightarrow> dev_frame (snd (update_cmd p results c devs)) = dev_frame devs"
  by (simp add: update_cmd_def UpdateDevice_frame Let_def split: option.split sum.split)

lemma for_each_update_frame:
  assumes "for_each (update_cmd p results) cs devs = (r, devs')" "distinct (map fst devs)"
  shows "dev_frame devs' = dev_frame devs"
proof -
  have step: "dev_frame (snd (update_cmd p results c s)) = dev_frame devs"
    if "dev_frame s = dev_frame devs" for c s
  proof -
    have "map fst s = map fst devs" using that dev_frame_keys by metis
    then show ?thesis using update_cmd_frame [of s] assms(2) that by simp
  qed
  have "dev_frame (snd (for_each (update_cmd p results) cs devs)) = dev_frame devs"
    using for_each_invariant [where P = "\<lambda>s. dev_frame s = dev_frame devs" and f = "update_cmd p results",
        OF step] by simp
  then show ?thesis using assms(1) by simp
qed

lemma updateDevices_frame:
  assumes "updateDevices fuel p params devs l = Some (r, devs', l')" "distinct (map fst devs)"
  shows "dev_frame devs' = dev_frame devs"
  using assms
  by (auto simp: updateDevices_def split: sum.splits prod.splits option.splits
      intro: for_each_update_frame)

lemma devices_wf_frame:
  "dev_frame devs' = dev_frame devs \<Longrightarrow> devices_wf p devs' = devices_wf p devs"
  by (metis devices_wf_def dev_frame_keys)

text \<open>C28: when the serial port cannot be opened, a heartbeat does not catch the SerialException: the handler \<^verbatim>\<open>except serial.Serialexception\<close> raises AttributeError, with the device table and the line unchanged.\<close>

theorem heartbeat_port_unavailable:
  assumes "map_of params ''SerialPort'' = None \<or> \<not> available l"
  shows "updateDevices fuel BasePlugin_init params devs l
         = Some (Inl (AttributeError ''Serialexception''), (devs, l))"
proof (cases "map_of params ''SerialPort''")
  case None
  then show ?thesis by (simp add: updateDevices_def dict_get_def serial_handler_def)
next
  case (Some serialPort)
  let ?h = "\<lparr>serial = Serial_new\<lparr>port := Some serialPort, baudrate := 9600, bytesize := 7,
                         parity := PARITY_EVEN, stopbits := 1, timeout := Some 5,
                         xonxoff := False, rtscts := True\<rparr>,
             adress = 1, adressMessageString = ''0011''\<rparr>"
  have h: "HermesWr3223_init serialPort 1 = Inr ?h"
    by (simp add: HermesWr3223_init_def adress_1)
  have "connect ?h l = (Inl (SerialException ''could not open port''), ?h)"
    using assms Some by (simp add: connect_def ser_open_def Serial_new_def)
  then show ?thesis using h Some by (simp add: updateDevices_def dict_get_def serial_handler_def)
qed

theorem heartbeat_port_unavailable_witness:
  "updateDevices 20 BasePlugin_init [(''SerialPort'', ''/dev/ttyUSB0'')] [] \<lparr>available = False, tx = [], rx = []\<rparr>
   = Some (Inl (AttributeError ''Serialexception''), ([], \<lparr>available = False, tx = [], rx = []\<rparr>))"
  by (rule heartbeat_port_unavailable) simp

subsection \<open>A heartbeat that reads every command\<close>

lemma map_of_UpdateDevice:
  "map_of (UpdateDevice u n s devs)
   = (map_of devs)(u := map_option (\<lambda>d. d\<lparr>nValue := n, sValue := s\<rparr>) (map_of devs u))"
  by (auto simp: UpdateDevice_def fun_eq_iff split: option.split)

lemma update_cmd_used:
  assumes "c \<in> set usedCommands" "results c = Some v"
  shows "update_cmd BasePlugin_init results c devs
         = (Inr (), UpdateDevice (device_unit c) 0 (display_value c v) devs)"
proof -
  obtain e where e: "map_of COMMANDS c = Some e" using assms(1) used_entry by blast
  obtain u where u: "unit e = Some u" using registered_entry [OF e] by blast
  obtain msg where msg: "getMessageByCommandResult c v = Inr msg"
    using message_of_registered [OF e u] by blast
  have dev: "dict_get (mapUsedCmdToDevice BasePlugin_init) c = Inr (device_unit c)"
    using unit_of_used [OF assms(1)] by simp
  show ?thesis
  proof (cases "c \<in> set usedSelectorSwitchCommands")
    case True
    then obtain s where s: "getDomoticzSwitchLevel c v = Inr s" using switch_level_total by blast
    have "c \<notin> set usedTextCommands" using True creation_groups by auto
    then show ?thesis using True assms(2) msg s dev
      by (simp add: update_cmd_def display_value_def dict_get_def)
  next
    case False
    then show ?thesis using assms(2) msg dev
      by (simp add: update_cmd_def display_value_def dict_get_def)
  qed
qed

lemma fold_UpdateDevice_other:
  "u \<notin> set (map device_unit cs) \<Longrightarrow>
   map_of (fold (\<lambda>c. UpdateDevice (device_unit c) 0 (f c)) cs devs) u = map_of devs u"
  by (induction cs arbitrary: devs) (simp_all add: map_of_UpdateDevice)

lemma fold_UpdateDevice_at:
  assumes "distinct (map device_unit cs)" "c \<in> set cs"
  shows "map_of (fold (\<lambda>c. UpdateDevice (device_unit c) 0 (f c)) cs devs) (device_unit c)
         = map_option (\<lambda>d. d\<lparr>nValue := 0, sValue := f c\<rparr>) (map_of devs (device_unit c))"
  using assms
proof (induction cs arbitrary: devs)
  case (Cons c' cs)
  show ?case
  proof (cases "c' = c")
    case True
    then have "device_unit c \<notin> set (map device_unit cs)" using Cons.prems(1) by simp
    then show ?thesis using True by (simp add: fold_UpdateDevice_other map_of_UpdateDevice)
  next
    case False
    then have c: "c \<in> set cs" using Cons.prems(2) by simp
    then have "device_unit c' \<noteq> device_unit c" using Cons.prems(1) by auto
    then show ?thesis using Cons.IH [OF _ c] Cons.prems(1) by (simp add: map_of_UpdateDevice)
  qed
qed simp

lemma updateDevices_answered:
  assumes "available l" "map_of params ''SerialPort'' = Some serialPort"
    and "readMultiple fuel (connected_session serialPort) usedCommands l = Some (Inr results, l')"
    and "\<forall>c\<in>set usedCommands. results c \<noteq> None"
  shows "updateDevices fuel BasePlugin_init params devs l
         = Some (Inr (), (fold (\<lambda>c. UpdateDevice (device_unit c) 0 (display_value c (the (results c))))
                            usedCommands devs, l'))"
proof -
  obtain h where h: "HermesWr3223_init serialPort 1 = Inr h" "connect h l = (Inr (), connected_session serialPort)"
    using connect_default [OF assms(1)] by blast
  have "for_each (update_cmd BasePlugin_init results) usedCommands devs
        = (Inr (), fold (\<lambda>c. UpdateDevice (device_unit c) 0 (display_value c (the (results c)))) usedCommands devs)"
  proof (rule for_each_total)
    fix c s assume c: "c \<in> set usedCommands"
    then have "results c = Some (the (results c))" using assms(4) by auto
    then show "update_cmd BasePlugin_init results c s
               = (Inr (), UpdateDevice (device_unit c) 0 (display_value c (the (results c))) s)"
      by (rule update_cmd_used [OF c])
  qed
  then show ?thesis using h assms(2,3) by (simp add: updateDevices_def dict_get_def serial_handler_def)
qed

end
