(* ===== verification/PluginHost.thy ===== *)
theory PluginHost
  imports Plugin
begin

text \<open>
  The plugin as the Domoticz host drives it (\<^verbatim>\<open>src/plugin.py\<close>): the host state
  (the device table \<^verbatim>\<open>Devices\<close>, the configuration dictionary \<^verbatim>\<open>Parameters\<close>,
  the debugging switch, the heartbeat interval, and the serial line), the whole handlers
  \<^verbatim>\<open>BasePlugin.onStart\<close> and \<^verbatim>\<open>BasePlugin.onHeartbeat\<close>, the module-level callbacks
  that forward host events to the single instance \<^verbatim>\<open>_plugin\<close>, the configuration the
  plugin declares in its \<^verbatim>\<open><params>\<close> block, and the host's run as an inductive set of
  reachable states. Logging (\<^verbatim>\<open>Domoticz.Log\<close>, \<^verbatim>\<open>Debug\<close>,
  \<^verbatim>\<open>Error\<close>, \<^verbatim>\<open>DumpConfigToLog\<close>) is not state. The lemmas show the invariant of every
  reachable state and what a start does with and without the \<^verbatim>\<open>Mode6\<close> parameter.
\<close>

record host =
  Devices :: devices
  Parameters :: "(string \<times> string) list"
  debugging :: bool
  heartbeat :: "nat option"
  serial_line :: line

text \<open>\<^verbatim>\<open>onStart\<close>: \<^verbatim>\<open>Parameters["Mode6"]\<close> switches debugging on, the device table is
  filled if it is empty, and only then is the heartbeat interval set to 20 s; an exception
  ends the handler with the state reached.\<close>

definition onStart :: "BasePlugin \<Rightarrow> host \<Rightarrow> unit result \<times> host" where
  "onStart p st =
     (case dict_get (Parameters st) ''Mode6'' of
        Inl e \<Rightarrow> (Inl e, st)
      | Inr mode \<Rightarrow>
          (let st = (if mode = ''Debug'' then st\<lparr>debugging := True\<rparr> else st)
           in case onStart_devices p (Devices st) of
                (Inl e, devs) \<Rightarrow> (Inl e, st\<lparr>Devices := devs\<rparr>)
              | (Inr _, devs) \<Rightarrow> (Inr (), st\<lparr>Devices := devs, heartbeat := Some 20\<rparr>)))"

definition onHeartbeat :: "nat \<Rightarrow> BasePlugin \<Rightarrow> host \<Rightarrow> (host, unit) outcome" where
  "onHeartbeat fuel p st =
     map_option (\<lambda>(r, (devs, l)). (r, st\<lparr>Devices := devs, serial_line := l\<rparr>))
       (updateDevices fuel p (Parameters st) (Devices st) (serial_line st))"

text \<open>The host events, one per module-level callback.\<close>

datatype host_event =
  OnStart | OnStop | OnConnect | OnMessage | OnCommand | OnNotification | OnDisconnect | OnHeartbeat

text \<open>The module-level callbacks: each forwards to \<^verbatim>\<open>_plugin = BasePlugin()\<close>; all but
  \<^verbatim>\<open>onStart\<close> and \<^verbatim>\<open>onHeartbeat\<close> only log.\<close>

definition plugin_step :: "nat \<Rightarrow> host_event \<Rightarrow> host \<Rightarrow> (host, unit) outcome" where
  "plugin_step fuel ev st =
     (case ev of
        OnStart \<Rightarrow> Some (onStart BasePlugin_init st)
      | OnHeartbeat \<Rightarrow> onHeartbeat fuel BasePlugin_init st
      | _ \<Rightarrow> Some (Inr (), st))"

text \<open>A fresh installation: no devices, the given configuration, debugging off, no
  heartbeat interval set.\<close>

definition host_init :: "(string \<times> string) list \<Rightarrow> line \<Rightarrow> host" where
  "host_init params l =
     \<lparr>Devices = [], Parameters = params, debugging = False, heartbeat = None, serial_line = l\<rparr>"

text \<open>The host's run: any sequence of events, the line changing arbitrarily between them,
  an event that raises leaving the state it reached.\<close>

inductive host_reach :: "(string \<times> string) list \<Rightarrow> host \<Rightarrow> bool" for params where
  init: "host_reach params (host_init params l)"
| step: "host_reach params st \<Longrightarrow> plugin_step fuel ev (st\<lparr>serial_line := l\<rparr>) = Some (r, st')
         \<Longrightarrow> host_reach params st'"

text \<open>The configuration the plugin declares in its \<^verbatim>\<open><params>\<close> block, as the host
  passes it when the defaults are kept: \<^verbatim>\<open>SerialPort\<close> is \<^verbatim>\<open>/dev/ttyUSB0\<close>, and
  \<^verbatim>\<open>Mode6\<close> (the debug switch) is \<^verbatim>\<open>Normal\<close>.\<close>

definition default_Parameters :: "(string \<times> string) list" where
  "default_Parameters = [(''SerialPort'', ''/dev/ttyUSB0''), (''Mode6'', ''Normal'')]"

text \<open>The invariant of the run: a well-formed device table that is empty or holds all the
  units, the configuration unchanged, and the heartbeat interval unset or 20 s.\<close>

definition host_inv :: "(string \<times> string) list \<Rightarrow> host \<Rightarrow> bool" where
  "host_inv params st =
     (devices_wf BasePlugin_init (Devices st)
      \<and> (Devices st = [] \<or> sort (map fst (Devices st)) = [1..<length usedCommands + 1])
      \<and> Parameters st = params \<and> (heartbeat st = None \<or> heartbeat st = Some 20))"


subsection \<open>One step keeps the invariant\<close>

lemma onStart_keeps:
  assumes "host_inv params st"
  shows "host_inv params (snd (onStart BasePlugin_init st))"
proof (cases "map_of (Parameters st) ''Mode6''")
  case None
  then show ?thesis using assms by (simp add: onStart_def dict_get_def)
next
  case (Some mode)
  show ?thesis
  proof (cases "Devices st = []")
    case True
    obtain devs where os: "onStart_devices BasePlugin_init [] = (Inr (), devs)"
      using onStart_devices_empty by blast
    have "devices_wf BasePlugin_init devs" "sort (map fst devs) = [1..<length usedCommands + 1]"
      using start_wf start_units os by simp_all
    then show ?thesis using assms Some os True
      by (cases "mode = ''Debug''") (simp_all add: onStart_def dict_get_def host_inv_def del: upt_Suc)
  next
    case False
    then show ?thesis using assms Some
      by (cases "mode = ''Debug''") (simp_all add: onStart_def dict_get_def host_inv_def onStart_devices_def)
  qed
qed

lemma onHeartbeat_keeps_frame:
  assumes "onHeartbeat fuel p st = Some (r, st')" "distinct (map fst (Devices st))"
  shows "dev_frame (Devices st') = dev_frame (Devices st) \<and> Parameters st' = Parameters st
         \<and> heartbeat st' = heartbeat st"
proof -
  obtain devs' l' where u: "updateDevices fuel p (Parameters st) (Devices st) (serial_line st) = Some (r, (devs', l'))"
    and st': "st' = st\<lparr>Devices := devs', serial_line := l'\<rparr>"
    using assms(1) by (auto simp: onHeartbeat_def)
  then show ?thesis using updateDevices_frame [OF u assms(2)] by simp
qed

lemma onStart_fresh:
  assumes "map_of (Parameters st) ''Mode6'' = Some mode" "Devices st = []"
  shows "onStart BasePlugin_init st
         = (Inr (), st\<lparr>debugging := (debugging st \<or> mode = ''Debug''),
                       Devices := snd (onStart_devices BasePlugin_init []), heartbeat := Some 20\<rparr>)"
  using assms by (cases "mode = ''Debug''") (simp_all add: onStart_def dict_get_def onStart_devices_empty)

lemma created_device:
  assumes "c \<in> set usedCommands"
  shows "map_of (snd (onStart_devices BasePlugin_init [])) (device_unit c)
         = Some \<lparr>Name = device_name c, TypeName = device_type c, Options = device_options c,
                 nValue = 0, sValue = ''''\<rparr>"
proof (rule map_of_is_SomeI)
  show "distinct (map fst (snd (onStart_devices BasePlugin_init [])))"
    using creation_units_distinct by (simp add: onStart_devices_empty comp_def)
  show "(device_unit c, \<lparr>Name = device_name c, TypeName = device_type c, Options = device_options c,
                          nValue = 0, sValue = ''''\<rparr>) \<in> set (snd (onStart_devices BasePlugin_init []))"
    using assms creation_order_set by (auto simp: onStart_devices_empty)
qed

lemma frame_empty: "dev_frame devs' = dev_frame devs \<Longrightarrow> (devs' = []) = (devs = [])"
  using dev_frame_keys [of devs'] dev_frame_keys [of devs] by (metis map_is_Nil_conv)

lemma onHeartbeat_keeps:
  assumes "host_inv params st" "onHeartbeat fuel BasePlugin_init st = Some (r, st')"
  shows "host_inv params st'"
proof -
  have "distinct (map fst (Devices st))" using assms(1) by (simp add: host_inv_def devices_wf_def)
  then have f: "dev_frame (Devices st') = dev_frame (Devices st)" "Parameters st' = Parameters st"
    "heartbeat st' = heartbeat st"
    using onHeartbeat_keeps_frame [OF assms(2)] by simp_all
  have "map fst (Devices st') = map fst (Devices st)" using f(1) dev_frame_keys by metis
  then show ?thesis using assms(1) f devices_wf_frame [OF f(1)] frame_empty [OF f(1)]
    by (simp add: host_inv_def)
qed

lemma plugin_step_keeps:
  assumes "host_inv params st" "plugin_step fuel ev st = Some (r, st')"
  shows "host_inv params st'"
proof (cases ev)
  case OnStart
  then have "onStart BasePlugin_init st = (r, st')" using assms(2) by (simp add: plugin_step_def)
  then have "st' = snd (onStart BasePlugin_init st)" by simp
  then show ?thesis using onStart_keeps [OF assms(1)] by simp
next
  case OnHeartbeat
  then show ?thesis using assms onHeartbeat_keeps by (simp add: plugin_step_def)
qed (use assms in \<open>auto simp: plugin_step_def\<close>)

lemma host_inv_line [simp]: "host_inv params (st\<lparr>serial_line := l\<rparr>) = host_inv params st"
  by (simp add: host_inv_def)

lemma host_reach_inv: "host_reach params st \<Longrightarrow> host_inv params st"
proof (induction rule: host_reach.induct)
  case (init l)
  show ?case by (simp add: host_init_def host_inv_def devices_wf_def dev_frame_def)
next
  case (step st fuel ev l r st')
  then show ?case using plugin_step_keeps [of params "st\<lparr>serial_line := l\<rparr>"] by simp
qed

lemma host_reach_start:
  "host_reach params (snd (onStart BasePlugin_init (host_init params l)))"
proof -
  have "plugin_step 0 OnStart ((host_init params l)\<lparr>serial_line := l\<rparr>)
        = Some (fst (onStart BasePlugin_init (host_init params l)), snd (onStart BasePlugin_init (host_init params l)))"
    by (simp add: plugin_step_def host_init_def)
  then show ?thesis by (rule host_reach.step [OF host_reach.init])
qed

subsection \<open>Properties of the host's run\<close>

text \<open>C27: in every state the host can reach (a fresh installation, then any sequence
  of starts, heartbeats on any line, and callbacks that only log), the device table is well
  formed (distinct units, each device named and typed for its unit's command) and holds
  either no device or all 36 units, the configuration is unchanged, and the heartbeat
  interval is unset or 20 s.\<close>

theorem host_reach_wf:
  assumes "host_reach params st"
  shows "devices_wf BasePlugin_init (Devices st)
         \<and> (Devices st = [] \<or> sort (map fst (Devices st)) = [1..<length usedCommands + 1])
         \<and> Parameters st = params \<and> (heartbeat st = None \<or> heartbeat st = Some 20)"
  using host_reach_inv [OF assms] by (simp add: host_inv_def)

theorem host_reach_wf_witness:
  "host_reach [(''Mode6'', ''Normal'')] (snd (onStart BasePlugin_init (host_init [(''Mode6'', ''Normal'')] \<lparr>available = True, tx = [], rx = []\<rparr>)))
   \<and> devices_wf BasePlugin_init (Devices (snd (onStart BasePlugin_init (host_init [(''Mode6'', ''Normal'')] \<lparr>available = True, tx = [], rx = []\<rparr>))))"
  using host_reach_start host_reach_wf [OF host_reach_start] by blast

text \<open>C34: on an empty device table with a \<^verbatim>\<open>Mode6\<close> parameter,
  \<^verbatim>\<open>onStart\<close> succeeds, switches debugging on exactly when \<^verbatim>\<open>Mode6\<close> is
  \<^verbatim>\<open>Debug\<close> (or it was on), creates the 36 devices of \<^verbatim>\<open>createDevices\<close>, and sets the
  heartbeat interval to 20 s.\<close>

theorem onStart_first_start:
  assumes "map_of (Parameters st) ''Mode6'' = Some mode" "Devices st = []"
  shows "\<exists>devs. onStart BasePlugin_init st
                 = (Inr (), st\<lparr>debugging := (debugging st \<or> mode = ''Debug''), Devices := devs,
                               heartbeat := Some 20\<rparr>)
               \<and> dev_frame devs = map device_spec creation_order"
proof -
  let ?devs = "snd (onStart_devices BasePlugin_init [])"
  have "dev_frame ?devs = map device_spec creation_order"
    by (simp add: onStart_devices_empty dev_frame_def device_spec_def)
  moreover have "onStart BasePlugin_init st
                 = (Inr (), st\<lparr>debugging := (debugging st \<or> mode = ''Debug''), Devices := ?devs,
                               heartbeat := Some 20\<rparr>)"
    by (rule onStart_fresh [OF assms])
  ultimately show ?thesis by blast
qed

theorem onStart_first_start_witness:
  "\<exists>devs. onStart BasePlugin_init (host_init [(''Mode6'', ''Debug'')] \<lparr>available = True, tx = [], rx = []\<rparr>)
           = (Inr (), (host_init [(''Mode6'', ''Debug'')] \<lparr>available = True, tx = [], rx = []\<rparr>)
                        \<lparr>debugging := True, Devices := devs, heartbeat := Some 20\<rparr>)
         \<and> dev_frame devs = map device_spec creation_order"
  using onStart_first_start [of "host_init [(''Mode6'', ''Debug'')] \<lparr>available = True, tx = [], rx = []\<rparr>" "''Debug''"]
  by (simp add: host_init_def)

text \<open>C35: without a \<^verbatim>\<open>Mode6\<close> parameter every start raises
  \<^verbatim>\<open>KeyError\<close> before it creates a device or sets the heartbeat interval, so in every
  reachable state the device table stays empty and no interval is set.\<close>

theorem host_without_Mode6:
  assumes "host_reach params st" "map_of params ''Mode6'' = None"
  shows "Devices st = [] \<and> heartbeat st = None"
proof -
  have "Devices st = [] \<and> heartbeat st = None \<and> Parameters st = params"
    using assms(1)
  proof (induction rule: host_reach.induct)
    case (init l)
    show ?case by (simp add: host_init_def)
  next
    case (step st fuel ev l r st')
    let ?s = "st\<lparr>serial_line := l\<rparr>"
    show ?case
    proof (cases ev)
      case OnStart
      then show ?thesis using step assms(2) by (auto simp: plugin_step_def onStart_def dict_get_def)
    next
      case OnHeartbeat
      then have hb: "onHeartbeat fuel BasePlugin_init ?s = Some (r, st')" using step by (simp add: plugin_step_def)
      have "distinct (map fst (Devices ?s))" using step by simp
      then have "dev_frame (Devices st') = dev_frame (Devices ?s) \<and> Parameters st' = Parameters ?s
                 \<and> heartbeat st' = heartbeat ?s" by (rule onHeartbeat_keeps_frame [OF hb])
      moreover have "Devices ?s = []" "heartbeat ?s = None" "Parameters ?s = params" using step by simp_all
      ultimately show ?thesis using frame_empty [of "Devices st'" "Devices ?s"] by simp
    qed (use step in \<open>auto simp: plugin_step_def\<close>)
  qed
  then show ?thesis by simp
qed

theorem host_without_Mode6_witness:
  "Devices (snd (onStart BasePlugin_init (host_init [(''SerialPort'', ''/dev/ttyUSB0'')] \<lparr>available = True, tx = [], rx = []\<rparr>))) = []"
  using host_without_Mode6 [OF host_reach_start] by simp

end
