(* ===== verification/Debug.thy ===== *)
theory Debug
  imports Presenter Transport
begin

text \<open>
  The module-level debug helpers of \<^verbatim>\<open>src/lib/hermesWr3223.py\<close>:
  \<^verbatim>\<open>debugPrintCommandResult\<close>, \<^verbatim>\<open>debugPrintMultiCommandResult\<close>,
  \<^verbatim>\<open>debugPrintHex\<close>, the self-test \<^verbatim>\<open>testAsciiHex\<close> and the
  \<^verbatim>\<open>__main__\<close> block. Printing appends a line to an
  explicit console (a list of strings). The lemmas show that the multi-command printer never
  reaches its \<^verbatim>\<open>KeyError\<close> (a batch read is all or nothing), that on success it prints
  exactly one message per command, and that the hex dump can be read back and has length
  \<open>3 n - 1\<close>.
\<close>

type_synonym console = "string list"

text \<open>\<^verbatim>\<open>debugPrintCommandResult(cmd)\<close>: a session on \<^verbatim>\<open>/dev/ttyUSB0\<close> at address 1,
  connected, one read, the message printed.\<close>

definition debugPrintCommandResult ::
  "nat \<Rightarrow> string \<Rightarrow> line \<Rightarrow> console \<Rightarrow> (line \<times> console, unit) outcome" where
  "debugPrintCommandResult fuel command l out =
     (case HermesWr3223_init ''/dev/ttyUSB0'' 1 of
        Inl e \<Rightarrow> Some (Inl e, (l, out))
      | Inr wgt \<Rightarrow>
          (case connect wgt l of
             (Inl e, _) \<Rightarrow> Some (Inl e, (l, out))
           | (Inr _, wgt) \<Rightarrow>
               (case read fuel wgt command l of
                  None \<Rightarrow> None
                | Some (Inl e, l') \<Rightarrow> Some (Inl e, (l', out))
                | Some (Inr result, l') \<Rightarrow>
                    (case getMessageByCommandResult command result of
                       Inl e \<Rightarrow> Some (Inl e, (l', out))
                     | Inr msg \<Rightarrow> Some (Inr (), (l', out @ [msg]))))))"

text \<open>The printing loop of \<^verbatim>\<open>debugPrintMultiCommandResult\<close>: a missing result prints an
  error line and then still indexes \<^verbatim>\<open>results[cmd]\<close>.\<close>

fun print_results :: "(string \<rightharpoonup> string) \<Rightarrow> string list \<Rightarrow> console \<Rightarrow> unit result \<times> console" where
  "print_results results [] out = (Inr (), out)"
| "print_results results (command # commands) out =
     (let out = (if results command = None then out @ [''Error! No result for cmd= '' @ command] else out)
      in case results command of
           None \<Rightarrow> (Inl KeyError, out)
         | Some r \<Rightarrow>
             (case getMessageByCommandResult command r of
                Inl e \<Rightarrow> (Inl e, out)
              | Inr msg \<Rightarrow> print_results results commands (out @ [msg])))"

definition debugPrintMultiCommandResult ::
  "nat \<Rightarrow> string list \<Rightarrow> line \<Rightarrow> console \<Rightarrow> (line \<times> console, unit) outcome" where
  "debugPrintMultiCommandResult fuel commands l out =
     (case HermesWr3223_init ''/dev/ttyUSB0'' 1 of
        Inl e \<Rightarrow> Some (Inl e, (l, out))
      | Inr wgt \<Rightarrow>
          (case connect wgt l of
             (Inl e, _) \<Rightarrow> Some (Inl e, (l, out))
           | (Inr _, wgt) \<Rightarrow>
               (case readMultiple fuel wgt commands l of
                  None \<Rightarrow> None
                | Some (Inl e, l') \<Rightarrow> Some (Inl e, (l', out))
                | Some (Inr results, l') \<Rightarrow>
                    (case print_results results commands out of (r, out') \<Rightarrow> Some (r, (l', out'))))))"

text \<open>\<^verbatim>\<open>debugPrintHex(s)\<close>: the code points of \<open>s\<close> as two-digit hexadecimal numbers
  joined by colons.\<close>

definition debugPrintHex :: "string \<Rightarrow> console \<Rightarrow> console" where
  "debugPrintHex s out = out @ [py_join '':'' (map (\<lambda>c. hex2 (of_char c)) s)]"

text \<open>The \<^verbatim>\<open>__main__\<close> block: the multi-command printer over the sorted registry keys.\<close>

definition debug_main :: "nat \<Rightarrow> line \<Rightarrow> console \<Rightarrow> (line \<times> console, unit) outcome" where
  "debug_main fuel l out = debugPrintMultiCommandResult fuel (sort (map fst COMMANDS)) l out"

text \<open>A reader of the hex dump: split at colons, each pair of digits one code point.\<close>

definition hex_decode :: "string \<Rightarrow> string" where
  "hex_decode t = map (\<lambda>w. char_of (16 * hex_value (w ! 0) + hex_value (w ! 1))) (py_split (CHR '':'') t)"


text \<open>\<^verbatim>\<open>testAsciiHex()\<close>: prints the hexlified ASCII encoding of \<open>kai\<close>, the
  unhexlified \<open>6b6169\<close>, the hex dump of \<open>kai\<close>, and the human-readable form of the T1
  request built by a session on a port name that is never opened and of the same request
  written out by hand.\<close>

definition testAsciiHex :: "console \<Rightarrow> unit result \<times> console" where
  "testAsciiHex out =
     sthen (encode_ascii ''kai'', out) (\<lambda>b out.
     (let out = out @ [bytes_repr (hexlify b)] in
     sthen (unhexlify ''6b6169'', out) (\<lambda>b out.
     (let out = out @ [bytes_repr b];
          out = debugPrintHex ''kai'' out in
     sthen (HermesWr3223_init ''InvalidSerialPort'' 1, out) (\<lambda>wgt out.
     sthen (createReadRequest (adressMessageString wgt) ''T1'', out) (\<lambda>requestT1 out.
     (let out = out @ [makeHumanReadable requestT1];
          asciiRequest = [CHR 0x04, CHR 0x30, CHR 0x30, CHR 0x31, CHR 0x31, CHR 0x54, CHR 0x31, CHR 0x05]
      in (Inr (), out @ [makeHumanReadable asciiRequest]))))))))"

subsection \<open>The multi-command printer\<close>

lemma read_char_not_KeyError: "read_char s l = (Inl e, l') \<Longrightarrow> e \<noteq> KeyError"
  by (auto simp: read_char_def ser_read1_def decode_ascii_def port_not_open_def
      split: prod.splits sum.splits list.splits option.splits if_splits)

lemma receive_loop_not_KeyError: "receive_loop fuel s c response l = Some (Inl e, l') \<Longrightarrow> e \<noteq> KeyError"
proof (induction fuel s c response l rule: receive_loop.induct)
  case (2 n s char response l)
  show ?case
  proof (cases "char = [ETX]")
    case False
    obtain x l1 where rc: "read_char s l = (x, l1)" by fastforce
    show ?thesis
    proof (cases x)
      case (Inl e')
      then show ?thesis using 2 False rc read_char_not_KeyError by auto
    next
      case (Inr c')
      then show ?thesis using 2 False rc by auto
    qed
  qed (use 2 in simp)
qed simp

lemma read_not_KeyError: "read fuel h command l = Some (Inl e, l') \<Longrightarrow> e \<noteq> KeyError"
  by (auto simp: read_def obind_def createReadRequest_def encode_ascii_def ser_write_def
      port_not_open_def receiveResponse_def dest: receive_loop_not_KeyError read_char_not_KeyError
      split: option.splits prod.splits sum.splits if_splits)

lemma read_registered: "read fuel h command l = Some (Inr v, l') \<Longrightarrow> command \<in> set (map fst COMMANDS)"
  by (auto simp: read_def obind_def createReadRequest_def split: option.splits prod.splits sum.splits if_splits)

lemma readMultiple_loop_outcome:
  "readMultiple_loop fuel h commands acc l = Some (r, l') \<Longrightarrow>
   r \<noteq> Inl KeyError \<and> (\<forall>m. r = Inr m \<longrightarrow> set commands \<subseteq> set (map fst COMMANDS))"
proof (induction commands arbitrary: acc l)
  case (Cons c cs)
  then obtain x l1 where rd: "read fuel h c l = Some (x, l1)"
    by (cases "read fuel h c l") (auto simp: obind_def)
  show ?case
  proof (cases x)
    case (Inl e)
    have "e \<noteq> KeyError" using read_not_KeyError [of fuel h c l e l1] rd Inl by simp
    then show ?thesis using Cons.prems rd Inl by (auto simp: obind_def)
  next
    case (Inr v)
    then have "readMultiple_loop fuel h cs (acc(c \<mapsto> v)) l1 = Some (r, l')"
      using Cons.prems rd by (simp add: obind_def)
    then have ih: "r \<noteq> Inl KeyError \<and> (\<forall>m. r = Inr m \<longrightarrow> set cs \<subseteq> set (map fst COMMANDS))"
      by (rule Cons.IH)
    have "c \<in> set (map fst COMMANDS)" using read_registered rd Inr by blast
    then show ?thesis using ih by auto
  qed
qed auto

lemma print_results_all:
  assumes "\<forall>c\<in>set commands. results c \<noteq> None \<and> c \<in> set (map fst COMMANDS)"
  shows "\<exists>new. print_results results commands out = (Inr (), out @ new)
               \<and> map Inr new = map (\<lambda>c. getMessageByCommandResult c (the (results c))) commands"
  using assms
proof (induction commands arbitrary: out)
  case (Cons c cs)
  obtain v where v: "results c = Some v" using Cons.prems by auto
  have "c \<in> set (map fst COMMANDS)" using Cons.prems by simp
  then obtain e where e: "map_of COMMANDS c = Some e"
    by (cases "map_of COMMANDS c") (auto simp: map_of_eq_None_iff)
  obtain u where "unit e = Some u" using registered_entry [OF e] by blast
  then obtain msg where msg: "getMessageByCommandResult c v = Inr msg"
    using message_of_registered [OF e] by blast
  obtain new where "print_results results cs (out @ [msg]) = (Inr (), out @ [msg] @ new)"
    "map Inr new = map (\<lambda>c. getMessageByCommandResult c (the (results c))) cs"
    using Cons.IH [of "out @ [msg]"] Cons.prems by auto
  then show ?case using v msg by (intro exI [of _ "msg # new"]) simp
qed simp

lemma connect_after_init:
  "HermesWr3223_init serialPort 1 = Inr h \<Longrightarrow> connect h l = (r, h') \<Longrightarrow>
   (r = Inr () \<and> h' = connected_session serialPort) \<or> (\<exists>msg. r = Inl (SerialException msg))"
  by (auto simp: HermesWr3223_init_def adress_1 connect_def ser_open_def Serial_new_def
      connected_session_def split: if_splits)

text \<open>C31: the multi-command printer never raises the
  KeyError of its \<^verbatim>\<open>results[cmd]\<close> after a missing result, because a batch read either
  raises or answers every command; when it returns it has printed exactly the presenter's
  message for each command, in order, and no error line.\<close>

theorem debugPrintMultiCommandResult_prints_all:
  assumes "debugPrintMultiCommandResult fuel commands l out = Some (r, (l', out'))"
  shows "r \<noteq> Inl KeyError
         \<and> (r = Inr () \<longrightarrow>
              (\<exists>results new. readMultiple fuel (connected_session ''/dev/ttyUSB0'') commands l
                                = Some (Inr results, l')
                             \<and> out' = out @ new
                             \<and> map Inr new = map (\<lambda>c. getMessageByCommandResult c (the (results c))) commands))"
proof -
  obtain h where h: "HermesWr3223_init ''/dev/ttyUSB0'' 1 = Inr h"
    by (simp add: HermesWr3223_init_def adress_1)
  obtain rc h' where c: "connect h l = (rc, h')" by fastforce
  show ?thesis
  proof (cases "rc = Inr ()")
    case False
    then obtain msg where "rc = Inl (SerialException msg)" using connect_after_init [OF h c] by blast
    then show ?thesis using assms h c by (auto simp: debugPrintMultiCommandResult_def)
  next
    case True
    then have h': "h' = connected_session ''/dev/ttyUSB0''" using connect_after_init [OF h c] by blast
    obtain y where rm: "readMultiple fuel h' commands l = Some y"
      using assms h c True by (cases "readMultiple fuel h' commands l") (simp_all add: debugPrintMultiCommandResult_def)
    obtain x l1 where y: "y = (x, l1)" by fastforce
    show ?thesis
    proof (cases x)
      case (Inl e)
      then have "r = Inl e" "l' = l1" using assms h c True rm y by (simp_all add: debugPrintMultiCommandResult_def)
      moreover have "Inl e \<noteq> (Inl KeyError :: (string \<rightharpoonup> string) result)"
        using readMultiple_loop_outcome [of fuel h' commands Map.empty l x l1] rm y Inl
        by (simp add: readMultiple_def)
      ultimately show ?thesis by simp
    next
      case (Inr results)
      have dom: "dom results = set commands"
        using readMultiple_loop_dom [of fuel h' commands Map.empty l results l1] rm y Inr
        by (simp add: readMultiple_def)
      have reg: "set commands \<subseteq> set (map fst COMMANDS)"
        using readMultiple_loop_outcome [of fuel h' commands Map.empty l x l1] rm y Inr
        by (simp add: readMultiple_def)
      have "\<forall>c\<in>set commands. results c \<noteq> None \<and> c \<in> set (map fst COMMANDS)"
        using dom reg by blast
      then obtain new where pr: "print_results results commands out = (Inr (), out @ new)"
        "map Inr new = map (\<lambda>c. getMessageByCommandResult c (the (results c))) commands"
        using print_results_all by blast
      then have "r = Inr ()" "l' = l1" "out' = out @ new"
        using assms h c True rm y Inr by (simp_all add: debugPrintMultiCommandResult_def)
      then show ?thesis using pr rm y Inr h' by auto
    qed
  qed
qed

theorem debugPrintMultiCommandResult_prints_all_witness:
  "\<exists>l' out'. debugPrintMultiCommandResult 20 [''T1'', ''XX''] example_line [] = Some (Inl (ValueError ''The given Command is unknown''), (l', out'))
            \<and> (Inl (ValueError ''The given Command is unknown'') :: unit result) \<noteq> Inl KeyError"
proof -
  have "map_option (map_prod id snd) (debugPrintMultiCommandResult 20 [''T1'', ''XX''] example_line [])
        = Some (Inl (ValueError ''The given Command is unknown''), [])" by code_simp
  then obtain l' out' where d: "debugPrintMultiCommandResult 20 [''T1'', ''XX''] example_line []
      = Some (Inl (ValueError ''The given Command is unknown''), (l', out'))"
    by (cases "debugPrintMultiCommandResult 20 [''T1'', ''XX''] example_line []") auto
  then show ?thesis using debugPrintMultiCommandResult_prints_all [OF d] by blast
qed

subsection \<open>The hex dump\<close>

lemma hex2_no_colon: "n < 256 \<Longrightarrow> CHR '':'' \<notin> set (hex2 n)"
proof -
  assume "n < 256"
  then have "n div 16 < 16" "n mod 16 < 16" by auto
  then show ?thesis
    using hex_digit_not_colon [of "n div 16"] hex_digit_not_colon [of "n mod 16"] by (auto simp: hex2_def)
qed

lemma debugPrintHex_line:
  "s \<noteq> [] \<Longrightarrow> last (debugPrintHex s out)
     = butlast (concat (map (\<lambda>w. w @ [CHR '':'']) (map (\<lambda>c. hex2 (of_char c)) s)))"
  by (simp add: debugPrintHex_def py_join_terminated)

text \<open>C32: the hex dump of a non-empty string, split at its colons and each
  pair of digits read as a code point, gives the string back.\<close>

theorem debugPrintHex_roundtrip: "s \<noteq> [] \<Longrightarrow> hex_decode (last (debugPrintHex s out)) = s"
proof -
  assume s: "s \<noteq> []"
  let ?ws = "map (\<lambda>c. hex2 (of_char c)) s"
  have ne: "?ws \<noteq> []" using s by simp
  have "py_split (CHR '':'') (butlast (concat (map (\<lambda>w. w @ [CHR '':'']) ?ws))) = ?ws"
    by (rule py_split_terminated [OF ne]) (auto simp: hex2_no_colon)
  then have "py_split (CHR '':'') (last (debugPrintHex s out)) = ?ws"
    by (simp only: debugPrintHex_line [OF s])
  moreover have "char_of (16 * hex_value (hex2 (of_char c) ! 0) + hex_value (hex2 (of_char c) ! 1)) = c" for c
    using hex2_value [of "of_char c"] by simp
  ultimately show ?thesis by (simp add: hex_decode_def comp_def)
qed

theorem debugPrintHex_roundtrip_witness: "''kai'' \<noteq> [] \<and> hex_decode (last (debugPrintHex ''kai'' [])) = ''kai''"
  using debugPrintHex_roundtrip [of "''kai''" "[]"] by simp

text \<open>C33: the hex dump of a string of \<open>n \<ge> 1\<close> code points has exactly
  \<open>3 n - 1\<close> characters: two digits per code point and a colon between neighbours.\<close>

theorem debugPrintHex_length: "s \<noteq> [] \<Longrightarrow> length (last (debugPrintHex s out)) = 3 * length s - 1"
proof -
  assume "s \<noteq> []"
  then have "length (py_join '':'' (map (\<lambda>c. hex2 (of_char c)) s))
             = sum_list (map length (map (\<lambda>c. hex2 (of_char c)) s)) + length s - 1"
    using length_py_join [of "map (\<lambda>c. hex2 (of_char c)) s" "CHR '':''"] by simp
  moreover have "sum_list (map length (map (\<lambda>c. hex2 (of_char c)) s)) = 2 * length s"
    by (induction s) (simp_all add: hex2_def)
  ultimately show ?thesis by (simp add: debugPrintHex_def)
qed

theorem debugPrintHex_length_witness: "''kai'' \<noteq> [] \<and> length (last (debugPrintHex ''kai'' [])) = 8"
  using debugPrintHex_length [of "''kai''" "[]"] by simp

end
