(* ===== verification/LegacyDebug.thy ===== *)
theory LegacyDebug
  imports Legacy Debug
begin

text \<open>
  The printing functions of the earlier module \<^verbatim>\<open>src/lib/hermesWr3223.backup.py\<close>:
  \<^verbatim>\<open>printHex\<close>, the self-test \<^verbatim>\<open>testAsciiHex\<close> and \<^verbatim>\<open>main\<close>, with printing
  as lines appended to a console, as in theory \<open>Debug\<close>. The lemmas show that
  \<^verbatim>\<open>printHex\<close> is the current hex dump without its colons, and what \<^verbatim>\<open>main\<close> prints when it returns or when the port cannot be opened.
\<close>

text \<open>\<^verbatim>\<open>printHex(s)\<close>: the code points of \<open>s\<close> as two-digit hexadecimal numbers,
  joined by the empty string.\<close>

definition legacy_printHex :: "string \<Rightarrow> console \<Rightarrow> console" where
  "legacy_printHex s out = out @ [concat (map (\<lambda>c. hex2 (of_char c)) s)]"

text \<open>\<^verbatim>\<open>testAsciiHex()\<close> of the earlier module: the hand-written T1 request first, then
  the \<^verbatim>\<open>binascii\<close> round trip of \<open>kai\<close>, its hex dump, and the T1 request built by
  \<^verbatim>\<open>createReadRequest(1, "T1")\<close>.\<close>

definition legacy_testAsciiHex :: "console \<Rightarrow> unit result \<times> console" where
  "legacy_testAsciiHex out =
     (let hermesReadRequestTest = [CHR 0x04, CHR 0x30, CHR 0x30, CHR 0x31, CHR 0x31, CHR 0x54, CHR 0x31, CHR 0x05];
          out = out @ [legacy_makeHumanReadable hermesReadRequestTest] in
      sthen (encode_ascii ''kai'', out) (\<lambda>b out.
      (let out = out @ [bytes_repr (hexlify b)] in
      sthen (unhexlify ''6b6169'', out) (\<lambda>b out.
      (let out = legacy_printHex ''kai'' (out @ [bytes_repr b]) in
      sthen (legacy_createReadRequest 1 ''T1'', out) (\<lambda>requestT1 out.
      (Inr (), out @ [legacy_makeHumanReadable requestT1])))))))"

text \<open>\<^verbatim>\<open>main()\<close>, run by the module's \<^verbatim>\<open>__main__\<close> block: an empty line, a connection
  opened on \<^verbatim>\<open>/dev/ttyUSB0\<close>, the query over the registry, and the result dictionary
  printed with its keys in insertion order.\<close>

definition legacy_main :: "nat \<Rightarrow> line \<Rightarrow> console \<Rightarrow> (line \<times> console, unit) outcome" where
  "legacy_main fuel l out =
     (let out = out @ [''''] in
      case legacy_createConnection l of
        Inl e \<Rightarrow> Some (Inl e, (l, out))
      | Inr conn \<Rightarrow>
          (case legacy_query fuel conn l of
             None \<Rightarrow> None
           | Some (Inl e, l') \<Rightarrow> Some (Inl e, (l', out))
           | Some (Inr result, l') \<Rightarrow>
               Some (Inr (), (l', out @ [py_dict_repr (dict_items (map fst legacy_COMMANDS) result)]))))"

text \<open>A controller answering each of the five legacy codes with its echo and \<open>1.0\<close>.\<close>

definition legacy_example_line :: line where
  "legacy_example_line =
     \<lparr>available = True, tx = [],
      rx = concat (map (\<lambda>c. enc_rx ([STX] @ c @ '' 1.0'' @ [ETX, CHR ''x''])) (map fst legacy_COMMANDS))\<rparr>"

subsection \<open>Lemmas\<close>

lemma filter_py_join:
  "(\<forall>w\<in>set ws. c \<notin> set w) \<Longrightarrow> filter (\<lambda>x. x \<noteq> c) (py_join [c] ws) = concat ws"
  by (induction "[c]" ws rule: py_join.induct) (auto simp: filter_id_conv)

lemma legacy_query_dom:
  assumes "legacy_query fuel conn l = Some (Inr m, l')"
  shows "dom m = set (map fst legacy_COMMANDS)"
proof -
  have "legacy_query_loop fuel conn (map fst legacy_COMMANDS) Map.empty l
        = readMultiple_loop fuel (legacy_session conn) (map fst legacy_COMMANDS) Map.empty l"
    by (rule legacy_query_loop_eq) simp
  then have "readMultiple_loop fuel (legacy_session conn) (map fst legacy_COMMANDS) Map.empty l = Some (Inr m, l')"
    using assms by (simp only: legacy_query_def)
  from readMultiple_loop_dom [OF this] show ?thesis by simp
qed



subsection \<open>Claims on the legacy printers\<close>

text \<open>C37: for every string, the earlier module's
  \<^verbatim>\<open>printHex\<close> prints the current \<^verbatim>\<open>debugPrintHex\<close> line with its colons removed.\<close>

theorem legacy_printHex_equiv:
  "legacy_printHex s out = out @ [filter (\<lambda>c. c \<noteq> CHR '':'') (last (debugPrintHex s []))]"
proof -
  have "\<forall>w\<in>set (map (\<lambda>c. hex2 (of_char c)) s). CHR '':'' \<notin> set w"
    using hex2_no_colon by simp
  then show ?thesis by (simp add: legacy_printHex_def debugPrintHex_def filter_py_join)
qed

text \<open>C38: when the earlier module's \<^verbatim>\<open>main\<close> returns, it
  has opened the connection, run the query to the end, and printed an empty line and then the
  result dictionary with exactly the five registered codes, in registry order, each with the
  value the query read.\<close>

theorem legacy_main_prints_query:
  assumes "legacy_main fuel l out = Some (Inr (), (l', out'))"
  shows "\<exists>conn m. legacy_createConnection l = Inr conn \<and> legacy_query fuel conn l = Some (Inr m, l')
           \<and> out' = out @ ['''', py_dict_repr (map (\<lambda>k. (k, the (m k))) (map fst legacy_COMMANDS))]"
proof -
  obtain conn where conn: "legacy_createConnection l = Inr conn"
    using assms by (auto simp: legacy_main_def Let_def split: sum.splits)
  obtain m where q: "legacy_query fuel conn l = Some (Inr m, l')"
    and o: "out' = out @ ['''', py_dict_repr (dict_items (map fst legacy_COMMANDS) m)]"
    using assms conn by (auto simp: legacy_main_def Let_def split: option.splits prod.splits sum.splits)
  have "dict_items (map fst legacy_COMMANDS) m = map (\<lambda>k. (k, the (m k))) (map fst legacy_COMMANDS)"
    using legacy_query_dom [OF q] by (simp add: dict_items_total)
  then show ?thesis using conn q o by auto
qed

theorem legacy_main_prints_query_witness:
  "\<exists>l' out' conn m. legacy_main 20 legacy_example_line [] = Some (Inr (), (l', out'))
     \<and> legacy_createConnection legacy_example_line = Inr conn \<and> legacy_query 20 conn legacy_example_line = Some (Inr m, l')
     \<and> out' = ['''', py_dict_repr (map (\<lambda>k. (k, the (m k))) (map fst legacy_COMMANDS))]"
proof -
  have "map_option (map_prod id (\<lambda>_. ())) (legacy_main 20 legacy_example_line []) = Some (Inr (), ())"
    by code_simp
  then obtain l' out' where r: "legacy_main 20 legacy_example_line [] = Some (Inr (), (l', out'))"
    by (auto split: option.splits)
  show ?thesis using legacy_main_prints_query [OF r] r by auto
qed

text \<open>C39: when the port cannot be opened, the earlier module's
  \<^verbatim>\<open>main\<close> has printed its empty line and raises the SerialException of
  \<^verbatim>\<open>serial.Serial(...)\<close>, with the line untouched.\<close>

theorem legacy_main_port_error:
  assumes "\<not> available l"
  shows "legacy_main fuel l out = Some (Inl (SerialException ''could not open port''), (l, out @ ['''']))"
  using assms by (simp add: legacy_main_def legacy_createConnection_def ser_open_def Serial_new_def)

theorem legacy_main_port_error_witness:
  "legacy_main 20 \<lparr>available = False, tx = [], rx = []\<rparr> []
     = Some (Inl (SerialException ''could not open port''), (\<lparr>available = False, tx = [], rx = []\<rparr>, ['''']))"
  using legacy_main_port_error [of "\<lparr>available = False, tx = [], rx = []\<rparr>" 20 "[]"] by simp

end
