(* ===== verification/Spec2Isabelle.thy ===== *)
theory Spec2Isabelle
  imports Transport Presenter Legacy PluginHost Debug LegacyDebug
begin

text \<open>
  \<^bold>\<open>A verification model of the Hermes WR3223 serial client (kaepse/domoticzWGT).\<close>

  The program reads single parameters from a heat-recovery ventilation controller over a
  half-duplex serial line. Its parts, leaves first, and where they are modelled:
  \<^item> Command Registry (\<^verbatim>\<open>src/lib/hermesWr3223.py\<close>, class \<^verbatim>\<open>Command\<close>, dict
    \<^verbatim>\<open>COMMANDS\<close>, \<^verbatim>\<open>getMappedResult\<close>): theory \<open>Registry\<close>. The table is an
    association list in insertion order with every \<^verbatim>\<open>.mapping\<close> assignment applied; labels
    keep the source's code points (\<open>deg\<close>, \<open>auml\<close>, \<open>uuml\<close> are U+00B0, U+00E4,
    U+00FC).
  \<^item> Frame Codec (\<^verbatim>\<open>CONTROLCHARS\<close>, \<^verbatim>\<open>_createAdressString\<close>,
    \<^verbatim>\<open>_createReadRequest\<close>, \<^verbatim>\<open>_makeHumanReadable\<close>, \<^verbatim>\<open>_getValueFromResponse\<close>):
    theory \<open>Codec\<close>, pure functions over strings returning \<open>py_error + 'a\<close> where the code
    raises.
  \<^item> Transport Session (class \<^verbatim>\<open>HermesWr3223\<close>: constructor, \<^verbatim>\<open>isConnected\<close>,
    \<^verbatim>\<open>connect\<close>, \<^verbatim>\<open>disconnect\<close>, \<^verbatim>\<open>read\<close>, \<^verbatim>\<open>_receiveResponse\<close>,
    \<^verbatim>\<open>readMultiple\<close>): theory \<open>Transport\<close>, over the pyserial model of theory
    \<open>Serial\<close> (a port record and an explicit line: bytes written, bytes pending, silence).
  \<^item> Result Presenter (\<^verbatim>\<open>getMessageByCommandResult\<close>): theory \<open>Presenter\<close>.
  \<^item> Earlier client (\<^verbatim>\<open>src/lib/hermesWr3223.backup.py\<close>: module functions
    \<^verbatim>\<open>createConnection\<close>, \<^verbatim>\<open>createAdressStringForRequest\<close>,
    \<^verbatim>\<open>createReadRequest\<close>, \<^verbatim>\<open>receiveResponse\<close>,
    \<^verbatim>\<open>getValueFromResponse\<close>, \<^verbatim>\<open>readFromDevice\<close> and its query loop): theory
    \<open>Legacy\<close>, proved equivalent to the class-based client on its five registered codes.
  \<^item> Domoticz plugin (\<^verbatim>\<open>src/plugin.py\<close>, class \<^verbatim>\<open>BasePlugin\<close>: the command
    tuples, the constructor's device maps, \<^verbatim>\<open>createDevice\<close>, \<^verbatim>\<open>createDevices\<close>,
    \<^verbatim>\<open>createSwitchOptionsFromResultMapping\<close>, \<^verbatim>\<open>getDomoticzSwitchLevel\<close>,
    \<^verbatim>\<open>updateDevices\<close>, the device part of \<^verbatim>\<open>onStart\<close>
    (\<open>onStart_devices\<close>), and the helper \<^verbatim>\<open>UpdateDevice\<close>): theory \<open>Plugin\<close>.
    The host's \<^verbatim>\<open>Devices\<close> table is an association list from units to device records,
    threaded through each handler; a heartbeat looks up \<^verbatim>\<open>Parameters["SerialPort"]\<close>,
    builds a session at address 1, connects, calls \<open>readMultiple\<close> on all 36 codes and
    updates one device per answer (\<open>update_cmd\<close>), so it composes Transport, Presenter and
    Registry.
  \<^item> Plugin host (the whole \<^verbatim>\<open>BasePlugin.onStart\<close> and \<^verbatim>\<open>onHeartbeat\<close>, the
    module-level callbacks forwarding to \<^verbatim>\<open>_plugin\<close>): theory \<open>PluginHost\<close>. The
    host state is a record of the device table, \<^verbatim>\<open>Parameters\<close>, the debugging switch,
    the heartbeat interval and the serial line; the callbacks are a datatype of host events
    with a step function \<open>plugin_step\<close>, and the host's run is the inductive set
    \<open>host_reach\<close> of states reached from a fresh installation.
  \<^item> Debug helpers (\<^verbatim>\<open>debugPrintCommandResult\<close>,
    \<^verbatim>\<open>debugPrintMultiCommandResult\<close>, \<^verbatim>\<open>debugPrintHex\<close>, the self-test
    \<^verbatim>\<open>testAsciiHex\<close>, the \<^verbatim>\<open>__main__\<close> block): theory \<open>Debug\<close>, with printing
    as lines appended to an explicit console. The earlier module's printers
    (\<^verbatim>\<open>printHex\<close>, \<^verbatim>\<open>testAsciiHex\<close>, \<^verbatim>\<open>main\<close> and its
    \<^verbatim>\<open>__main__\<close> block): theory \<open>LegacyDebug\<close>.
  \<^item> Theory \<open>Prelude\<close> holds the Python built-ins the code calls (\<open>str(int)\<close>,
    \<open>str.replace\<close>, \<open>str.strip\<close>, \<open>str.split\<close>, indexing, \<open>list.index\<close>,
    dict assignment, ASCII encode and decode, \<open>binascii.hexlify\<close> and
    \<open>unhexlify\<close>, \<open>repr\<close> of bytes, strings and dicts as \<open>print\<close> shows them), the error type, the result and outcome types,
    and statement sequencing with exceptions (\<open>sthen\<close>, \<open>for_each\<close>).

  Control flow as in the code: \<open>read\<close> builds the request with \<open>createReadRequest\<close>,
  encodes it, writes it with \<open>ser_write\<close>, receives with \<open>receiveResponse\<close>, and passes
  the response through \<open>makeHumanReadable\<close> and \<open>getValueFromResponse\<close>;
  \<open>readMultiple\<close> runs \<open>read\<close> for each command in order and collects a map.

  Effects and errors. Every operation on the line returns an \<open>outcome\<close>: \<open>None\<close> when it
  does not return, \<open>Inl e\<close> with the state reached when it raises (Python keeps the bytes
  already written and consumed), \<open>Inr x\<close> otherwise. The blocking loop of
  \<open>_receiveResponse\<close> is \<open>receive_loop\<close> with fuel; a response body of \<open>k\<close> characters
  needs fuel above \<open>k\<close> (\<open>receive_frame\<close>), so the frame theorems below state the fuel they
  use, and on a line that never brings ETX no fuel is enough
  (\<open>receiveResponse_never_returns\<close>).

  What the lemmas show: a label lookup fails exactly on an unregistered code; the
  address encoding is correct on [0, 99], fails outside, and is inverted by the controller's
  parse; requests fail exactly on malformed or unknown codes; the value of a well-formed frame
  is its stripped payload, while a control byte before STX shifts the cut into its mnemonic
  (\<open>getValueFromResponse_leading_byte\<close>); a read on an open session writes exactly the request and returns
  that value (\<open>read_returns_value\<close>); a batch read on a line that answers each request is
  the abstract query (\<open>readMultiple_refines_query\<close>); a batch either fails as a whole or
  answers every command, and a command whose request cannot be built aborts the batch after
  the answers already read, which are lost (\<open>readMultiple_aborts_batch\<close>); a checksum
  byte of 128 or more makes the read raise UnicodeDecodeError although the checksum is never
  checked (\<open>read_checksum_high\<close>); every byte a batch puts on the line is below 128, within the 7 data
  bits of the port (\<open>readMultiple_writes_7bit\<close>); the presenter never fails on a
  registered code.

  The earlier module agrees with the current one: the same request bytes for every address
  and registered code, the same batch outcome (values, errors, line reached) on every port
  and line, the same port configuration.

  The plugin: its command tuples number the 36 registry codes as units 1 to 36; a first start
  creates exactly those devices (\<open>onStart_devices_creates_all\<close>), and the whole
  \<open>onStart\<close> also switches debugging on for \<^verbatim>\<open>Mode6 = Debug\<close> and sets the 20 s
  heartbeat (\<open>onStart_first_start\<close>); a selector's level and
  its level names sort the raw values the same way, so level 10 i names the label of the value
  read (\<open>selector_level_names_label\<close>), while a value without a label is passed through
  raw; every state the host reaches by any sequence of callbacks keeps its devices' units,
  names and types, the configuration and a heartbeat interval of 20 s or none
  (\<open>host_reach_wf\<close>, by rule induction over \<open>host_reach\<close>); without a \<^verbatim>\<open>Mode6\<close>
  parameter no start gets past the KeyError, so no device is ever created
  (\<open>host_without_Mode6\<close>); and a missing \<^verbatim>\<open>SerialPort\<close> parameter or a port that
  cannot be opened makes the heartbeat raise AttributeError from its misspelt handler.
  A heartbeat never creates or removes a device, so a device the user deleted stays deleted
  (\<open>heartbeat_keeps_deleted\<close>); the host run itself has no deletion event.
  Across the components (\<open>heartbeat_displays_values\<close>, in this theory): a heartbeat on a
  line that answers all 36 requests returns normally with the fuel of the longest answer plus
  two, and leaves every device with nValue 0 and the display of its command's stripped
  payload; it is proved from the batch refinement of the transport (\<open>readMultiple_loop_frames\<close>),
  the plugin's \<open>update_cmd_used\<close> and the independence of updates at distinct units.
  End to end (\<open>host_first_heartbeat\<close>): from a fresh installation configured with
  \<^verbatim>\<open>Mode6\<close> and \<^verbatim>\<open>SerialPort\<close> (the defaults of the plugin's
  \<^verbatim>\<open><params>\<close> block are \<open>default_Parameters\<close>), the host's start and a first
  heartbeat on an answering line both succeed and reach a state of \<open>host_reach\<close> in which
  every device created by the start shows its command's value.

  The debug printers: the multi-command printer never reaches the KeyError it would raise
  after a missing result, since a batch raises or answers every command, and on success prints
  one message per command (\<open>debugPrintMultiCommandResult_prints_all\<close>); the hex dump reads
  back to its input and has \<open>3 n - 1\<close> characters; the single-command printer on an
  answering line writes the request and prints the presenter's message
  (\<open>debugPrintCommandResult_prints\<close>); the earlier \<^verbatim>\<open>printHex\<close> is the current dump without colons;
  the earlier \<^verbatim>\<open>main\<close>, when it returns, prints the dict of all five codes in registry
  order, and raises SerialException after its empty line when the port cannot be opened.

  Not modelled: the plugin callbacks that only log (\<^verbatim>\<open>onStop\<close>, \<^verbatim>\<open>onConnect\<close>,
  \<^verbatim>\<open>onMessage\<close>, \<^verbatim>\<open>onCommand\<close>, \<^verbatim>\<open>onNotification\<close>,
  \<^verbatim>\<open>onDisconnect\<close>, \<^verbatim>\<open>DumpConfigToLog\<close>) change no state; Domoticz itself is
  external and kept only as the device table with \<^verbatim>\<open>Create\<close> and \<^verbatim>\<open>Update\<close>;
  the operating system's serial driver is reduced to the line model (parity and baud rate are
  configuration fields only); the self-tests \<^verbatim>\<open>testAsciiHex\<close> of both modules are
  modelled (with \<^verbatim>\<open>binascii\<close> and \<^verbatim>\<open>repr\<close> in theory \<open>Prelude\<close>) but no
  property is stated of them: they run fixed inputs only.
\<close>

text \<open>A controller that answers each request for command \<open>c\<close> with the frame STX,
  \<open>reply c\<close> (two echo characters and the payload), ETX and the checksum \<open>cks c\<close>.\<close>

definition device_line :: "(string \<Rightarrow> string) \<Rightarrow> (string \<Rightarrow> char) \<Rightarrow> string list \<Rightarrow> byte option list" where
  "device_line reply cks commands =
     concat (map (\<lambda>c. enc_rx ([STX] @ reply c @ [ETX, cks c])) commands)"

definition reply_ok :: "nat \<Rightarrow> (string \<Rightarrow> string) \<Rightarrow> (string \<Rightarrow> char) \<Rightarrow> string \<Rightarrow> bool" where
  "reply_ok fuel reply cks c =
     (c \<in> set (map fst COMMANDS) \<and> 2 \<le> length (reply c) \<and> frame_plain (reply c)
      \<and> ascii (reply c) \<and> of_char (cks c) < (128::nat) \<and> length (reply c) + 1 < fuel)"

definition wire_request :: "HermesWr3223 \<Rightarrow> string \<Rightarrow> byte list" where
  "wire_request h c = map byte_of_char ([EOT] @ adressMessageString h @ c @ [ENQ])"

text \<open>The abstract query: each requested command mapped to its stripped payload.\<close>

definition query_spec :: "(string \<Rightarrow> string) \<Rightarrow> string list \<Rightarrow> string \<rightharpoonup> string" where
  "query_spec reply commands = (\<lambda>c. if c \<in> set commands then Some (py_strip (drop 2 (reply c))) else None)"

text \<open>The controller of the witnesses: it answers T1 with T1 23.5 and every other
  command with T2 -3.0.\<close>

definition example_reply :: "string \<Rightarrow> string" where
  "example_reply c = (if c = ''T1'' then ''T1 23.5'' else ''T2 -3.0 '')"

definition example_cks :: "string \<Rightarrow> char" where
  "example_cks c = (if c = ''T1'' then CHR ''x'' else CHR ''y'')"

text \<open>A controller that answers every request for command \<open>c\<close> with \<open>c\<close> echoed and the raw
  value 3., and a selector device for MD as the plugin creates it.\<close>

definition example_reply_all :: "string \<Rightarrow> string" where
  "example_reply_all c = c @ '' 3.''"

definition example_md_device :: Device where
  "example_md_device = \<lparr>Name = ''MD: Mode'', TypeName = ''Selector Switch'', Options = [],
                         nValue = 0, sValue = ''''\<rparr>"

subsection \<open>Shared lemmas\<close>

lemma of_char_STX [simp]: "of_char STX = (2::nat)"
  by (simp add: STX_def)

lemma STX_ne_ETX [simp]: "STX \<noteq> ETX" "ETX \<noteq> STX"
  by (simp_all add: STX_def ETX_def)

lemma is_control_ETX [simp]: "is_control ETX"
  by (simp add: is_control_def CONTROLCHARS_def)

lemma frame_plain_no_ETX: "frame_plain s \<Longrightarrow> ETX \<notin> set s"
proof
  assume "frame_plain s" "ETX \<in> set s"
  then have "\<not> is_control ETX"
    unfolding frame_plain_def list_all_iff by blast
  then show False by simp
qed

lemma read_of_frame:
  assumes "hermes_inv h" "isConnected h" "command \<in> set (map fst COMMANDS)"
    and "frame_plain (e1 # e2 # v)" "ascii (e1 # e2 # v)" "of_char cs < (128::nat)"
    and "length v + 3 < fuel" "rx l = enc_rx ([STX] @ (e1 # e2 # v) @ [ETX, cs]) @ rest"
  shows "read fuel h command l =
           Some (Inr (py_strip v), l\<lparr>tx := tx l @ wire_request h command, rx := rest\<rparr>)"
proof -
  let ?l1 = "l\<lparr>tx := tx l @ wire_request h command\<rparr>"
  have w: "ser_write (serial h) (wire_request h command) l = (Inr (length (wire_request h command)), ?l1)"
    using assms(2) by (simp add: ser_write_def isConnected_def)
  have body: "ascii (STX # e1 # e2 # v)" "ETX \<notin> set (STX # e1 # e2 # v)"
    "length (STX # e1 # e2 # v) < fuel"
    using assms(4,5,7) frame_plain_no_ETX [OF assms(4)] by simp_all
  have "receiveResponse fuel (serial h) ?l1
        = Some (Inr ((STX # e1 # e2 # v) @ [ETX], [cs]), ?l1\<lparr>rx := rest\<rparr>)"
    using receive_frame [OF _ body(1,2) assms(6) body(3), of "serial h" ?l1 rest] assms(2,8)
    by (simp add: isConnected_def)
  moreover have "getValueFromResponse (makeHumanReadable ((STX # e1 # e2 # v) @ [ETX])) = py_strip v"
    using value_of_frame [OF assms(4)] by simp
  ultimately show ?thesis
    using read_unfold [OF assms(1,3), of fuel l] w by (simp add: wire_request_def)
qed

lemma fold_map_upd:
  "fold (\<lambda>c m. m(c \<mapsto> f c)) cs acc = (\<lambda>k. if k \<in> set cs then Some (f k) else acc k)"
  by (induction cs arbitrary: acc) (auto simp: fun_eq_iff)

lemma readMultiple_loop_frames:
  assumes "hermes_inv h" "isConnected h" "list_all (reply_ok fuel reply cks) commands"
    and "rx l = device_line reply cks commands @ rest"
  shows "readMultiple_loop fuel h commands acc l =
           Some (Inr (fold (\<lambda>c m. m(c \<mapsto> py_strip (drop 2 (reply c)))) commands acc),
                 l\<lparr>tx := tx l @ concat (map (wire_request h) commands), rx := rest\<rparr>)"
  using assms(3,4)
proof (induction commands arbitrary: acc l)
  case (Cons c cs)
  from Cons.prems have ok: "reply_ok fuel reply cks c" and oks: "list_all (reply_ok fuel reply cks) cs"
    by simp_all
  then have len: "2 \<le> length (reply c)" by (simp add: reply_ok_def)
  obtain e1 r1 where r1: "reply c = e1 # r1" using len by (cases "reply c") auto
  obtain e2 v where r: "reply c = e1 # e2 # v" using len r1 by (cases r1) auto
  let ?l1 = "l\<lparr>tx := tx l @ wire_request h c, rx := device_line reply cks cs @ rest\<rparr>"
  have frame: "frame_plain (e1 # e2 # v)" "ascii (e1 # e2 # v)" "of_char (cks c) < (128::nat)"
    "length v + 3 < fuel" "c \<in> set (map fst COMMANDS)"
    using ok r by (simp_all add: reply_ok_def)
  have line: "rx l = enc_rx ([STX] @ (e1 # e2 # v) @ [ETX, cks c]) @ (device_line reply cks cs @ rest)"
    using Cons.prems(2) r by (simp add: device_line_def)
  have rd: "read fuel h c l = Some (Inr (py_strip v), ?l1)"
    using read_of_frame [OF assms(1,2) frame(5,1,2,3,4) line] by simp
  have ih: "readMultiple_loop fuel h cs (acc(c \<mapsto> py_strip v)) ?l1 =
          Some (Inr (fold (\<lambda>c m. m(c \<mapsto> py_strip (drop 2 (reply c)))) cs (acc(c \<mapsto> py_strip v))),
                ?l1\<lparr>tx := tx ?l1 @ concat (map (wire_request h) cs), rx := rest\<rparr>)"
    using oks by (intro Cons.IH) simp_all
  have step: "readMultiple_loop fuel h (c # cs) acc l = readMultiple_loop fuel h cs (acc(c \<mapsto> py_strip v)) ?l1"
    using rd by simp
  have eq: "py_strip (drop 2 (reply c)) = py_strip v" using r by simp
  show ?case unfolding step ih by (simp only: fold_Cons comp_def eq) simp
qed (simp add: device_line_def)

subsection \<open>Properties spanning the components\<close>

text \<open>C1: on a connected session, reading a registered command
  from a line that delivers the frame STX, echo, payload, ETX, checksum writes exactly the
  request EOT, address string, command, ENQ, consumes the frame and its checksum, and returns the
  stripped payload, with fuel of payload length plus three.\<close>

theorem read_returns_value:
  assumes "hermes_inv h" "isConnected h" "command \<in> set (map fst COMMANDS)"
    and "frame_plain (e1 # e2 # v)" "ascii (e1 # e2 # v)" "of_char cs < (128::nat)"
    and "length v + 3 < fuel" "rx l = enc_rx ([STX] @ (e1 # e2 # v) @ [ETX, cs]) @ rest"
  shows "read fuel h command l =
           Some (Inr (py_strip v), l\<lparr>tx := tx l @ wire_request h command, rx := rest\<rparr>)"
  using assms by (rule read_of_frame)

theorem read_returns_value_witness:
  "read 10 example_session ''T1'' example_line =
     Some (Inr ''23.5'',
           example_line\<lparr>tx := [0x04, 0x30, 0x30, 0x31, 0x31, 0x54, 0x31, 0x05],
                        rx := enc_rx ([STX] @ ''T2 -3.0 '' @ [ETX, CHR ''y''])\<rparr>)"
proof -
  have i: "hermes_inv example_session" by code_simp
  have h: "isConnected example_session" by (simp add: isConnected_def example_session_def)
  have c: "''T1'' \<in> set (map fst COMMANDS)" by (simp add: COMMANDS_def new_Command_def)
  have f: "frame_plain (CHR ''T'' # CHR ''1'' # '' 23.5'')" "ascii (CHR ''T'' # CHR ''1'' # '' 23.5'')"
    by (simp_all add: frame_plain_def is_control_def CONTROLCHARS_def ctrl_defs)
  have r: "read 10 example_session ''T1'' example_line =
      Some (Inr (py_strip '' 23.5''),
            example_line\<lparr>tx := tx example_line @ wire_request example_session ''T1'',
                         rx := enc_rx ([STX] @ ''T2 -3.0 '' @ [ETX, CHR ''y''])\<rparr>)"
    by (rule read_returns_value [OF i h c f]) (simp_all add: example_line_def)
  show ?thesis unfolding r by code_simp
qed

text \<open>C2: on a connected session and a line on which the
  controller answers every request with a well-formed frame, the batch read returns the abstract
  query (each command mapped to its stripped payload), writes the requests in the given order and
  consumes exactly the answers.\<close>

theorem readMultiple_refines_query:
  assumes "hermes_inv h" "isConnected h" "list_all (reply_ok fuel reply cks) commands"
    and "rx l = device_line reply cks commands @ rest"
  shows "readMultiple fuel h commands l =
           Some (Inr (query_spec reply commands),
                 l\<lparr>tx := tx l @ concat (map (wire_request h) commands), rx := rest\<rparr>)"
  using readMultiple_loop_frames [OF assms, of Map.empty]
  by (simp add: readMultiple_def fold_map_upd query_spec_def)

theorem readMultiple_refines_query_witness:
  "readMultiple 20 example_session [''T1'', ''T2''] example_line =
     Some (Inr (query_spec example_reply [''T1'', ''T2'']),
           example_line\<lparr>tx := tx example_line @ concat (map (wire_request example_session) [''T1'', ''T2'']),
                        rx := []\<rparr>)
   \<and> query_spec example_reply [''T1'', ''T2''] ''T2'' = Some ''-3.0''"
proof
  have i: "hermes_inv example_session" by code_simp
  have h: "isConnected example_session" by (simp add: isConnected_def example_session_def)
  have ok: "list_all (reply_ok 20 example_reply example_cks) [''T1'', ''T2'']" by code_simp
  have l: "rx example_line = device_line example_reply example_cks [''T1'', ''T2''] @ []" by code_simp
  show "readMultiple 20 example_session [''T1'', ''T2''] example_line =
     Some (Inr (query_spec example_reply [''T1'', ''T2'']),
           example_line\<lparr>tx := tx example_line @ concat (map (wire_request example_session) [''T1'', ''T2'']),
                        rx := []\<rparr>)"
    by (rule readMultiple_refines_query [OF i h ok l])
  show "query_spec example_reply [''T1'', ''T2''] ''T2'' = Some ''-3.0''" by code_simp
qed


text \<open>C5: in a batch whose commands before some command \<open>c\<close> are all answered with
  well-formed frames, a command \<open>c\<close> whose request cannot be built (a code that is not two
  characters or is not registered) makes the whole batch raise that ValueError: the answers
  already read are consumed and lost, \<open>c\<close> and every later command are never requested,
  and whatever the line holds after the answers stays unread.\<close>

theorem readMultiple_aborts_batch:
  assumes "hermes_inv h" "isConnected h" "list_all (reply_ok fuel reply cks) answered"
    and "rx l = device_line reply cks answered @ rest"
    and "createReadRequest (adressMessageString h) c = Inl e"
  shows "readMultiple fuel h (answered @ c # later) l
         = Some (Inl e, l\<lparr>tx := tx l @ concat (map (wire_request h) answered), rx := rest\<rparr>)"
  using readMultiple_loop_frames [OF assms(1-4), of Map.empty] read_request_error [OF assms(5)]
  by (simp add: readMultiple_def readMultiple_loop_append obind_def)

theorem readMultiple_aborts_batch_witness:
  "readMultiple 20 example_session ([''T1''] @ ''XX'' # [''T2'']) example_line
   = Some (Inl (ValueError ''The given Command is unknown''),
           example_line\<lparr>tx := tx example_line @ concat (map (wire_request example_session) [''T1'']),
                        rx := enc_rx ([STX] @ ''T2 -3.0 '' @ [ETX, CHR ''y''])\<rparr>)"
proof (rule readMultiple_aborts_batch)
  show "hermes_inv example_session" by code_simp
  show "isConnected example_session" by (simp add: isConnected_def example_session_def)
  show "list_all (reply_ok 20 example_reply example_cks) [''T1'']" by code_simp
  show "rx example_line = device_line example_reply example_cks [''T1'']
                          @ enc_rx ([STX] @ ''T2 -3.0 '' @ [ETX, CHR ''y''])" by code_simp
  show "createReadRequest (adressMessageString example_session) ''XX''
        = Inl (ValueError ''The given Command is unknown'')" by code_simp
qed

text \<open>C36: the checksum byte after ETX is decoded as ASCII but never
  checked, so on a connected session a well-formed answer followed by a checksum byte of 128
  or more makes the read raise UnicodeDecodeError: the request has been written, the frame and
  the checksum are consumed, and the value already received is lost.\<close>

theorem read_checksum_high:
  assumes "hermes_inv h" "isConnected h" "command \<in> set (map fst COMMANDS)"
    and "frame_plain (ea # eb # v)" "ascii (ea # eb # v)" "length v + 3 < fuel"
    and "rx l = enc_rx ([STX] @ (ea # eb # v) @ [ETX]) @ Some b # rest" "128 \<le> unat b"
  shows "read fuel h command l
         = Some (Inl UnicodeDecodeError, l\<lparr>tx := tx l @ wire_request h command, rx := rest\<rparr>)"
proof -
  let ?l1 = "l\<lparr>tx := tx l @ wire_request h command\<rparr>"
  have w: "ser_write (serial h) (wire_request h command) l = (Inr (length (wire_request h command)), ?l1)"
    using assms(2) by (simp add: ser_write_def isConnected_def)
  have body: "ascii (STX # ea # eb # v)" "ETX \<notin> set (STX # ea # eb # v)"
    "length (STX # ea # eb # v) < fuel"
    using assms(4-6) frame_plain_no_ETX [OF assms(4)] by simp_all
  have cks: "read_char (serial h) (?l1\<lparr>rx := Some b # rest\<rparr>) = (Inl UnicodeDecodeError, ?l1\<lparr>rx := rest\<rparr>)"
    using assms(2,8) by (simp add: read_char_def ser_read1_def decode_ascii_def isConnected_def)
  have "receiveResponse fuel (serial h) ?l1 = Some (Inl UnicodeDecodeError, ?l1\<lparr>rx := rest\<rparr>)"
    using receive_body [OF _ body, of "serial h" ?l1 "Some b # rest"] assms(2,7) cks
    by (simp add: isConnected_def obind_def)
  then show ?thesis
    using read_unfold [OF assms(1,3), of fuel l] w by (simp add: wire_request_def obind_def)
qed

theorem read_checksum_high_witness:
  "read 20 example_session ''T1''
        \<lparr>available = True, tx = [], rx = enc_rx ([STX] @ ''T1 23.5'' @ [ETX]) @ [Some 200]\<rparr>
   = Some (Inl UnicodeDecodeError, \<lparr>available = True, tx = wire_request example_session ''T1'', rx = []\<rparr>)"
proof -
  have f: "frame_plain (CHR ''T'' # CHR ''1'' # '' 23.5'')"
    by (simp add: frame_plain_def is_control_def CONTROLCHARS_def ctrl_defs)
  have h: "hermes_inv example_session" by code_simp
  show ?thesis
    using read_checksum_high [where h = example_session and command = "''T1''"
        and l = "\<lparr>available = True, tx = [], rx = enc_rx ([STX] @ ''T1 23.5'' @ [ETX]) @ [Some 200]\<rparr>"
        and ea = "CHR ''T''" and eb = "CHR ''1''" and v = "'' 23.5''" and fuel = 20 and b = 200
        and rest = "[]", OF h] f
    by (simp add: isConnected_def example_session_def COMMANDS_def new_Command_def ascii_def)
qed

text \<open>C13: when the port opens and the controller
  answers the request for a registered command with a well-formed frame, the single-command
  debug printer writes exactly that request, consumes the answer, and prints one line, the
  presenter's message for the stripped payload.\<close>

theorem debugPrintCommandResult_prints:
  assumes "available l" "command \<in> set (map fst COMMANDS)"
    and "frame_plain (ea # eb # v)" "ascii (ea # eb # v)" "of_char cs < (128::nat)"
    and "length v + 3 < fuel" "rx l = enc_rx ([STX] @ (ea # eb # v) @ [ETX, cs]) @ rest"
  shows "\<exists>msg. getMessageByCommandResult command (py_strip v) = Inr msg
           \<and> debugPrintCommandResult fuel command l out
             = Some (Inr (), (l\<lparr>tx := tx l @ wire_request (connected_session ''/dev/ttyUSB0'') command,
                                rx := rest\<rparr>, out @ [msg]))"
proof -
  let ?h = "connected_session ''/dev/ttyUSB0''"
  obtain h where h: "HermesWr3223_init ''/dev/ttyUSB0'' 1 = Inr h" "connect h l = (Inr (), ?h)"
    using connect_default [OF assms(1)] by blast
  have inv: "hermes_inv ?h" "isConnected ?h" using connected_session_inv by simp_all
  have rd: "read fuel ?h command l
            = Some (Inr (py_strip v), l\<lparr>tx := tx l @ wire_request ?h command, rx := rest\<rparr>)"
    by (rule read_of_frame [OF inv assms(2-7)])
  have "map_of COMMANDS command \<noteq> None" using assms(2) by (simp add: map_of_eq_None_iff)
  then obtain entry where e: "map_of COMMANDS command = Some entry" by blast
  obtain u where "unit entry = Some u" using registered_entry [OF e] by blast
  then obtain msg where m: "getMessageByCommandResult command (py_strip v) = Inr msg"
    using message_of_registered [OF e] by blast
  show ?thesis using h rd m by (simp add: debugPrintCommandResult_def)
qed

theorem debugPrintCommandResult_prints_witness:
  "\<exists>msg. getMessageByCommandResult ''T1'' ''23.5'' = Inr msg
     \<and> debugPrintCommandResult 20 ''T1''
         \<lparr>available = True, tx = [], rx = enc_rx ([STX] @ ''T1 23.5'' @ [ETX, CHR ''x''])\<rparr> []
       = Some (Inr (), (\<lparr>available = True, tx = wire_request (connected_session ''/dev/ttyUSB0'') ''T1'',
                         rx = []\<rparr>, [msg]))"
proof -
  have f: "frame_plain (CHR ''T'' # CHR ''1'' # '' 23.5'')"
    by (simp add: frame_plain_def is_control_def CONTROLCHARS_def ctrl_defs)
  have s: "py_strip '' 23.5'' = ''23.5''" by code_simp
  show ?thesis
    using debugPrintCommandResult_prints [where l = "\<lparr>available = True, tx = [],
                rx = enc_rx ([STX] @ ''T1 23.5'' @ [ETX, CHR ''x''])\<rparr>" and command = "''T1''"
        and ea = "CHR ''T''" and eb = "CHR ''1''" and v = "'' 23.5''" and cs = "CHR ''x''"
        and fuel = 20 and rest = "[]" and out = "[]"] f s
    by (simp add: COMMANDS_def new_Command_def ascii_def)
qed

text \<open>A heartbeat on a port that opens and a line answering every request: each device
  is updated with the display of its command's payload, in the order of the commands.\<close>

lemma heartbeat_answered:
  assumes "available l" "map_of params ''SerialPort'' = Some serialPort"
    and "list_all (reply_ok fuel reply cks) usedCommands"
    and "rx l = device_line reply cks usedCommands @ rest"
  shows "updateDevices fuel BasePlugin_init params devs l
         = Some (Inr (), (fold (\<lambda>c. UpdateDevice (device_unit c) 0
                                     (display_value c (the (query_spec reply usedCommands c))))
                            usedCommands devs,
                          l\<lparr>tx := tx l @ concat (map (wire_request (connected_session serialPort)) usedCommands),
                            rx := rest\<rparr>))"
proof -
  let ?h = "connected_session serialPort"
  have inv: "hermes_inv ?h" "isConnected ?h" using connected_session_inv by simp_all
  have rm: "readMultiple fuel ?h usedCommands l
            = Some (Inr (query_spec reply usedCommands),
                    l\<lparr>tx := tx l @ concat (map (wire_request ?h) usedCommands), rx := rest\<rparr>)"
    using readMultiple_loop_frames [OF inv assms(3,4), of Map.empty]
    by (simp add: readMultiple_def fold_map_upd query_spec_def)
  have "\<forall>c\<in>set usedCommands. query_spec reply usedCommands c \<noteq> None" by (simp add: query_spec_def)
  then show ?thesis by (rule updateDevices_answered [OF assms(1,2) rm])
qed

lemma used_units_distinct: "distinct (map device_unit usedCommands)"
  by (simp add: usedCommands_units del: upt_Suc)


text \<open>C29: a heartbeat on a port that opens and a line on which
  the controller answers every one of the 36 requests with a well-formed frame returns
  normally, writes the 36 requests in order, consumes exactly the answers, and leaves each
  existing device with nValue 0 and the display of its command's stripped payload: the
  presenter's message for a text device, the selector level for a selector switch, the value
  itself otherwise.\<close>

theorem heartbeat_displays_values:
  assumes "available l" "map_of params ''SerialPort'' = Some serialPort"
    and "list_all (reply_ok fuel reply cks) usedCommands"
    and "rx l = device_line reply cks usedCommands @ rest"
    and "c \<in> set usedCommands" "map_of devs (device_unit c) = Some d"
  shows "\<exists>devs'. updateDevices fuel BasePlugin_init params devs l
            = Some (Inr (), (devs', l\<lparr>tx := tx l @ concat (map (wire_request (connected_session serialPort))
                                                              usedCommands), rx := rest\<rparr>))
          \<and> map_of devs' (device_unit c)
            = Some (d\<lparr>nValue := 0, sValue := display_value c (py_strip (drop 2 (reply c)))\<rparr>)"
proof -
  let ?h = "connected_session serialPort"
  let ?l' = "l\<lparr>tx := tx l @ concat (map (wire_request ?h) usedCommands), rx := rest\<rparr>"
  let ?upd = "\<lambda>c. UpdateDevice (device_unit c) 0 (display_value c (the (query_spec reply usedCommands c)))"
  have hb: "updateDevices fuel BasePlugin_init params devs l
                 = Some (Inr (), (fold ?upd usedCommands devs, ?l'))"
    by (rule heartbeat_answered [OF assms(1-4)])
  have "map_of (fold ?upd usedCommands devs) (device_unit c)
             = Some (d\<lparr>nValue := 0, sValue := display_value c (the (query_spec reply usedCommands c))\<rparr>)"
    using fold_UpdateDevice_at [OF used_units_distinct assms(5)] assms(6) by simp
  moreover have "the (query_spec reply usedCommands c) = py_strip (drop 2 (reply c))"
    using assms(5) by (simp add: query_spec_def)
  ultimately show ?thesis using hb by auto
qed

theorem heartbeat_displays_values_witness:
  "\<exists>devs'. updateDevices 20 BasePlugin_init [(''SerialPort'', ''/dev/ttyUSB0'')] [(1, example_md_device)]
             \<lparr>available = True, tx = [], rx = device_line example_reply_all (\<lambda>c. CHR ''x'') usedCommands\<rparr>
           = Some (Inr (), (devs', \<lparr>available = True,
                                     tx = concat (map (wire_request (connected_session ''/dev/ttyUSB0''))
                                                    usedCommands), rx = []\<rparr>))
         \<and> map_of devs' 1 = Some (example_md_device\<lparr>sValue := ''40''\<rparr>)"
proof -
  have ok: "list_all (reply_ok 20 example_reply_all (\<lambda>c. CHR ''x'')) usedCommands" by code_simp
  have u: "device_unit ''MD'' = 1" by code_simp
  have md: "''MD'' \<in> set usedCommands"
    by (simp add: usedCommands_def usedSpecificCommands_def usedSelectorSwitchCommands_def)
  have disp: "display_value ''MD'' (py_strip (drop 2 (example_reply_all ''MD''))) = ''40''" by code_simp
  show ?thesis
    using heartbeat_displays_values [where l = "\<lparr>available = True, tx = [],
                                                rx = device_line example_reply_all (\<lambda>c. CHR ''x'') usedCommands\<rparr>"
        and fuel = 20 and reply = example_reply_all and cks = "\<lambda>c. CHR ''x''" and rest = "[]"
        and c = "''MD''" and devs = "[(1, example_md_device)]" and d = example_md_device
        and serialPort = "''/dev/ttyUSB0''" and params = "[(''SerialPort'', ''/dev/ttyUSB0'')]"] ok md u disp
    by (simp add: example_md_device_def)
qed


text \<open>C40: from a fresh installation whose configuration has a
  \<^verbatim>\<open>Mode6\<close> and a \<^verbatim>\<open>SerialPort\<close> parameter, the host's start succeeds, and a first
  heartbeat on a port that opens and a line answering all 36 requests succeeds too; the state
  reached is a reachable state of the host with a 20 s heartbeat interval in which every
  command's device, with the name, type and options \<^verbatim>\<open>createDevices\<close> gave it, shows
  nValue 0 and the display of its command's stripped payload.\<close>

theorem host_first_heartbeat:
  assumes "map_of params ''Mode6'' = Some mode" "map_of params ''SerialPort'' = Some serialPort"
    and "available l" "list_all (reply_ok fuel reply cks) usedCommands"
    and "rx l = device_line reply cks usedCommands @ rest"
  shows "\<exists>st1 st2. plugin_step fuel OnStart (host_init params l_init) = Some (Inr (), st1)
           \<and> plugin_step fuel OnHeartbeat (st1\<lparr>serial_line := l\<rparr>) = Some (Inr (), st2)
           \<and> host_reach params st2 \<and> heartbeat st2 = Some 20
           \<and> (\<forall>c\<in>set usedCommands. map_of (Devices st2) (device_unit c)
                 = Some \<lparr>Name = device_name c, TypeName = device_type c, Options = device_options c,
                         nValue = 0, sValue = display_value c (py_strip (drop 2 (reply c)))\<rparr>)"
proof -
  let ?st0 = "host_init params l_init"
  let ?devs = "snd (onStart_devices BasePlugin_init [])"
  let ?st1 = "?st0\<lparr>debugging := (debugging ?st0 \<or> mode = ''Debug''), Devices := ?devs, heartbeat := Some 20\<rparr>"
  let ?upd = "\<lambda>c. UpdateDevice (device_unit c) 0 (display_value c (the (query_spec reply usedCommands c)))"
  let ?l' = "l\<lparr>tx := tx l @ concat (map (wire_request (connected_session serialPort)) usedCommands), rx := rest\<rparr>"
  let ?st2 = "?st1\<lparr>serial_line := l\<rparr>\<lparr>Devices := fold ?upd usedCommands ?devs, serial_line := ?l'\<rparr>"
  have p: "Parameters ?st0 = params" "Devices ?st0 = []" by (simp_all add: host_init_def)
  have s1: "plugin_step fuel OnStart ?st0 = Some (Inr (), ?st1)"
    using onStart_fresh [of ?st0 mode] assms(1) p by (simp add: plugin_step_def)
  have "updateDevices fuel BasePlugin_init params ?devs l = Some (Inr (), (fold ?upd usedCommands ?devs, ?l'))"
    by (rule heartbeat_answered [OF assms(3,2,4,5)])
  then have s2: "plugin_step fuel OnHeartbeat (?st1\<lparr>serial_line := l\<rparr>) = Some (Inr (), ?st2)"
    using p by (simp add: plugin_step_def onHeartbeat_def)
  have "?st0\<lparr>serial_line := l_init\<rparr> = ?st0" by (simp add: host_init_def)
  then have "plugin_step fuel OnStart (?st0\<lparr>serial_line := l_init\<rparr>) = Some (Inr (), ?st1)"
    using s1 by simp
  then have "host_reach params ?st1" by (rule host_reach.step [OF host_reach.init])
  then have r: "host_reach params ?st2" using host_reach.step s2 by blast
  have "map_of (Devices ?st2) (device_unit c)
        = Some \<lparr>Name = device_name c, TypeName = device_type c, Options = device_options c,
                nValue = 0, sValue = display_value c (py_strip (drop 2 (reply c)))\<rparr>"
    if c: "c \<in> set usedCommands" for c
    using fold_UpdateDevice_at [OF used_units_distinct c] created_device [OF c] c
    by (simp add: query_spec_def)
  then show ?thesis using s1 s2 r by auto
qed

theorem host_first_heartbeat_witness:
  "\<exists>st1 st2. plugin_step 20 OnStart (host_init default_Parameters \<lparr>available = True, tx = [], rx = []\<rparr>)
               = Some (Inr (), st1)
     \<and> plugin_step 20 OnHeartbeat
         (st1\<lparr>serial_line := \<lparr>available = True, tx = [],
                                rx = device_line example_reply_all (\<lambda>c. CHR ''x'') usedCommands\<rparr>\<rparr>)
       = Some (Inr (), st2)
     \<and> host_reach default_Parameters st2 \<and> heartbeat st2 = Some 20
     \<and> map_of (Devices st2) 1 = Some \<lparr>Name = device_name ''MD'', TypeName = device_type ''MD'',
                                       Options = device_options ''MD'', nValue = 0, sValue = ''40''\<rparr>"
proof -
  have ok: "list_all (reply_ok 20 example_reply_all (\<lambda>c. CHR ''x'')) usedCommands" by code_simp
  have u: "device_unit ''MD'' = 1" by code_simp
  have md: "''MD'' \<in> set usedCommands"
    by (simp add: usedCommands_def usedSpecificCommands_def usedSelectorSwitchCommands_def)
  have disp: "display_value ''MD'' (py_strip (drop 2 (example_reply_all ''MD''))) = ''40''" by code_simp
  show ?thesis
    using host_first_heartbeat [where params = default_Parameters and mode = "''Normal''"
        and serialPort = "''/dev/ttyUSB0''" and fuel = 20 and reply = example_reply_all
        and cks = "\<lambda>c. CHR ''x''" and rest = "[]" and l_init = "\<lparr>available = True, tx = [], rx = []\<rparr>"
        and l = "\<lparr>available = True, tx = [], rx = device_line example_reply_all (\<lambda>c. CHR ''x'') usedCommands\<rparr>"]
      ok md u disp
    by (auto simp: default_Parameters_def)
qed


text \<open>C14: a heartbeat never creates or removes a device:
  whether it returns or raises, the units of the device table are exactly those it had, in the
  same order, so a device the user deleted stays deleted (\<^verbatim>\<open>UpdateDevice\<close> skips a
  unit that is no longer in \<^verbatim>\<open>Devices\<close>).\<close>

theorem heartbeat_keeps_deleted:
  assumes "updateDevices fuel p params devs l = Some (r, (devs', l'))" "distinct (map fst devs)"
  shows "map fst devs' = map fst devs"
  using updateDevices_frame [OF assms] dev_frame_keys [of devs'] dev_frame_keys [of devs] by simp

theorem heartbeat_keeps_deleted_witness:
  "\<exists>devs' l'. updateDevices 20 BasePlugin_init [(''SerialPort'', ''/dev/ttyUSB0'')] [(2, example_md_device)]
               \<lparr>available = True, tx = [], rx = device_line example_reply_all (\<lambda>c. CHR ''x'') usedCommands\<rparr>
             = Some (Inr (), (devs', l')) \<and> map fst devs' = [2]"
proof -
  let ?l = "\<lparr>available = True, tx = [], rx = device_line example_reply_all (\<lambda>c. CHR ''x'') usedCommands\<rparr>"
  have ok: "list_all (reply_ok 20 example_reply_all (\<lambda>c. CHR ''x'')) usedCommands" by code_simp
  obtain devs' l' where u: "updateDevices 20 BasePlugin_init [(''SerialPort'', ''/dev/ttyUSB0'')]
                              [(2, example_md_device)] ?l = Some (Inr (), (devs', l'))"
    using heartbeat_answered [where l = ?l and params = "[(''SerialPort'', ''/dev/ttyUSB0'')]"
        and serialPort = "''/dev/ttyUSB0''" and fuel = 20 and reply = example_reply_all
        and cks = "\<lambda>c. CHR ''x''" and rest = "[]" and devs = "[(2, example_md_device)]"] ok
    by simp
  have "map fst devs' = map fst [(2 :: nat, example_md_device)]"
    by (rule heartbeat_keeps_deleted [OF u]) simp
  then show ?thesis using u by auto
qed

end
